theory Spec2Isabelle
  imports Main "HOL-Library.Word" "HOL-Library.Signed_Division"
begin

unbundle bit_operations_syntax

section \<open>Basic types\<close>

type_synonym u8 = "8 word"
type_synonym u16 = "16 word"
type_synonym u32 = "32 word"
type_synonym u64 = "64 word"

text \<open>
  A \<^verbatim>\<open>struct drgn_error *\<close> is an error code and a message; \<^verbatim>\<open>NULL\<close> (success)
  is the \<open>Inr\<close> side of a sum. The position and module name that
  \<^verbatim>\<open>binary_buffer_error\<close> adds to a message, and the values printed through a format
  string, are left out of the message.
\<close>

datatype drgn_error_code =
  DRGN_ERROR_NO_MEMORY | DRGN_ERROR_OVERFLOW | DRGN_ERROR_RECURSION
  | DRGN_ERROR_LOOKUP | DRGN_ERROR_OTHER

datatype drgn_error = Drgn_error drgn_error_code string

definition drgn_not_found :: drgn_error where
  "drgn_not_found = Drgn_error DRGN_ERROR_LOOKUP ''not found''"

definition drgn_error_create :: "drgn_error_code \<Rightarrow> string \<Rightarrow> drgn_error" where
  "drgn_error_create c m = Drgn_error c m"

section \<open>Binary buffer\<close>

text \<open>
  Modelled from the spec: \<^verbatim>\<open>binary_buffer.h\<close> is not among the sources. A buffer is a
  bounds-checked positional reader: \<open>bb_pos\<close> and \<open>bb_end\<close> index into the bytes
  \<open>bb_data\<close>, \<open>bb_prev\<close> is the start of the last item decoded, and every reader either
  succeeds within the remaining bytes or returns a buffer error and leaves the buffer as it
  was.
\<close>

record binary_buffer =
  bb_data :: "u8 list"
  bb_pos :: nat
  bb_end :: nat
  bb_prev :: nat
  bb_little_endian :: bool

definition binary_buffer_init :: "u8 list \<Rightarrow> bool \<Rightarrow> binary_buffer" where
  "binary_buffer_init buf little_endian =
     \<lparr>bb_data = buf, bb_pos = 0, bb_end = length buf, bb_prev = 0,
      bb_little_endian = little_endian\<rparr>"

definition binary_buffer_error :: "string \<Rightarrow> drgn_error" where
  "binary_buffer_error m = Drgn_error DRGN_ERROR_OTHER m"

definition binary_buffer_has_next :: "binary_buffer \<Rightarrow> bool" where
  "binary_buffer_has_next bb = (bb_pos bb < bb_end bb)"

text \<open>The bytes from \<open>bb_pos\<close> up to \<open>bb_end\<close>.\<close>

definition bb_remaining :: "binary_buffer \<Rightarrow> u8 list" where
  "bb_remaining bb = drop (bb_pos bb) (take (bb_end bb) (bb_data bb))"

definition bb_advance :: "binary_buffer \<Rightarrow> nat \<Rightarrow> binary_buffer" where
  "bb_advance bb n = bb\<lparr>bb_prev := bb_pos bb, bb_pos := bb_pos bb + n\<rparr>"

definition binary_buffer_skip :: "binary_buffer \<Rightarrow> nat \<Rightarrow> drgn_error + binary_buffer" where
  "binary_buffer_skip bb n =
     (if bb_end bb - bb_pos bb < n then Inl (binary_buffer_error ''expected more bytes'')
      else Inr (bb_advance bb n))"

text \<open>Unsigned value of a byte string, least significant byte first or last.\<close>

fun le_bytes_u64 :: "u8 list \<Rightarrow> u64" where
  "le_bytes_u64 [] = 0"
| "le_bytes_u64 (b # bs) = ucast b OR push_bit 8 (le_bytes_u64 bs)"

definition bytes_u64 :: "bool \<Rightarrow> u8 list \<Rightarrow> u64" where
  "bytes_u64 little_endian bs = le_bytes_u64 (if little_endian then bs else rev bs)"

text \<open>\<^verbatim>\<open>binary_buffer_next_uint\<close>: an unsigned integer of \<open>n\<close> bytes (1 to 8).\<close>

definition binary_buffer_next_uint ::
  "binary_buffer \<Rightarrow> nat \<Rightarrow> drgn_error + (u64 \<times> binary_buffer)" where
  "binary_buffer_next_uint bb n =
     (if bb_end bb - bb_pos bb < n then Inl (binary_buffer_error ''expected more bytes'')
      else Inr (bytes_u64 (bb_little_endian bb) (take n (bb_remaining bb)), bb_advance bb n))"

definition binary_buffer_next_u8 :: "binary_buffer \<Rightarrow> drgn_error + (u8 \<times> binary_buffer)" where
  "binary_buffer_next_u8 bb =
     (case binary_buffer_next_uint bb 1 of Inl e \<Rightarrow> Inl e
      | Inr (v, bb') \<Rightarrow> Inr (ucast v, bb'))"

definition binary_buffer_next_u16 :: "binary_buffer \<Rightarrow> drgn_error + (u16 \<times> binary_buffer)" where
  "binary_buffer_next_u16 bb =
     (case binary_buffer_next_uint bb 2 of Inl e \<Rightarrow> Inl e
      | Inr (v, bb') \<Rightarrow> Inr (ucast v, bb'))"

definition binary_buffer_next_u32 :: "binary_buffer \<Rightarrow> drgn_error + (u32 \<times> binary_buffer)" where
  "binary_buffer_next_u32 bb =
     (case binary_buffer_next_uint bb 4 of Inl e \<Rightarrow> Inl e
      | Inr (v, bb') \<Rightarrow> Inr (ucast v, bb'))"

definition binary_buffer_next_u64 :: "binary_buffer \<Rightarrow> drgn_error + (u64 \<times> binary_buffer)" where
  "binary_buffer_next_u64 bb = binary_buffer_next_uint bb 8"

definition binary_buffer_next_u8_into_u64 ::
  "binary_buffer \<Rightarrow> drgn_error + (u64 \<times> binary_buffer)" where
  "binary_buffer_next_u8_into_u64 bb = binary_buffer_next_uint bb 1"

definition binary_buffer_next_u16_into_u64 ::
  "binary_buffer \<Rightarrow> drgn_error + (u64 \<times> binary_buffer)" where
  "binary_buffer_next_u16_into_u64 bb = binary_buffer_next_uint bb 2"

definition binary_buffer_next_u32_into_u64 ::
  "binary_buffer \<Rightarrow> drgn_error + (u64 \<times> binary_buffer)" where
  "binary_buffer_next_u32_into_u64 bb = binary_buffer_next_uint bb 4"

text \<open>The signed readers sign-extend the value read to 64 bits.\<close>

definition binary_buffer_next_s8_into_u64 ::
  "binary_buffer \<Rightarrow> drgn_error + (u64 \<times> binary_buffer)" where
  "binary_buffer_next_s8_into_u64 bb =
     (case binary_buffer_next_uint bb 1 of Inl e \<Rightarrow> Inl e
      | Inr (v, bb') \<Rightarrow> Inr (scast (ucast v :: u8), bb'))"

definition binary_buffer_next_s16_into_u64 ::
  "binary_buffer \<Rightarrow> drgn_error + (u64 \<times> binary_buffer)" where
  "binary_buffer_next_s16_into_u64 bb =
     (case binary_buffer_next_uint bb 2 of Inl e \<Rightarrow> Inl e
      | Inr (v, bb') \<Rightarrow> Inr (scast (ucast v :: u16), bb'))"

definition binary_buffer_next_s32_into_u64 ::
  "binary_buffer \<Rightarrow> drgn_error + (u64 \<times> binary_buffer)" where
  "binary_buffer_next_s32_into_u64 bb =
     (case binary_buffer_next_uint bb 4 of Inl e \<Rightarrow> Inl e
      | Inr (v, bb') \<Rightarrow> Inr (scast (ucast v :: u32), bb'))"

definition binary_buffer_next_s64_into_u64 ::
  "binary_buffer \<Rightarrow> drgn_error + (u64 \<times> binary_buffer)" where
  "binary_buffer_next_s64_into_u64 bb = binary_buffer_next_uint bb 8"

definition binary_buffer_next_s16 :: "binary_buffer \<Rightarrow> drgn_error + (u16 \<times> binary_buffer)" where
  "binary_buffer_next_s16 bb = binary_buffer_next_u16 bb"

text \<open>
  LEB128: seven value bits a byte, least significant group first, the top bit of a byte
  saying that another byte follows. The loop runs over the remaining bytes; a tenth byte
  (shift 63) may only carry the one bit that is left. The result is the value and the
  number of bytes read.
\<close>

fun uleb128_loop :: "u8 list \<Rightarrow> nat \<Rightarrow> u64 \<Rightarrow> nat \<Rightarrow> drgn_error + (u64 \<times> nat)" where
  "uleb128_loop [] shift val n = Inl (binary_buffer_error ''expected ULEB128 number'')"
| "uleb128_loop (byte # bs) shift val n =
     (if shift = 63 \<and> byte > 1
      then Inl (binary_buffer_error ''ULEB128 number overflows unsigned 64-bit integer'')
      else let val' = val OR push_bit shift (ucast (byte AND 0x7f)) in
        if byte AND 0x80 = 0 then Inr (val', Suc n)
        else uleb128_loop bs (shift + 7) val' (Suc n))"

definition binary_buffer_next_uleb128 ::
  "binary_buffer \<Rightarrow> drgn_error + (u64 \<times> binary_buffer)" where
  "binary_buffer_next_uleb128 bb =
     (case uleb128_loop (bb_remaining bb) 0 0 0 of Inl e \<Rightarrow> Inl e
      | Inr (v, n) \<Rightarrow> Inr (v, bb_advance bb n))"

fun sleb128_loop :: "u8 list \<Rightarrow> nat \<Rightarrow> u64 \<Rightarrow> nat \<Rightarrow> drgn_error + (u64 \<times> nat)" where
  "sleb128_loop [] shift val n = Inl (binary_buffer_error ''expected SLEB128 number'')"
| "sleb128_loop (byte # bs) shift val n =
     (if shift = 63 \<and> byte \<noteq> 0 \<and> byte \<noteq> 0x7f
      then Inl (binary_buffer_error ''SLEB128 number overflows signed 64-bit integer'')
      else let val' = val OR push_bit shift (ucast (byte AND 0x7f)) in
        if byte AND 0x80 = 0
        then Inr (if shift + 7 < 64 \<and> byte AND 0x40 \<noteq> 0
                  then val' OR (NOT (push_bit (shift + 7) 1) + 1) else val', Suc n)
        else sleb128_loop bs (shift + 7) val' (Suc n))"

text \<open>A signed 64-bit result is kept as the 64-bit word of its two's complement.\<close>

definition binary_buffer_next_sleb128 ::
  "binary_buffer \<Rightarrow> drgn_error + (u64 \<times> binary_buffer)" where
  "binary_buffer_next_sleb128 bb =
     (case sleb128_loop (bb_remaining bb) 0 0 0 of Inl e \<Rightarrow> Inl e
      | Inr (v, n) \<Rightarrow> Inr (v, bb_advance bb n))"

definition binary_buffer_next_sleb128_into_u64 ::
  "binary_buffer \<Rightarrow> drgn_error + (u64 \<times> binary_buffer)" where
  "binary_buffer_next_sleb128_into_u64 bb = binary_buffer_next_sleb128 bb"




section \<open>Member bit offsets\<close>

text \<open>
  What libdw reports for an attribute: its form, the DWARF version of its unit, and the
  results of \<^verbatim>\<open>dwarf_formudata\<close> and \<^verbatim>\<open>dwarf_formblock\<close> (\<open>None\<close> when the call
  fails).
\<close>

datatype dwarf_form =
  DW_FORM_block1 | DW_FORM_block2 | DW_FORM_block4 | DW_FORM_block
  | DW_FORM_sec_offset | DW_FORM_data1 | DW_FORM_data2 | DW_FORM_data4 | DW_FORM_data8
  | DW_FORM_udata | DW_FORM_sdata | DW_FORM_other

record Dwarf_Attribute =
  attr_form :: dwarf_form
  attr_cu_version :: nat
  dwarf_formudata :: "u64 option"
  dwarf_formblock :: "u8 list option"

definition drgn_dwarf_attribute_is_block :: "Dwarf_Attribute \<Rightarrow> bool" where
  "drgn_dwarf_attribute_is_block attr =
     (attr_form attr \<in> {DW_FORM_block1, DW_FORM_block2, DW_FORM_block4, DW_FORM_block})"

definition drgn_dwarf_attribute_is_ptr :: "Dwarf_Attribute \<Rightarrow> bool" where
  "drgn_dwarf_attribute_is_ptr attr =
     (if attr_form attr = DW_FORM_sec_offset then True
      else if attr_form attr = DW_FORM_data4 \<or> attr_form attr = DW_FORM_data8
      then attr_cu_version attr \<le> 3
      else False)"

definition drgn_error_libdw :: drgn_error where
  "drgn_error_libdw = Drgn_error DRGN_ERROR_OTHER ''libdw error''"

definition invalid_data_member_location :: drgn_error where
  "invalid_data_member_location =
     drgn_error_create DRGN_ERROR_OTHER ''DW_TAG_member has invalid DW_AT_data_member_location''"

definition unsupported_data_member_location :: drgn_error where
  "unsupported_data_member_location =
     drgn_error_create DRGN_ERROR_OTHER
       ''DW_TAG_member has unsupported DW_AT_data_member_location''"

abbreviation DW_OP_plus_uconst :: u8 where "DW_OP_plus_uconst \<equiv> 0x23"

text \<open>
  The buffer of \<^verbatim>\<open>drgn_parse_dwarf_data_member_location\<close> reports every error as
  \<^verbatim>\<open>invalid_data_member_location\<close>, whatever the message.
\<close>

definition drgn_parse_dwarf_data_member_location :: "Dwarf_Attribute \<Rightarrow> drgn_error + u64" where
  "drgn_parse_dwarf_data_member_location attr =
     (if drgn_dwarf_attribute_is_block attr then
        (case dwarf_formblock attr of
           None \<Rightarrow> Inl drgn_error_libdw
         | Some block \<Rightarrow>
           (case binary_buffer_next_u8 (binary_buffer_init block True) of
              Inl e \<Rightarrow> Inl invalid_data_member_location
            | Inr (opcode, bb) \<Rightarrow>
              if opcode \<noteq> DW_OP_plus_uconst then Inl unsupported_data_member_location
              else (case binary_buffer_next_uleb128 bb of
                      Inl e \<Rightarrow> Inl invalid_data_member_location
                    | Inr (ret, bb') \<Rightarrow>
                      if binary_buffer_has_next bb' then Inl unsupported_data_member_location
                      else Inr ret)))
      else if drgn_dwarf_attribute_is_ptr attr then Inl unsupported_data_member_location
      else (case dwarf_formudata attr of
              None \<Rightarrow> Inl invalid_data_member_location
            | Some word \<Rightarrow> Inr word))"

text \<open>
  The attributes of a \<^verbatim>\<open>DW_TAG_member\<close> DIE that \<^verbatim>\<open>parse_member_offset\<close> looks up with
  \<^verbatim>\<open>dwarf_attr_integrate\<close> (\<open>None\<close> when the attribute is absent).
\<close>

record member_die =
  DW_AT_data_bit_offset :: "Dwarf_Attribute option"
  DW_AT_data_member_location :: "Dwarf_Attribute option"
  DW_AT_bit_offset :: "Dwarf_Attribute option"
  DW_AT_byte_size :: "Dwarf_Attribute option"

text \<open>
  The member's lazy object once evaluated: the bit size of the object, and what
  \<^verbatim>\<open>drgn_type_has_size\<close> and \<^verbatim>\<open>drgn_type_sizeof\<close> say about its type.
  \<^verbatim>\<open>drgn_lazy_object_evaluate\<close> itself may fail.
\<close>

record member_obj =
  obj_bit_size :: u64
  drgn_type_has_size :: bool
  drgn_type_sizeof :: "drgn_error + u64"

definition parse_member_offset ::
  "member_die \<Rightarrow> (drgn_error + member_obj) \<Rightarrow> bool \<Rightarrow> drgn_error + u64" where
  "parse_member_offset die drgn_lazy_object_evaluate little_endian =
     (case DW_AT_data_bit_offset die of
        Some attr \<Rightarrow>
          (case dwarf_formudata attr of
             None \<Rightarrow> Inl (drgn_error_create DRGN_ERROR_OTHER
                            ''DW_TAG_member has invalid DW_AT_data_bit_offset'')
           | Some bit_offset \<Rightarrow> Inr bit_offset)
      | None \<Rightarrow>
          (case (case DW_AT_data_member_location die of
                   Some attr \<Rightarrow>
                     (case drgn_parse_dwarf_data_member_location attr of
                        Inl e \<Rightarrow> Inl e
                      | Inr ret \<Rightarrow> Inr (ret * 8))
                 | None \<Rightarrow> Inr 0) of
             Inl e \<Rightarrow> Inl e
           | Inr ret \<Rightarrow>
             (case DW_AT_bit_offset die of
                None \<Rightarrow> Inr ret
              | Some attr \<Rightarrow>
                (case dwarf_formudata attr of
                   None \<Rightarrow> Inl (drgn_error_create DRGN_ERROR_OTHER
                                  ''DW_TAG_member has invalid DW_AT_bit_offset'')
                 | Some bit_offset \<Rightarrow>
                   if little_endian then
                     (case drgn_lazy_object_evaluate of
                        Inl e \<Rightarrow> Inl e
                      | Inr obj \<Rightarrow>
                        (case (case DW_AT_byte_size die of
                                 Some attr \<Rightarrow>
                                   (case dwarf_formudata attr of
                                      None \<Rightarrow> Inl (drgn_error_create DRGN_ERROR_OTHER
                                                     ''DW_TAG_member has invalid DW_AT_byte_size'')
                                    | Some word \<Rightarrow> Inr word)
                               | None \<Rightarrow>
                                   if \<not> drgn_type_has_size obj
                                   then Inl (drgn_error_create DRGN_ERROR_OTHER
                                               ''DW_TAG_member bit field type does not have size'')
                                   else drgn_type_sizeof obj) of
                           Inl e \<Rightarrow> Inl e
                         | Inr byte_size \<Rightarrow>
                             Inr (ret + (8 * byte_size - bit_offset - obj_bit_size obj))))
                   else Inr (ret + bit_offset)))))"

section \<open>Call frame information: CIEs and FDEs\<close>

type_synonym drgn_register_number = nat

text \<open>
  Modelled from the spec: \<^verbatim>\<open>cfi.h\<close> and \<^verbatim>\<open>cfi.c\<close> are not among the sources. A rule is
  one of the kinds \<^verbatim>\<open>DRGN_CFI_RULE_*\<close> that \<^verbatim>\<open>drgn_eval_dwarf_cfi\<close> builds, with the
  fields that kind has (offsets are \<^verbatim>\<open>int64_t\<close>, kept as 64-bit words; an expression
  is a place in the section and a size). Same-value is register-plus-offset of the
  register itself with offset 0, as the code sets it. A row is immutable: a CFA rule and a
  rule for every register; the setters return the new row. Allocation never fails here.
\<close>

datatype drgn_cfi_rule =
  DRGN_CFI_RULE_UNDEFINED
  | DRGN_CFI_RULE_REGISTER_PLUS_OFFSET drgn_register_number u64
  | DRGN_CFI_RULE_AT_CFA_PLUS_OFFSET u64
  | DRGN_CFI_RULE_CFA_PLUS_OFFSET u64
  | DRGN_CFI_RULE_AT_DWARF_EXPRESSION "nat \<times> nat" bool
  | DRGN_CFI_RULE_DWARF_EXPRESSION "nat \<times> nat" bool

record drgn_cfi_row =
  cfa_rule :: drgn_cfi_rule
  reg_rules :: "drgn_register_number \<Rightarrow> drgn_cfi_rule"

definition drgn_empty_cfi_row :: drgn_cfi_row where
  "drgn_empty_cfi_row =
     \<lparr>cfa_rule = DRGN_CFI_RULE_UNDEFINED, reg_rules = (\<lambda>regno. DRGN_CFI_RULE_UNDEFINED)\<rparr>"

definition drgn_cfi_row_get_cfa :: "drgn_cfi_row \<Rightarrow> drgn_cfi_rule" where
  "drgn_cfi_row_get_cfa row = cfa_rule row"

definition drgn_cfi_row_set_cfa :: "drgn_cfi_row \<Rightarrow> drgn_cfi_rule \<Rightarrow> drgn_cfi_row" where
  "drgn_cfi_row_set_cfa row rule = row\<lparr>cfa_rule := rule\<rparr>"

definition drgn_cfi_row_get_register ::
  "drgn_cfi_row \<Rightarrow> drgn_register_number \<Rightarrow> drgn_cfi_rule" where
  "drgn_cfi_row_get_register row regno = reg_rules row regno"

definition drgn_cfi_row_set_register ::
  "drgn_cfi_row \<Rightarrow> drgn_register_number \<Rightarrow> drgn_cfi_rule \<Rightarrow> drgn_cfi_row" where
  "drgn_cfi_row_set_register row regno rule = row\<lparr>reg_rules := (reg_rules row)(regno := rule)\<rparr>"

record drgn_dwarf_cie =
  cie_is_eh :: bool
  cie_address_size :: nat
  cie_address_encoding :: u8
  cie_have_augmentation_length :: bool
  cie_signal_frame :: bool
  cie_return_address_register :: drgn_register_number
  cie_code_alignment_factor :: u64
  cie_data_alignment_factor :: u64
  cie_initial_instructions :: nat
  cie_initial_instructions_size :: nat

text \<open>
  \<^verbatim>\<open>struct drgn_dwarf_fde\<close>: \<open>fde_cie\<close> is an index into the module's CIE array;
  the instructions are a position and a size in the section.
\<close>

record drgn_dwarf_fde =
  fde_cie :: nat
  fde_initial_location :: u64
  fde_address_range :: u64
  fde_instructions :: nat
  fde_instructions_size :: nat

definition drgn_dwarf_fde_compar ::
  "drgn_dwarf_fde \<Rightarrow> drgn_dwarf_fde \<Rightarrow> drgn_dwarf_cie list \<Rightarrow> int" where
  "drgn_dwarf_fde_compar a b cies =
     (if fde_initial_location a < fde_initial_location b then - 1
      else if fde_initial_location a > fde_initial_location b then 1
      else of_bool (cie_is_eh (cies ! fde_cie a)) - of_bool (cie_is_eh (cies ! fde_cie b)))"

text \<open>
  \<^verbatim>\<open>qsort_r\<close> is the C library's: it leaves the array in ascending order of the
  comparison function. Here it is an insertion sort; the order it gives to elements
  that compare equal is one of those the library may give.
\<close>

fun qsort_r_insert :: "('a \<Rightarrow> 'a \<Rightarrow> int) \<Rightarrow> 'a \<Rightarrow> 'a list \<Rightarrow> 'a list" where
  "qsort_r_insert compar x [] = [x]"
| "qsort_r_insert compar x (y # ys) =
     (if compar x y \<le> 0 then x # y # ys else y # qsort_r_insert compar x ys)"

definition qsort_r :: "'a list \<Rightarrow> ('a \<Rightarrow> 'a \<Rightarrow> 'b \<Rightarrow> int) \<Rightarrow> 'b \<Rightarrow> 'a list" where
  "qsort_r base compar arg = foldr (qsort_r_insert (\<lambda>a b. compar a b arg)) base []"

text \<open>
  The loop of \<^verbatim>\<open>drgn_debug_info_parse_frames\<close> that removes duplicates in place:
  \<open>src\<close> reads, \<open>dst\<close> writes, and the new size is the final \<open>dst\<close>.
\<close>

function dedup_fdes_loop ::
  "drgn_dwarf_fde list \<Rightarrow> nat \<Rightarrow> nat \<Rightarrow> drgn_dwarf_fde list \<times> nat" where
  "dedup_fdes_loop data src dst =
     (if src < length data then
        (if fde_initial_location (data ! src) \<noteq> fde_initial_location (data ! (dst - 1))
         then dedup_fdes_loop (if src \<noteq> dst then data[dst := data ! src] else data)
                (Suc src) (Suc dst)
         else dedup_fdes_loop data (Suc src) dst)
      else (data, dst))"
  by pat_completeness auto
termination
  by (relation "measure (\<lambda>(data, src, dst). length data - src)") auto

declare dedup_fdes_loop.simps [simp del]

text \<open>
  \<^verbatim>\<open>drgn_debug_info_parse_frames\<close>, from the vectors of CIEs and FDEs that the two calls
  of \<^verbatim>\<open>drgn_parse_dwarf_frames\<close> (\<^verbatim>\<open>.debug_frame\<close> first, then \<^verbatim>\<open>.eh_frame\<close>) have
  filled, or the error of the one that failed. The result is the module's \<open>cies\<close> and
  \<open>fdes\<close> (\<open>num_fdes\<close> is the length).
\<close>

definition drgn_debug_info_parse_frames ::
  "drgn_error + (drgn_dwarf_cie list \<times> drgn_dwarf_fde list) \<Rightarrow>
   drgn_error + (drgn_dwarf_cie list \<times> drgn_dwarf_fde list)" where
  "drgn_debug_info_parse_frames parsed =
     (case parsed of
        Inl err \<Rightarrow> Inl err
      | Inr (cies, fdes) \<Rightarrow>
          let data = qsort_r fdes drgn_dwarf_fde_compar cies in
          if length data > 0 then
            (case dedup_fdes_loop data 1 1 of (data', dst) \<Rightarrow> Inr (cies, take dst data'))
          else Inr (cies, data))"

text \<open>
  \<^verbatim>\<open>drgn_debug_info_find_fde\<close>, after the frames are parsed: binary search for the FDE
  containing \<open>unbiased_pc\<close>.
\<close>

function find_fde_loop ::
  "drgn_dwarf_fde list \<Rightarrow> u64 \<Rightarrow> nat \<Rightarrow> nat \<Rightarrow> drgn_dwarf_fde option" where
  "find_fde_loop fdes unbiased_pc lo hi =
     (if lo < hi then
        (let mid = lo + (hi - lo) div 2; fde = fdes ! mid in
         if unbiased_pc < fde_initial_location fde then find_fde_loop fdes unbiased_pc lo mid
         else if unbiased_pc - fde_initial_location fde \<ge> fde_address_range fde
         then find_fde_loop fdes unbiased_pc (mid + 1) hi
         else Some fde)
      else None)"
  by pat_completeness auto
termination
  by (relation "measure (\<lambda>(fdes, pc, lo, hi). hi - lo)") auto

declare find_fde_loop.simps [simp del]

definition drgn_debug_info_find_fde :: "drgn_dwarf_fde list \<Rightarrow> u64 \<Rightarrow> drgn_dwarf_fde option" where
  "drgn_debug_info_find_fde fdes unbiased_pc = find_fde_loop fdes unbiased_pc 0 (length fdes)"

text \<open>A CIE and an FDE with the given fields, for stating examples.\<close>

definition example_cie :: "bool \<Rightarrow> u64 \<Rightarrow> u64 \<Rightarrow> drgn_dwarf_cie" where
  "example_cie is_eh caf daf =
     \<lparr>cie_is_eh = is_eh, cie_address_size = 8, cie_address_encoding = 0,
      cie_have_augmentation_length = is_eh, cie_signal_frame = False,
      cie_return_address_register = 16, cie_code_alignment_factor = caf,
      cie_data_alignment_factor = daf, cie_initial_instructions = 0,
      cie_initial_instructions_size = 0\<rparr>"

definition example_fde :: "nat \<Rightarrow> u64 \<Rightarrow> u64 \<Rightarrow> drgn_dwarf_fde" where
  "example_fde c loc len =
     \<lparr>fde_cie = c, fde_initial_location = loc, fde_address_range = len,
      fde_instructions = 0, fde_instructions_size = 0\<rparr>"

section \<open>Location lists\<close>

text \<open>
  Modelled from the spec: \<^verbatim>\<open>uint_max\<close> (\<^verbatim>\<open>util.h\<close>) is not among the sources. It is
  the largest unsigned integer of \<open>n\<close> bytes, for \<open>n\<close> from 1 to 8.
\<close>

definition uint_max :: "nat \<Rightarrow> u64" where
  "uint_max n = mask (8 * n)"

text \<open>
  Modelled from the spec: \<^verbatim>\<open>copy_lsbytes\<close> (\<^verbatim>\<open>serialize.h\<close>) is not among the sources.
  Copying the least significant bytes of a value of \<open>src_size\<close> bytes in the given byte
  order into a host \<^verbatim>\<open>uint64_t\<close> gives the unsigned value of its low eight bytes.
\<close>

definition copy_lsbytes_u64 :: "u8 list \<Rightarrow> bool \<Rightarrow> u64" where
  "copy_lsbytes_u64 src src_little_endian =
     le_bytes_u64 (take 8 (if src_little_endian then src else rev src))"

text \<open>
  What is used of a module: its sections (\<open>None\<close> when the module has no such section,
  an error when \<^verbatim>\<open>drgn_debug_info_module_cache_section\<close> fails); of its platform the
  byte order, the address size, the architecture's map from DWARF register numbers to
  internal ones (\<open>None\<close> for \<^verbatim>\<open>DRGN_REGISTER_NUMBER_UNKNOWN\<close>) and its default CFI
  row; and the section addresses cached in \<^verbatim>\<open>module->dwarf\<close> for encoded pointers.
\<close>

datatype drgn_debug_info_scn =
  DRGN_SCN_DEBUG_INFO | DRGN_SCN_DEBUG_TYPES | DRGN_SCN_DEBUG_ABBREV | DRGN_SCN_DEBUG_STR
  | DRGN_SCN_DEBUG_LINE | DRGN_SCN_DEBUG_ADDR | DRGN_SCN_DEBUG_LOC | DRGN_SCN_DEBUG_LOCLISTS
  | DRGN_SCN_DEBUG_FRAME | DRGN_SCN_EH_FRAME | DRGN_SCN_TEXT | DRGN_SCN_GOT

record drgn_debug_info_module =
  scn_data :: "drgn_debug_info_scn \<Rightarrow> (drgn_error + u8 list) option"
  platform_little_endian :: bool
  platform_address_size :: nat
  dwarf_regno_to_internal :: "u64 \<Rightarrow> drgn_register_number option"
  default_dwarf_cfi_row :: drgn_cfi_row
  pcrel_base :: u64
  textrel_base :: u64
  datarel_base :: u64

text \<open>
  What they use of the unit's DIE: \<^verbatim>\<open>DW_AT_addr_base\<close> as \<^verbatim>\<open>dwarf_attr\<close> finds it, and
  the result of \<^verbatim>\<open>dwarf_lowpc\<close> (\<open>None\<close> when it fails).
\<close>

record cu_die =
  DW_AT_addr_base :: "Dwarf_Attribute option"
  dwarf_lowpc :: "u64 option"

text \<open>
  A location description inside a section: where it starts and its size. \<open>None\<close> is the
  \<^verbatim>\<open>NULL\<close> expression of size 0.
\<close>

type_synonym expr_ref = "(nat \<times> nat) option"

definition drgn_debug_info_buffer_init :: "u8 list \<Rightarrow> drgn_debug_info_module \<Rightarrow> binary_buffer" where
  "drgn_debug_info_buffer_init data module =
     binary_buffer_init data (platform_little_endian module)"












text \<open>For examples: a little-endian module with one section, 8-byte addresses, the DWARF
  registers 0 to 16 under their own numbers and an empty default row; and a \<^verbatim>\<open>.debug_loc\<close>
  holding the list \<open>(0x1000, 0x1100, [DW_OP_reg0])\<close>, \<open>(0x1100, 0x1200, [DW_OP_reg1])\<close>,
  \<open>(0, 0)\<close> with 4-byte addresses.\<close>

definition module_with_section :: "drgn_debug_info_scn \<Rightarrow> u8 list \<Rightarrow> drgn_debug_info_module" where
  "module_with_section scn data =
     \<lparr>scn_data = (\<lambda>s. if s = scn then Some (Inr data) else None),
      platform_little_endian = True,
      platform_address_size = 8,
      dwarf_regno_to_internal = (\<lambda>regno. if regno \<le> 16 then Some (unat regno) else None),
      default_dwarf_cfi_row = drgn_empty_cfi_row,
      pcrel_base = 0, textrel_base = 0, datarel_base = 0\<rparr>"


subsection \<open>DWARF 5 location lists\<close>

text \<open>
  \<^verbatim>\<open>drgn_dwarf_next_addrx\<close>: an index into \<^verbatim>\<open>.debug_addr\<close>. The cached
  \<open>addr_base\<close> (an offset into the section; \<open>None\<close> for \<^verbatim>\<open>NULL\<close>) is found on the
  first call and returned with the result.
\<close>

definition drgn_dwarf_next_addrx ::
  "binary_buffer \<Rightarrow> drgn_debug_info_module \<Rightarrow> cu_die \<Rightarrow> nat \<Rightarrow> nat option \<Rightarrow>
   drgn_error + (u64 \<times> binary_buffer \<times> nat option)" where
  "drgn_dwarf_next_addrx bb module cu address_size addr_base =
     (case (case addr_base of
              Some ab \<Rightarrow> Inr ab
            | None \<Rightarrow>
              (case DW_AT_addr_base cu of
                 None \<Rightarrow> Inl (drgn_error_create DRGN_ERROR_OTHER
                                ''indirect address without DW_AT_addr_base'')
               | Some attr \<Rightarrow>
                 (case dwarf_formudata attr of
                    None \<Rightarrow> Inl drgn_error_libdw
                  | Some base \<Rightarrow>
                    (case scn_data module DRGN_SCN_DEBUG_ADDR of
                       None \<Rightarrow> Inl (drgn_error_create DRGN_ERROR_OTHER
                                      ''indirect address without .debug_addr section'')
                     | Some (Inl err) \<Rightarrow> Inl err
                     | Some (Inr data) \<Rightarrow>
                       if unat base > length data \<or> base = 0
                       then Inl (drgn_error_create DRGN_ERROR_OTHER
                                   ''DW_AT_addr_base is out of bounds'')
                       else if data ! (unat base - 1) \<noteq> 0
                       then Inl (drgn_error_create DRGN_ERROR_OTHER
                                   ''unsupported segment selector size'')
                       else Inr (unat base))))) of
        Inl err \<Rightarrow> Inl err
      | Inr ab \<Rightarrow>
        (case binary_buffer_next_uleb128 bb of
           Inl err \<Rightarrow> Inl err
         | Inr (index, bb') \<Rightarrow>
           (case scn_data module DRGN_SCN_DEBUG_ADDR of
              Some (Inr data) \<Rightarrow>
                if unat index \<ge> (length data - ab) div address_size
                then Inl (binary_buffer_error ''address index is out of bounds'')
                else Inr (copy_lsbytes_u64
                            (take address_size (drop (ab + unat index * address_size) data))
                            (platform_little_endian module),
                          bb', Some ab)
            | _ \<Rightarrow> Inl (drgn_error_create DRGN_ERROR_OTHER
                          ''indirect address without .debug_addr section''))))"

text \<open>
  In the last case \<open>addr_base\<close> is set and the section is not there: the C code cannot
  get there, since \<open>addr_base\<close> is only ever set to a place in the cached section.
\<close>

abbreviation DW_LLE_end_of_list :: u8 where "DW_LLE_end_of_list \<equiv> 0x00"
abbreviation DW_LLE_base_addressx :: u8 where "DW_LLE_base_addressx \<equiv> 0x01"
abbreviation DW_LLE_startx_endx :: u8 where "DW_LLE_startx_endx \<equiv> 0x02"
abbreviation DW_LLE_startx_length :: u8 where "DW_LLE_startx_length \<equiv> 0x03"
abbreviation DW_LLE_offset_pair :: u8 where "DW_LLE_offset_pair \<equiv> 0x04"
abbreviation DW_LLE_default_location :: u8 where "DW_LLE_default_location \<equiv> 0x05"
abbreviation DW_LLE_base_address :: u8 where "DW_LLE_base_address \<equiv> 0x06"
abbreviation DW_LLE_start_end :: u8 where "DW_LLE_start_end \<equiv> 0x07"
abbreviation DW_LLE_start_length :: u8 where "DW_LLE_start_length \<equiv> 0x08"

text \<open>
  One pass through the body of a \<^verbatim>\<open>for (;;)\<close> or \<^verbatim>\<open>while\<close> loop either goes on with a
  new state (\<^verbatim>\<open>break\<close> out of the \<^verbatim>\<open>switch\<close>, then the next iteration) or returns from
  the function.
\<close>

datatype ('s, 'r) loop_step = Continue 's | Return 'r

text \<open>
  The state of the loop of \<^verbatim>\<open>drgn_dwarf5_location_list\<close>: the buffer, \<open>addr_base\<close>,
  \<open>base\<close> (\<open>None\<close> until \<open>base_valid\<close>) and the expression in \<open>*expr_ret\<close>,
  \<open>*expr_size_ret\<close>.
\<close>

type_synonym loclist5_state = "binary_buffer \<times> nat option \<times> u64 option \<times> expr_ref"

text \<open>The code at the label \<^verbatim>\<open>counted_location_description\<close>.\<close>

definition counted_location_description ::
  "binary_buffer \<Rightarrow> nat option \<Rightarrow> u64 option \<Rightarrow> expr_ref \<Rightarrow> u64 \<Rightarrow> u64 \<Rightarrow> u64 \<Rightarrow>
   (loclist5_state, drgn_error + expr_ref) loop_step" where
  "counted_location_description bb addr_base base expr_ret start len pc =
     (case binary_buffer_next_uleb128 bb of
        Inl err \<Rightarrow> Return (Inl err)
      | Inr (expr_size, bb') \<Rightarrow>
        if unat expr_size > bb_end bb' - bb_pos bb'
        then Return (Inl (binary_buffer_error ''location description size is out of bounds''))
        else if pc \<ge> start \<and> pc - start < len
        then Return (Inr (Some (bb_pos bb', unat expr_size)))
        else Continue (bb'\<lparr>bb_pos := bb_pos bb' + unat expr_size\<rparr>, addr_base, base, expr_ret))"

definition dwarf5_location_list_body ::
  "drgn_debug_info_module \<Rightarrow> cu_die \<Rightarrow> nat \<Rightarrow> u64 \<Rightarrow> loclist5_state \<Rightarrow>
   (loclist5_state, drgn_error + expr_ref) loop_step" where
  "dwarf5_location_list_body module cu address_size pc st =
     (case st of (bb0, addr_base, base, expr_ret) \<Rightarrow>
      (case binary_buffer_next_u8 bb0 of
         Inl err \<Rightarrow> Return (Inl err)
       | Inr (kind, bb) \<Rightarrow>
         if kind = DW_LLE_end_of_list then Return (Inr expr_ret)
         else if kind = DW_LLE_base_addressx then
           (case drgn_dwarf_next_addrx bb module cu address_size addr_base of
              Inl err \<Rightarrow> Return (Inl err)
            | Inr (base', bb', addr_base') \<Rightarrow> Continue (bb', addr_base', Some base', expr_ret))
         else if kind = DW_LLE_startx_endx then
           (case drgn_dwarf_next_addrx bb module cu address_size addr_base of
              Inl err \<Rightarrow> Return (Inl err)
            | Inr (start, bb', addr_base') \<Rightarrow>
              (case drgn_dwarf_next_addrx bb' module cu address_size addr_base' of
                 Inl err \<Rightarrow> Return (Inl err)
               | Inr (len, bb'', addr_base'') \<Rightarrow>
                   counted_location_description bb'' addr_base'' base expr_ret
                     start (len - start) pc))
         else if kind = DW_LLE_startx_length then
           (case drgn_dwarf_next_addrx bb module cu address_size addr_base of
              Inl err \<Rightarrow> Return (Inl err)
            | Inr (start, bb', addr_base') \<Rightarrow>
              (case binary_buffer_next_uleb128 bb' of
                 Inl err \<Rightarrow> Return (Inl err)
               | Inr (len, bb'') \<Rightarrow>
                   counted_location_description bb'' addr_base' base expr_ret start len pc))
         else if kind = DW_LLE_offset_pair then
           (case binary_buffer_next_uleb128 bb of
              Inl err \<Rightarrow> Return (Inl err)
            | Inr (start, bb') \<Rightarrow>
              (case binary_buffer_next_uleb128 bb' of
                 Inl err \<Rightarrow> Return (Inl err)
               | Inr (len, bb'') \<Rightarrow>
                 (case (case base of
                          Some b \<Rightarrow> Inr b
                        | None \<Rightarrow> (case dwarf_lowpc cu of
                                     None \<Rightarrow> Inl drgn_error_libdw
                                   | Some low_pc \<Rightarrow> Inr low_pc)) of
                    Inl err \<Rightarrow> Return (Inl err)
                  | Inr base' \<Rightarrow>
                      counted_location_description bb'' addr_base (Some base') expr_ret
                        (start + base') (len - start) pc)))
         else if kind = DW_LLE_default_location then
           (case binary_buffer_next_uleb128 bb of
              Inl err \<Rightarrow> Return (Inl err)
            | Inr (expr_size, bb') \<Rightarrow>
              if unat expr_size > bb_end bb' - bb_pos bb'
              then Return (Inl (binary_buffer_error
                                  ''location description size is out of bounds''))
              else Continue (bb'\<lparr>bb_pos := bb_pos bb' + unat expr_size\<rparr>, addr_base, base,
                             Some (bb_pos bb', unat expr_size)))
         else if kind = DW_LLE_base_address then
           (case binary_buffer_next_uint bb address_size of
              Inl err \<Rightarrow> Return (Inl err)
            | Inr (base', bb') \<Rightarrow> Continue (bb', addr_base, Some base', expr_ret))
         else if kind = DW_LLE_start_end then
           (case binary_buffer_next_uint bb address_size of
              Inl err \<Rightarrow> Return (Inl err)
            | Inr (start, bb') \<Rightarrow>
              (case binary_buffer_next_uint bb' address_size of
                 Inl err \<Rightarrow> Return (Inl err)
               | Inr (len, bb'') \<Rightarrow>
                   counted_location_description bb'' addr_base base expr_ret
                     start (len - start) pc))
         else if kind = DW_LLE_start_length then
           (case binary_buffer_next_uint bb address_size of
              Inl err \<Rightarrow> Return (Inl err)
            | Inr (start, bb') \<Rightarrow>
              (case binary_buffer_next_uleb128 bb' of
                 Inl err \<Rightarrow> Return (Inl err)
               | Inr (len, bb'') \<Rightarrow>
                   counted_location_description bb'' addr_base base expr_ret start len pc))
         else Return (Inl (binary_buffer_error ''unknown location list entry kind''))))"

text \<open>Readers only move forward, within the same bytes.\<close>

definition bb_forward :: "binary_buffer \<Rightarrow> binary_buffer \<Rightarrow> bool" where
  "bb_forward bb bb' \<longleftrightarrow>
     bb_end bb' = bb_end bb \<and> bb_pos bb \<le> bb_pos bb' \<and> bb_data bb' = bb_data bb \<and>
     bb_little_endian bb' = bb_little_endian bb"

lemma bb_forward_refl: "bb_forward bb bb"
  by (simp add: bb_forward_def)

lemma bb_forward_trans: "bb_forward a b \<Longrightarrow> bb_forward b c \<Longrightarrow> bb_forward a c"
  by (auto simp: bb_forward_def)

lemma bb_forward_pos: "bb_forward bb bb' \<Longrightarrow> bb_forward bb (bb'\<lparr>bb_pos := bb_pos bb' + n\<rparr>)"
  by (auto simp: bb_forward_def)

lemma bb_forward_advance: "bb_forward bb (bb_advance bb n)"
  by (simp add: bb_forward_def bb_advance_def)

lemma binary_buffer_next_uint_forward:
  "binary_buffer_next_uint bb n = Inr (v, bb') \<Longrightarrow> bb_forward bb bb'"
  by (auto simp: binary_buffer_next_uint_def bb_forward_advance split: if_splits)

lemma binary_buffer_next_u8_forward:
  "binary_buffer_next_u8 bb = Inr (v, bb') \<Longrightarrow>
   bb_forward bb bb' \<and> bb_pos bb < bb_end bb \<and> bb_pos bb' = Suc (bb_pos bb)"
  by (auto simp: binary_buffer_next_u8_def binary_buffer_next_uint_def bb_forward_def
      bb_advance_def split: if_splits)

lemma binary_buffer_next_uleb128_forward:
  "binary_buffer_next_uleb128 bb = Inr (v, bb') \<Longrightarrow> bb_forward bb bb'"
  by (auto simp: binary_buffer_next_uleb128_def bb_forward_advance split: sum.splits)

lemma binary_buffer_next_sleb128_forward:
  "binary_buffer_next_sleb128 bb = Inr (v, bb') \<Longrightarrow> bb_forward bb bb'"
  by (auto simp: binary_buffer_next_sleb128_def bb_forward_advance split: sum.splits)

lemma drgn_dwarf_next_addrx_forward:
  "drgn_dwarf_next_addrx bb module cu address_size addr_base = Inr (v, bb', ab) \<Longrightarrow>
   bb_forward bb bb'"
  by (auto simp: drgn_dwarf_next_addrx_def split: sum.splits option.splits if_splits
      dest: binary_buffer_next_uleb128_forward)

lemma counted_location_description_forward:
  "counted_location_description bb addr_base base expr_ret start len pc =
     Continue (bb', st') \<Longrightarrow> bb_forward bb bb'"
  by (auto simp: counted_location_description_def split: sum.splits if_splits
      dest!: binary_buffer_next_uleb128_forward intro: bb_forward_pos)

lemma lle_kind_cases:
  fixes kind :: u8
  obtains (end_of_list) "kind = DW_LLE_end_of_list"
  | (base_addressx) "kind = DW_LLE_base_addressx"
  | (startx_endx) "kind = DW_LLE_startx_endx"
  | (startx_length) "kind = DW_LLE_startx_length"
  | (offset_pair) "kind = DW_LLE_offset_pair"
  | (default_location) "kind = DW_LLE_default_location"
  | (base_address) "kind = DW_LLE_base_address"
  | (start_end) "kind = DW_LLE_start_end"
  | (start_length) "kind = DW_LLE_start_length"
  | (unknown) "kind \<notin> {0, 1, 2, 3, 4, 5, 6, 7, 8}"
  by blast

lemma dwarf5_location_list_body_forward:
  assumes "dwarf5_location_list_body module cu address_size pc (bb, st) = Continue (bb', st')"
  shows "bb_end bb' = bb_end bb \<and> bb_pos bb < bb_pos bb' \<and> bb_pos bb < bb_end bb"
proof -
  obtain addr_base base expr_ret where st: "st = (addr_base, base, expr_ret)"
    by (cases st) auto
  obtain kind bb1 where k: "binary_buffer_next_u8 bb = Inr (kind, bb1)"
    using assms st by (auto simp: dwarf5_location_list_body_def split: sum.splits)
  note f1 = binary_buffer_next_u8_forward [OF k]
  have "bb_forward bb1 bb'"
  proof (cases kind rule: lle_kind_cases)
  qed (use assms st k in \<open>auto simp: dwarf5_location_list_body_def bb_forward_def
        split: sum.splits option.splits if_splits
        dest!: binary_buffer_next_uleb128_forward binary_buffer_next_uint_forward
          drgn_dwarf_next_addrx_forward counted_location_description_forward\<close>)
  then show ?thesis using f1 by (auto simp: bb_forward_def)
qed

function dwarf5_location_list_loop ::
  "drgn_debug_info_module \<Rightarrow> cu_die \<Rightarrow> nat \<Rightarrow> u64 \<Rightarrow> loclist5_state \<Rightarrow>
   drgn_error + expr_ref" where
  "dwarf5_location_list_loop module cu address_size pc st =
     (case dwarf5_location_list_body module cu address_size pc st of
        Return r \<Rightarrow> r
      | Continue st' \<Rightarrow> dwarf5_location_list_loop module cu address_size pc st')"
  by pat_completeness auto
termination
proof (relation "measure (\<lambda>(module, cu, address_size, pc, bb, st). bb_end bb - bb_pos bb)")
  show "wf (measure (\<lambda>(module, cu, address_size, pc, bb, st). bb_end bb - bb_pos bb))"
    by simp
next
  fix module cu address_size pc and st st' :: loclist5_state
  assume "dwarf5_location_list_body module cu address_size pc st = Continue st'"
  then show "((module, cu, address_size, pc, st'), module, cu, address_size, pc, st)
      \<in> measure (\<lambda>(module, cu, address_size, pc, bb, st). bb_end bb - bb_pos bb)"
    using dwarf5_location_list_body_forward [of module cu address_size pc "fst st" "snd st"
        "fst st'" "snd st'"]
    by (cases st; cases st') auto
qed

declare dwarf5_location_list_loop.simps [simp del]

definition drgn_dwarf5_location_list ::
  "drgn_debug_info_module \<Rightarrow> nat \<Rightarrow> cu_die \<Rightarrow> nat \<Rightarrow> u64 \<Rightarrow> drgn_error + expr_ref" where
  "drgn_dwarf5_location_list module offset cu address_size pc =
     (case scn_data module DRGN_SCN_DEBUG_LOCLISTS of
        None \<Rightarrow> Inl (drgn_error_create DRGN_ERROR_OTHER
                       ''loclist without .debug_loclists section'')
      | Some (Inl err) \<Rightarrow> Inl err
      | Some (Inr data) \<Rightarrow>
          let buffer = drgn_debug_info_buffer_init data module in
          if offset > bb_end buffer - bb_pos buffer
          then Inl (drgn_error_create DRGN_ERROR_OTHER ''loclist is out of bounds'')
          else dwarf5_location_list_loop module cu address_size pc
                 (buffer\<lparr>bb_pos := bb_pos buffer + offset\<rparr>, None, None, None))"

text \<open>
  The format of a DWARF 5 location list in the spec's words: entries of the kinds
  \<^verbatim>\<open>end_of_list\<close>, \<^verbatim>\<open>base_address[x]\<close>, \<^verbatim>\<open>start[x]_end[x]\<close>, \<^verbatim>\<open>start[x]_length\<close>,
  \<^verbatim>\<open>offset_pair\<close> and \<^verbatim>\<open>default_location\<close>. \<open>dwarf5_entries\<close> decodes a whole list,
  up to its \<^verbatim>\<open>end_of_list\<close>, into its ranged entries and its default entries, in order;
  it is \<open>None\<close> when the bytes are not such a list or an address cannot be looked up.
  A ranged entry is kept with the bounds \<open>lo\<close> and \<open>hi\<close> of its range \<open>[lo, hi)\<close> as
  natural numbers: \<open>start\<close> and \<open>end\<close> for \<^verbatim>\<open>start[x]_end[x]\<close>, \<open>start\<close> and
  \<open>start + length\<close> for \<^verbatim>\<open>start[x]_length\<close>, \<open>base + start\<close> and \<open>base + end\<close> for an
  \<^verbatim>\<open>offset_pair\<close> relative to the base in force.
\<close>

datatype loc5_entry = Loc5_ranged nat nat "nat \<times> nat" | Loc5_default "nat \<times> nat"

definition location_description :: "binary_buffer \<Rightarrow> ((nat \<times> nat) \<times> binary_buffer) option" where
  "location_description bb =
     (case binary_buffer_next_uleb128 bb of
        Inl err \<Rightarrow> None
      | Inr (expr_size, bb') \<Rightarrow>
        if unat expr_size > bb_end bb' - bb_pos bb' then None
        else Some ((bb_pos bb', unat expr_size), bb'\<lparr>bb_pos := bb_pos bb' + unat expr_size\<rparr>))"

type_synonym loclist5_position = "binary_buffer \<times> nat option \<times> u64 option"

text \<open>One entry: \<open>Some None\<close> at the end of the list, otherwise the entry (\<open>None\<close> for
  an entry that only sets the base) and the position after it.\<close>

definition dwarf5_next_entry ::
  "drgn_debug_info_module \<Rightarrow> cu_die \<Rightarrow> nat \<Rightarrow> loclist5_position \<Rightarrow>
   (loc5_entry option \<times> loclist5_position) option option" where
  "dwarf5_next_entry module cu address_size st =
     (case st of (bb0, addr_base, base) \<Rightarrow>
      (case binary_buffer_next_u8 bb0 of
         Inl err \<Rightarrow> None
       | Inr (kind, bb) \<Rightarrow>
         if kind = DW_LLE_end_of_list then Some None
         else if kind = DW_LLE_base_addressx then
           (case drgn_dwarf_next_addrx bb module cu address_size addr_base of
              Inl err \<Rightarrow> None
            | Inr (b, bb', addr_base') \<Rightarrow> Some (Some (None, (bb', addr_base', Some b))))
         else if kind = DW_LLE_base_address then
           (case binary_buffer_next_uint bb address_size of
              Inl err \<Rightarrow> None
            | Inr (b, bb') \<Rightarrow> Some (Some (None, (bb', addr_base, Some b))))
         else if kind = DW_LLE_startx_endx then
           (case drgn_dwarf_next_addrx bb module cu address_size addr_base of
              Inl err \<Rightarrow> None
            | Inr (start, bb', addr_base') \<Rightarrow>
              (case drgn_dwarf_next_addrx bb' module cu address_size addr_base' of
                 Inl err \<Rightarrow> None
               | Inr (end, bb'', addr_base'') \<Rightarrow>
                 (case location_description bb'' of
                    None \<Rightarrow> None
                  | Some (expr, bb''') \<Rightarrow>
                      Some (Some (Some (Loc5_ranged (unat start) (unat end) expr),
                                  (bb''', addr_base'', base))))))
         else if kind = DW_LLE_startx_length then
           (case drgn_dwarf_next_addrx bb module cu address_size addr_base of
              Inl err \<Rightarrow> None
            | Inr (start, bb', addr_base') \<Rightarrow>
              (case binary_buffer_next_uleb128 bb' of
                 Inl err \<Rightarrow> None
               | Inr (len, bb'') \<Rightarrow>
                 (case location_description bb'' of
                    None \<Rightarrow> None
                  | Some (expr, bb''') \<Rightarrow>
                      Some (Some (Some (Loc5_ranged (unat start) (unat start + unat len) expr),
                                  (bb''', addr_base', base))))))
         else if kind = DW_LLE_start_end then
           (case binary_buffer_next_uint bb address_size of
              Inl err \<Rightarrow> None
            | Inr (start, bb') \<Rightarrow>
              (case binary_buffer_next_uint bb' address_size of
                 Inl err \<Rightarrow> None
               | Inr (end, bb'') \<Rightarrow>
                 (case location_description bb'' of
                    None \<Rightarrow> None
                  | Some (expr, bb''') \<Rightarrow>
                      Some (Some (Some (Loc5_ranged (unat start) (unat end) expr),
                                  (bb''', addr_base, base))))))
         else if kind = DW_LLE_start_length then
           (case binary_buffer_next_uint bb address_size of
              Inl err \<Rightarrow> None
            | Inr (start, bb') \<Rightarrow>
              (case binary_buffer_next_uleb128 bb' of
                 Inl err \<Rightarrow> None
               | Inr (len, bb'') \<Rightarrow>
                 (case location_description bb'' of
                    None \<Rightarrow> None
                  | Some (expr, bb''') \<Rightarrow>
                      Some (Some (Some (Loc5_ranged (unat start) (unat start + unat len) expr),
                                  (bb''', addr_base, base))))))
         else if kind = DW_LLE_offset_pair then
           (case binary_buffer_next_uleb128 bb of
              Inl err \<Rightarrow> None
            | Inr (start, bb') \<Rightarrow>
              (case binary_buffer_next_uleb128 bb' of
                 Inl err \<Rightarrow> None
               | Inr (end, bb'') \<Rightarrow>
                 (case (case base of Some b \<Rightarrow> Some b | None \<Rightarrow> dwarf_lowpc cu) of
                    None \<Rightarrow> None
                  | Some b \<Rightarrow>
                    (case location_description bb'' of
                       None \<Rightarrow> None
                     | Some (expr, bb''') \<Rightarrow>
                         Some (Some (Some (Loc5_ranged (unat b + unat start)
                                             (unat b + unat end) expr),
                                     (bb''', addr_base, Some b)))))))
         else if kind = DW_LLE_default_location then
           (case location_description bb of
              None \<Rightarrow> None
            | Some (expr, bb') \<Rightarrow> Some (Some (Some (Loc5_default expr), (bb', addr_base, base))))
         else None))"

lemma location_description_forward:
  "location_description bb = Some (expr, bb') \<Longrightarrow> bb_forward bb bb'"
  by (auto simp: location_description_def bb_forward_def split: sum.splits if_splits
      dest!: binary_buffer_next_uleb128_forward)

lemma dwarf5_next_entry_forward:
  assumes "dwarf5_next_entry module cu address_size (bb, st) = Some (Some (e, bb', st'))"
  shows "bb_end bb' = bb_end bb \<and> bb_pos bb < bb_pos bb' \<and> bb_pos bb < bb_end bb"
proof -
  obtain addr_base base where st: "st = (addr_base, base)"
    by (cases st) auto
  obtain kind bb1 where k: "binary_buffer_next_u8 bb = Inr (kind, bb1)"
    using assms st by (auto simp: dwarf5_next_entry_def split: sum.splits)
  note f1 = binary_buffer_next_u8_forward [OF k]
  have "bb_forward bb1 bb'"
  proof (cases kind rule: lle_kind_cases)
  qed (use assms st k in \<open>auto simp: dwarf5_next_entry_def bb_forward_def
        split: sum.splits option.splits
        dest!: binary_buffer_next_uleb128_forward binary_buffer_next_uint_forward
          drgn_dwarf_next_addrx_forward location_description_forward\<close>)
  then show ?thesis using f1 by (auto simp: bb_forward_def)
qed

function dwarf5_entries ::
  "drgn_debug_info_module \<Rightarrow> cu_die \<Rightarrow> nat \<Rightarrow> loclist5_position \<Rightarrow> loc5_entry list option" where
  "dwarf5_entries module cu address_size st =
     (case dwarf5_next_entry module cu address_size st of
        None \<Rightarrow> None
      | Some None \<Rightarrow> Some []
      | Some (Some (e, st')) \<Rightarrow>
        (case dwarf5_entries module cu address_size st' of
           None \<Rightarrow> None
         | Some es \<Rightarrow> Some (case e of None \<Rightarrow> es | Some x \<Rightarrow> x # es)))"
  by pat_completeness auto
termination
proof (relation "measure (\<lambda>(module, cu, address_size, bb, st). bb_end bb - bb_pos bb)")
  show "wf (measure (\<lambda>(module, cu, address_size, bb, st). bb_end bb - bb_pos bb))"
    by simp
next
  fix module cu address_size and st :: loclist5_position and x2 x2a e st'
  assume "dwarf5_next_entry module cu address_size st = Some x2" "x2 = Some x2a"
    "(e, st') = x2a"
  then have "dwarf5_next_entry module cu address_size (fst st, snd st)
      = Some (Some (e, fst st', snd st'))" by simp
  from dwarf5_next_entry_forward [OF this]
  show "((module, cu, address_size, st'), module, cu, address_size, st)
      \<in> measure (\<lambda>(module, cu, address_size, bb, st). bb_end bb - bb_pos bb)"
    by (cases st; cases st') auto
qed

declare dwarf5_entries.simps [simp del]

text \<open>
  What the walk is to return, in the spec's words: a ranged entry that covers the PC (its
  range \<open>[lo, hi)\<close> contains the PC) is returned when reached, so the first such entry
  wins; a default location matches only if no ranged entry covers the PC, and then the
  last one wins.
\<close>

fun loc5_covers :: "u64 \<Rightarrow> loc5_entry \<Rightarrow> bool" where
  "loc5_covers pc (Loc5_ranged lo hi expr) = (lo \<le> unat pc \<and> unat pc < hi)"
| "loc5_covers pc (Loc5_default expr) = False"

text \<open>
  A ranged entry is well formed when its range does not end before it starts and starts
  at a 64-bit address.
\<close>

fun loc5_well_formed :: "loc5_entry \<Rightarrow> bool" where
  "loc5_well_formed (Loc5_ranged lo hi expr) = (lo \<le> hi \<and> lo < 2 ^ 64)"
| "loc5_well_formed (Loc5_default expr) = True"

fun loc5_expr :: "loc5_entry \<Rightarrow> nat \<times> nat" where
  "loc5_expr (Loc5_ranged lo hi expr) = expr"
| "loc5_expr (Loc5_default expr) = expr"

fun loc5_is_default :: "loc5_entry \<Rightarrow> bool" where
  "loc5_is_default (Loc5_ranged lo hi expr) = False"
| "loc5_is_default (Loc5_default expr) = True"

definition dwarf5_select_from :: "expr_ref \<Rightarrow> u64 \<Rightarrow> loc5_entry list \<Rightarrow> expr_ref" where
  "dwarf5_select_from expr_ret pc es =
     (case find (loc5_covers pc) es of
        Some e \<Rightarrow> Some (loc5_expr e)
      | None \<Rightarrow>
        (case filter loc5_is_default es of
           [] \<Rightarrow> expr_ret
         | d # ds \<Rightarrow> Some (loc5_expr (last (d # ds)))))"

definition dwarf5_select :: "u64 \<Rightarrow> loc5_entry list \<Rightarrow> expr_ref" where
  "dwarf5_select pc es = dwarf5_select_from None pc es"

section \<open>Call frame information: instructions\<close>

abbreviation DW_EH_PE_absptr :: u8 where "DW_EH_PE_absptr \<equiv> 0x00"
abbreviation DW_EH_PE_uleb128 :: u8 where "DW_EH_PE_uleb128 \<equiv> 0x01"
abbreviation DW_EH_PE_udata2 :: u8 where "DW_EH_PE_udata2 \<equiv> 0x02"
abbreviation DW_EH_PE_udata4 :: u8 where "DW_EH_PE_udata4 \<equiv> 0x03"
abbreviation DW_EH_PE_udata8 :: u8 where "DW_EH_PE_udata8 \<equiv> 0x04"
abbreviation DW_EH_PE_sleb128 :: u8 where "DW_EH_PE_sleb128 \<equiv> 0x09"
abbreviation DW_EH_PE_sdata2 :: u8 where "DW_EH_PE_sdata2 \<equiv> 0x0a"
abbreviation DW_EH_PE_sdata4 :: u8 where "DW_EH_PE_sdata4 \<equiv> 0x0b"
abbreviation DW_EH_PE_sdata8 :: u8 where "DW_EH_PE_sdata8 \<equiv> 0x0c"
abbreviation DW_EH_PE_pcrel :: u8 where "DW_EH_PE_pcrel \<equiv> 0x10"
abbreviation DW_EH_PE_textrel :: u8 where "DW_EH_PE_textrel \<equiv> 0x20"
abbreviation DW_EH_PE_datarel :: u8 where "DW_EH_PE_datarel \<equiv> 0x30"
abbreviation DW_EH_PE_funcrel :: u8 where "DW_EH_PE_funcrel \<equiv> 0x40"
abbreviation DW_EH_PE_aligned :: u8 where "DW_EH_PE_aligned \<equiv> 0x50"
abbreviation DW_EH_PE_indirect :: u8 where "DW_EH_PE_indirect \<equiv> 0x80"

definition unknown_fde_encoding :: drgn_error where
  "unknown_fde_encoding = binary_buffer_error ''unknown EH encoding''"

text \<open>
  \<^verbatim>\<open>drgn_dwarf_cfi_next_encoded\<close>: its two \<^verbatim>\<open>switch\<close> statements, on the base and on
  the format of the offset, and the function. The buffer's bytes are those of the section,
  so the position in the section is \<open>bb_pos\<close>.
\<close>

definition cfi_encoded_base ::
  "binary_buffer \<Rightarrow> drgn_debug_info_module \<Rightarrow> nat \<Rightarrow> u8 \<Rightarrow> u64 \<Rightarrow>
   drgn_error + (u64 \<times> binary_buffer)" where
  "cfi_encoded_base bb module address_size encoding func_addr =
     (let pos = bb_pos bb; b = encoding AND 0x70 in
      if b = DW_EH_PE_absptr then Inr (0, bb)
      else if b = DW_EH_PE_pcrel then Inr (pcrel_base module + of_nat pos, bb)
      else if b = DW_EH_PE_textrel then Inr (textrel_base module, bb)
      else if b = DW_EH_PE_datarel then Inr (datarel_base module, bb)
      else if b = DW_EH_PE_funcrel then Inr (func_addr, bb)
      else if b = DW_EH_PE_aligned then
        (if pos mod address_size \<noteq> 0
         then (case binary_buffer_skip bb (address_size - pos mod address_size) of
                 Inl err \<Rightarrow> Inl err
               | Inr bb' \<Rightarrow> Inr (0, bb'))
         else Inr (0, bb))
      else Inl unknown_fde_encoding)"

definition cfi_encoded_offset ::
  "binary_buffer \<Rightarrow> nat \<Rightarrow> u8 \<Rightarrow> drgn_error + (u64 \<times> binary_buffer)" where
  "cfi_encoded_offset bb address_size encoding =
     (let f = encoding AND 0xf in
      if f = DW_EH_PE_absptr then binary_buffer_next_uint bb address_size
      else if f = DW_EH_PE_uleb128 then binary_buffer_next_uleb128 bb
      else if f = DW_EH_PE_udata2 then binary_buffer_next_u16_into_u64 bb
      else if f = DW_EH_PE_udata4 then binary_buffer_next_u32_into_u64 bb
      else if f = DW_EH_PE_udata8 then binary_buffer_next_u64 bb
      else if f = DW_EH_PE_sleb128 then binary_buffer_next_sleb128_into_u64 bb
      else if f = DW_EH_PE_sdata2 then binary_buffer_next_s16_into_u64 bb
      else if f = DW_EH_PE_sdata4 then binary_buffer_next_s32_into_u64 bb
      else if f = DW_EH_PE_sdata8 then binary_buffer_next_s64_into_u64 bb
      else Inl unknown_fde_encoding)"

definition drgn_dwarf_cfi_next_encoded ::
  "binary_buffer \<Rightarrow> drgn_debug_info_module \<Rightarrow> nat \<Rightarrow> u8 \<Rightarrow> u64 \<Rightarrow>
   drgn_error + (u64 \<times> binary_buffer)" where
  "drgn_dwarf_cfi_next_encoded bb module address_size encoding func_addr =
     (if encoding AND DW_EH_PE_indirect \<noteq> 0 then Inl unknown_fde_encoding
      else
        (case cfi_encoded_base bb module address_size encoding func_addr of
           Inl err \<Rightarrow> Inl err
         | Inr (base, bb1) \<Rightarrow>
           (case cfi_encoded_offset bb1 address_size encoding of
              Inl err \<Rightarrow> Inl err
            | Inr (offset, bb2) \<Rightarrow> Inr ((base + offset) AND uint_max address_size, bb2))))"

text \<open>
  The offsets of CFI instructions. \<^verbatim>\<open>__builtin_mul_overflow\<close> computes the product of
  its operands as integers and reports whether it fits the result type, here
  \<^verbatim>\<open>int64_t\<close>.
\<close>

definition int64_fits :: "int \<Rightarrow> bool" where
  "int64_fits i \<longleftrightarrow> - (2 ^ 63) \<le> i \<and> i < 2 ^ 63"

definition offset_is_too_large :: drgn_error where
  "offset_is_too_large = binary_buffer_error ''offset is too large''"

definition drgn_dwarf_cfi_next_offset ::
  "binary_buffer \<Rightarrow> drgn_error + (u64 \<times> binary_buffer)" where
  "drgn_dwarf_cfi_next_offset bb =
     (case binary_buffer_next_uleb128 bb of
        Inl err \<Rightarrow> Inl err
      | Inr (offset, bb') \<Rightarrow>
        if uint offset > 2 ^ 63 - 1 then Inl offset_is_too_large else Inr (offset, bb'))"

definition drgn_dwarf_cfi_next_offset_sf ::
  "binary_buffer \<Rightarrow> drgn_dwarf_cie \<Rightarrow> drgn_error + (u64 \<times> binary_buffer)" where
  "drgn_dwarf_cfi_next_offset_sf bb cie =
     (case binary_buffer_next_sleb128 bb of
        Inl err \<Rightarrow> Inl err
      | Inr (factored, bb') \<Rightarrow>
        let product = sint factored * sint (cie_data_alignment_factor cie) in
        if \<not> int64_fits product then Inl offset_is_too_large
        else Inr (word_of_int product, bb'))"

definition drgn_dwarf_cfi_next_offset_f ::
  "binary_buffer \<Rightarrow> drgn_dwarf_cie \<Rightarrow> drgn_error + (u64 \<times> binary_buffer)" where
  "drgn_dwarf_cfi_next_offset_f bb cie =
     (case binary_buffer_next_uleb128 bb of
        Inl err \<Rightarrow> Inl err
      | Inr (factored, bb') \<Rightarrow>
        let product = uint factored * sint (cie_data_alignment_factor cie) in
        if \<not> int64_fits product then Inl offset_is_too_large
        else Inr (word_of_int product, bb'))"

definition drgn_dwarf_cfi_next_block ::
  "binary_buffer \<Rightarrow> drgn_error + ((nat \<times> nat) \<times> binary_buffer)" where
  "drgn_dwarf_cfi_next_block bb =
     (case binary_buffer_next_uleb128 bb of
        Inl err \<Rightarrow> Inl err
      | Inr (block_size, bb') \<Rightarrow>
        if unat block_size > bb_end bb' - bb_pos bb'
        then Inl (binary_buffer_error ''block is out of bounds'')
        else Inr ((bb_pos bb', unat block_size),
                  bb'\<lparr>bb_pos := bb_pos bb' + unat block_size\<rparr>))"

abbreviation DW_CFA_advance_loc :: u8 where "DW_CFA_advance_loc \<equiv> 0x40"
abbreviation DW_CFA_offset :: u8 where "DW_CFA_offset \<equiv> 0x80"
abbreviation DW_CFA_restore :: u8 where "DW_CFA_restore \<equiv> 0xc0"
abbreviation DW_CFA_nop :: u8 where "DW_CFA_nop \<equiv> 0x00"
abbreviation DW_CFA_set_loc :: u8 where "DW_CFA_set_loc \<equiv> 0x01"
abbreviation DW_CFA_advance_loc1 :: u8 where "DW_CFA_advance_loc1 \<equiv> 0x02"
abbreviation DW_CFA_advance_loc2 :: u8 where "DW_CFA_advance_loc2 \<equiv> 0x03"
abbreviation DW_CFA_advance_loc4 :: u8 where "DW_CFA_advance_loc4 \<equiv> 0x04"
abbreviation DW_CFA_offset_extended :: u8 where "DW_CFA_offset_extended \<equiv> 0x05"
abbreviation DW_CFA_restore_extended :: u8 where "DW_CFA_restore_extended \<equiv> 0x06"
abbreviation DW_CFA_undefined :: u8 where "DW_CFA_undefined \<equiv> 0x07"
abbreviation DW_CFA_same_value :: u8 where "DW_CFA_same_value \<equiv> 0x08"
abbreviation DW_CFA_register :: u8 where "DW_CFA_register \<equiv> 0x09"
abbreviation DW_CFA_remember_state :: u8 where "DW_CFA_remember_state \<equiv> 0x0a"
abbreviation DW_CFA_restore_state :: u8 where "DW_CFA_restore_state \<equiv> 0x0b"
abbreviation DW_CFA_def_cfa :: u8 where "DW_CFA_def_cfa \<equiv> 0x0c"
abbreviation DW_CFA_def_cfa_register :: u8 where "DW_CFA_def_cfa_register \<equiv> 0x0d"
abbreviation DW_CFA_def_cfa_offset :: u8 where "DW_CFA_def_cfa_offset \<equiv> 0x0e"
abbreviation DW_CFA_def_cfa_expression :: u8 where "DW_CFA_def_cfa_expression \<equiv> 0x0f"
abbreviation DW_CFA_expression :: u8 where "DW_CFA_expression \<equiv> 0x10"
abbreviation DW_CFA_offset_extended_sf :: u8 where "DW_CFA_offset_extended_sf \<equiv> 0x11"
abbreviation DW_CFA_def_cfa_sf :: u8 where "DW_CFA_def_cfa_sf \<equiv> 0x12"
abbreviation DW_CFA_def_cfa_offset_sf :: u8 where "DW_CFA_def_cfa_offset_sf \<equiv> 0x13"
abbreviation DW_CFA_val_offset :: u8 where "DW_CFA_val_offset \<equiv> 0x14"
abbreviation DW_CFA_val_offset_sf :: u8 where "DW_CFA_val_offset_sf \<equiv> 0x15"
abbreviation DW_CFA_val_expression :: u8 where "DW_CFA_val_expression \<equiv> 0x16"

text \<open>
  The state of the loop of \<^verbatim>\<open>drgn_eval_dwarf_cfi\<close>: the buffer, the current location
  \<open>pc\<close>, the row \<^verbatim>\<open>*row\<close> and the state stack (its top is the head of the list).
  The function returns an error or, at \<^verbatim>\<open>found\<close> and at the end of the instructions,
  the row.
\<close>

type_synonym cfi_state = "binary_buffer \<times> u64 \<times> drgn_cfi_row \<times> drgn_cfi_row list"

definition invalid_for_initial :: "(cfi_state, drgn_error + drgn_cfi_row) loop_step" where
  "invalid_for_initial = Return (Inl (binary_buffer_error ''invalid initial DWARF CFI opcode''))"

text \<open>The code at the labels \<^verbatim>\<open>advance_loc\<close>, \<^verbatim>\<open>set_cfa\<close>, \<^verbatim>\<open>set_reg\<close> and
  \<^verbatim>\<open>restore\<close>.\<close>

definition cfi_advance_loc ::
  "drgn_dwarf_cie \<Rightarrow> u64 \<Rightarrow> u64 \<Rightarrow> cfi_state \<Rightarrow> (cfi_state, drgn_error + drgn_cfi_row) loop_step"
  where
  "cfi_advance_loc cie target tmp st =
     (case st of (bb, pc, row, state_stack) \<Rightarrow>
        let product = unat tmp * unat (cie_code_alignment_factor cie) in
        if product \<ge> 2 ^ 64 \<or> unat pc + product \<ge> 2 ^ 64 \<or>
           (of_nat (unat pc + product) :: u64) > uint_max (cie_address_size cie)
        then Return (Inl (drgn_error_create DRGN_ERROR_OTHER
                            ''DW_CFA_advance_loc* overflows location''))
        else
          let pc' = of_nat (unat pc + product) in
          if pc' > target then Return (Inr row)
          else Continue (bb, pc', row, state_stack))"

definition cfi_set_cfa ::
  "drgn_cfi_rule \<Rightarrow> cfi_state \<Rightarrow> (cfi_state, drgn_error + drgn_cfi_row) loop_step" where
  "cfi_set_cfa rule st =
     (case st of (bb, pc, row, state_stack) \<Rightarrow>
        Continue (bb, pc, drgn_cfi_row_set_cfa row rule, state_stack))"

definition cfi_set_reg ::
  "drgn_register_number \<Rightarrow> drgn_cfi_rule \<Rightarrow> cfi_state \<Rightarrow>
   (cfi_state, drgn_error + drgn_cfi_row) loop_step" where
  "cfi_set_reg regno rule st =
     (case st of (bb, pc, row, state_stack) \<Rightarrow>
        Continue (bb, pc, drgn_cfi_row_set_register row regno rule, state_stack))"

definition cfi_restore ::
  "drgn_debug_info_module \<Rightarrow> drgn_cfi_row \<Rightarrow> u64 \<Rightarrow> cfi_state \<Rightarrow>
   (cfi_state, drgn_error + drgn_cfi_row) loop_step" where
  "cfi_restore module initial_row dwarf_regno st =
     (case dwarf_regno_to_internal module dwarf_regno of
        None \<Rightarrow> Continue st
      | Some regno \<Rightarrow> cfi_set_reg regno (drgn_cfi_row_get_register initial_row regno) st)"

text \<open>
  The \<^verbatim>\<open>switch\<close> of \<^verbatim>\<open>drgn_eval_dwarf_cfi\<close> on \<open>key\<close>, which is
  \<^verbatim>\<open>(opcode & 0xc0) ? (opcode & 0xc0) : opcode\<close>, in the state after the opcode was
  read; \<open>initial_row\<close> is \<open>None\<close> for \<^verbatim>\<open>NULL\<close>.
\<close>

definition drgn_eval_dwarf_cfi_switch ::
  "drgn_debug_info_module \<Rightarrow> drgn_dwarf_cie \<Rightarrow> drgn_dwarf_fde \<Rightarrow> drgn_cfi_row option \<Rightarrow>
   u64 \<Rightarrow> u8 \<Rightarrow> u8 \<Rightarrow> cfi_state \<Rightarrow> (cfi_state, drgn_error + drgn_cfi_row) loop_step" where
  "drgn_eval_dwarf_cfi_switch module cie fde initial_row target opcode key st =
     (case st of (bb, pc, row, state_stack) \<Rightarrow>
         if key = DW_CFA_set_loc then
           (if initial_row = None then invalid_for_initial
            else
              (case drgn_dwarf_cfi_next_encoded bb module (cie_address_size cie)
                      (cie_address_encoding cie) (fde_initial_location fde) of
                 Inl err \<Rightarrow> Return (Inl err)
               | Inr (tmp, bb') \<Rightarrow>
                 if tmp \<le> pc
                 then Return (Inl (binary_buffer_error
                   ''DW_CFA_set_loc location is not greater than current location''))
                 else if tmp > target then Return (Inr row)
                 else Continue (bb', tmp, row, state_stack)))
         else if key = DW_CFA_advance_loc then
           (if initial_row = None then invalid_for_initial
            else cfi_advance_loc cie target (ucast (opcode AND 0x3f)) (bb, pc, row, state_stack))
         else if key = DW_CFA_advance_loc1 then
           (if initial_row = None then invalid_for_initial
            else
              (case binary_buffer_next_u8_into_u64 bb of
                 Inl err \<Rightarrow> Return (Inl err)
               | Inr (tmp, bb') \<Rightarrow> cfi_advance_loc cie target tmp (bb', pc, row, state_stack)))
         else if key = DW_CFA_advance_loc2 then
           (if initial_row = None then invalid_for_initial
            else
              (case binary_buffer_next_u16_into_u64 bb of
                 Inl err \<Rightarrow> Return (Inl err)
               | Inr (tmp, bb') \<Rightarrow> cfi_advance_loc cie target tmp (bb', pc, row, state_stack)))
         else if key = DW_CFA_advance_loc4 then
           (if initial_row = None then invalid_for_initial
            else
              (case binary_buffer_next_u32_into_u64 bb of
                 Inl err \<Rightarrow> Return (Inl err)
               | Inr (tmp, bb') \<Rightarrow> cfi_advance_loc cie target tmp (bb', pc, row, state_stack)))
         else if key = DW_CFA_def_cfa then
           (case binary_buffer_next_uleb128 bb of
              Inl err \<Rightarrow> Return (Inl err)
            | Inr (dwarf_regno, bb') \<Rightarrow>
              (case drgn_dwarf_cfi_next_offset bb' of
                 Inl err \<Rightarrow> Return (Inl err)
               | Inr (offset, bb'') \<Rightarrow>
                 cfi_set_cfa
                   (case dwarf_regno_to_internal module dwarf_regno of
                      None \<Rightarrow> DRGN_CFI_RULE_UNDEFINED
                    | Some regno \<Rightarrow> DRGN_CFI_RULE_REGISTER_PLUS_OFFSET regno offset)
                   (bb'', pc, row, state_stack)))
         else if key = DW_CFA_def_cfa_sf then
           (case binary_buffer_next_uleb128 bb of
              Inl err \<Rightarrow> Return (Inl err)
            | Inr (dwarf_regno, bb') \<Rightarrow>
              (case drgn_dwarf_cfi_next_offset_sf bb' cie of
                 Inl err \<Rightarrow> Return (Inl err)
               | Inr (offset, bb'') \<Rightarrow>
                 cfi_set_cfa
                   (case dwarf_regno_to_internal module dwarf_regno of
                      None \<Rightarrow> DRGN_CFI_RULE_UNDEFINED
                    | Some regno \<Rightarrow> DRGN_CFI_RULE_REGISTER_PLUS_OFFSET regno offset)
                   (bb'', pc, row, state_stack)))
         else if key = DW_CFA_def_cfa_register then
           (case drgn_cfi_row_get_cfa row of
              DRGN_CFI_RULE_REGISTER_PLUS_OFFSET old_regno offset \<Rightarrow>
                (case binary_buffer_next_uleb128 bb of
                   Inl err \<Rightarrow> Return (Inl err)
                 | Inr (dwarf_regno, bb') \<Rightarrow>
                   cfi_set_cfa
                     (case dwarf_regno_to_internal module dwarf_regno of
                        None \<Rightarrow> DRGN_CFI_RULE_UNDEFINED
                      | Some regno \<Rightarrow> DRGN_CFI_RULE_REGISTER_PLUS_OFFSET regno offset)
                     (bb', pc, row, state_stack))
            | _ \<Rightarrow> Return (Inl (binary_buffer_error
                  ''DW_CFA_def_cfa_register with incompatible CFA rule'')))
         else if key = DW_CFA_def_cfa_offset then
           (case drgn_cfi_row_get_cfa row of
              DRGN_CFI_RULE_REGISTER_PLUS_OFFSET regno old_offset \<Rightarrow>
                (case drgn_dwarf_cfi_next_offset bb of
                   Inl err \<Rightarrow> Return (Inl err)
                 | Inr (offset, bb') \<Rightarrow>
                   cfi_set_cfa (DRGN_CFI_RULE_REGISTER_PLUS_OFFSET regno offset)
                     (bb', pc, row, state_stack))
            | _ \<Rightarrow> Return (Inl (binary_buffer_error
                  ''DW_CFA_def_cfa_offset with incompatible CFA rule'')))
         else if key = DW_CFA_def_cfa_offset_sf then
           (case drgn_cfi_row_get_cfa row of
              DRGN_CFI_RULE_REGISTER_PLUS_OFFSET regno old_offset \<Rightarrow>
                (case drgn_dwarf_cfi_next_offset_sf bb cie of
                   Inl err \<Rightarrow> Return (Inl err)
                 | Inr (offset, bb') \<Rightarrow>
                   cfi_set_cfa (DRGN_CFI_RULE_REGISTER_PLUS_OFFSET regno offset)
                     (bb', pc, row, state_stack))
            | _ \<Rightarrow> Return (Inl (binary_buffer_error
                  ''DW_CFA_def_cfa_offset_sf with incompatible CFA rule'')))
         else if key = DW_CFA_def_cfa_expression then
           (case drgn_dwarf_cfi_next_block bb of
              Inl err \<Rightarrow> Return (Inl err)
            | Inr (expr, bb') \<Rightarrow>
                cfi_set_cfa (DRGN_CFI_RULE_DWARF_EXPRESSION expr False)
                  (bb', pc, row, state_stack))
         else if key = DW_CFA_undefined then
           (case binary_buffer_next_uleb128 bb of
              Inl err \<Rightarrow> Return (Inl err)
            | Inr (dwarf_regno, bb') \<Rightarrow>
              (case dwarf_regno_to_internal module dwarf_regno of
                 None \<Rightarrow> Continue (bb', pc, row, state_stack)
               | Some regno \<Rightarrow>
                   cfi_set_reg regno DRGN_CFI_RULE_UNDEFINED (bb', pc, row, state_stack)))
         else if key = DW_CFA_same_value then
           (case binary_buffer_next_uleb128 bb of
              Inl err \<Rightarrow> Return (Inl err)
            | Inr (dwarf_regno, bb') \<Rightarrow>
              (case dwarf_regno_to_internal module dwarf_regno of
                 None \<Rightarrow> Continue (bb', pc, row, state_stack)
               | Some regno \<Rightarrow>
                   cfi_set_reg regno (DRGN_CFI_RULE_REGISTER_PLUS_OFFSET regno 0)
                     (bb', pc, row, state_stack)))
         else if key = DW_CFA_offset then
           (case drgn_dwarf_cfi_next_offset_f bb cie of
              Inl err \<Rightarrow> Return (Inl err)
            | Inr (offset, bb') \<Rightarrow>
              (case dwarf_regno_to_internal module (ucast (opcode AND 0x3f)) of
                 None \<Rightarrow> Continue (bb', pc, row, state_stack)
               | Some regno \<Rightarrow>
                   cfi_set_reg regno (DRGN_CFI_RULE_AT_CFA_PLUS_OFFSET offset)
                     (bb', pc, row, state_stack)))
         else if key = DW_CFA_offset_extended \<or> key = DW_CFA_val_offset then
           (case binary_buffer_next_uleb128 bb of
              Inl err \<Rightarrow> Return (Inl err)
            | Inr (dwarf_regno, bb') \<Rightarrow>
              (case drgn_dwarf_cfi_next_offset_f bb' cie of
                 Inl err \<Rightarrow> Return (Inl err)
               | Inr (offset, bb'') \<Rightarrow>
                 (case dwarf_regno_to_internal module dwarf_regno of
                    None \<Rightarrow> Continue (bb'', pc, row, state_stack)
                  | Some regno \<Rightarrow>
                      cfi_set_reg regno
                        (if key = DW_CFA_offset_extended
                         then DRGN_CFI_RULE_AT_CFA_PLUS_OFFSET offset
                         else DRGN_CFI_RULE_CFA_PLUS_OFFSET offset)
                        (bb'', pc, row, state_stack))))
         else if key = DW_CFA_offset_extended_sf \<or> key = DW_CFA_val_offset_sf then
           (case binary_buffer_next_uleb128 bb of
              Inl err \<Rightarrow> Return (Inl err)
            | Inr (dwarf_regno, bb') \<Rightarrow>
              (case drgn_dwarf_cfi_next_offset_sf bb' cie of
                 Inl err \<Rightarrow> Return (Inl err)
               | Inr (offset, bb'') \<Rightarrow>
                 (case dwarf_regno_to_internal module dwarf_regno of
                    None \<Rightarrow> Continue (bb'', pc, row, state_stack)
                  | Some regno \<Rightarrow>
                      cfi_set_reg regno
                        (if key = DW_CFA_offset_extended_sf
                         then DRGN_CFI_RULE_AT_CFA_PLUS_OFFSET offset
                         else DRGN_CFI_RULE_CFA_PLUS_OFFSET offset)
                        (bb'', pc, row, state_stack))))
         else if key = DW_CFA_register then
           (case binary_buffer_next_uleb128 bb of
              Inl err \<Rightarrow> Return (Inl err)
            | Inr (dwarf_regno, bb') \<Rightarrow>
              (case binary_buffer_next_uleb128 bb' of
                 Inl err \<Rightarrow> Return (Inl err)
               | Inr (dwarf_regno2, bb'') \<Rightarrow>
                 (case dwarf_regno_to_internal module dwarf_regno of
                    None \<Rightarrow> Continue (bb'', pc, row, state_stack)
                  | Some regno \<Rightarrow>
                      cfi_set_reg regno
                        (case dwarf_regno_to_internal module dwarf_regno2 of
                           None \<Rightarrow> DRGN_CFI_RULE_UNDEFINED
                         | Some regno2 \<Rightarrow> DRGN_CFI_RULE_REGISTER_PLUS_OFFSET regno2 0)
                        (bb'', pc, row, state_stack))))
         else if key = DW_CFA_expression \<or> key = DW_CFA_val_expression then
           (case binary_buffer_next_uleb128 bb of
              Inl err \<Rightarrow> Return (Inl err)
            | Inr (dwarf_regno, bb') \<Rightarrow>
              (case drgn_dwarf_cfi_next_block bb' of
                 Inl err \<Rightarrow> Return (Inl err)
               | Inr (expr, bb'') \<Rightarrow>
                 (case dwarf_regno_to_internal module dwarf_regno of
                    None \<Rightarrow> Continue (bb'', pc, row, state_stack)
                  | Some regno \<Rightarrow>
                      cfi_set_reg regno
                        (if key = DW_CFA_expression
                         then DRGN_CFI_RULE_AT_DWARF_EXPRESSION expr True
                         else DRGN_CFI_RULE_DWARF_EXPRESSION expr True)
                        (bb'', pc, row, state_stack))))
         else if key = DW_CFA_restore then
           (case initial_row of
              None \<Rightarrow> invalid_for_initial
            | Some ir \<Rightarrow>
                cfi_restore module ir (ucast (opcode AND 0x3f)) (bb, pc, row, state_stack))
         else if key = DW_CFA_restore_extended then
           (case initial_row of
              None \<Rightarrow> invalid_for_initial
            | Some ir \<Rightarrow>
              (case binary_buffer_next_uleb128 bb of
                 Inl err \<Rightarrow> Return (Inl err)
               | Inr (dwarf_regno, bb') \<Rightarrow>
                   cfi_restore module ir dwarf_regno (bb', pc, row, state_stack)))
         else if key = DW_CFA_remember_state then
           Continue (bb, pc, row, row # state_stack)
         else if key = DW_CFA_restore_state then
           (case state_stack of
              [] \<Rightarrow> Return (Inl (binary_buffer_error
                      ''DW_CFA_restore_state with empty state stack''))
            | saved # rest \<Rightarrow> Continue (bb, pc, saved, rest))
         else if key = DW_CFA_nop then Continue (bb, pc, row, state_stack)
         else Return (Inl (binary_buffer_error ''unknown DWARF CFI opcode'')))"

text \<open>One iteration of the loop of \<^verbatim>\<open>drgn_eval_dwarf_cfi\<close>.\<close>

definition drgn_eval_dwarf_cfi_body ::
  "drgn_debug_info_module \<Rightarrow> drgn_dwarf_cie \<Rightarrow> drgn_dwarf_fde \<Rightarrow> drgn_cfi_row option \<Rightarrow>
   u64 \<Rightarrow> cfi_state \<Rightarrow> (cfi_state, drgn_error + drgn_cfi_row) loop_step" where
  "drgn_eval_dwarf_cfi_body module cie fde initial_row target st =
     (case st of (bb0, pc, row, state_stack) \<Rightarrow>
      (case binary_buffer_next_u8 bb0 of
         Inl err \<Rightarrow> Return (Inl err)
       | Inr (opcode, bb) \<Rightarrow>
           drgn_eval_dwarf_cfi_switch module cie fde initial_row target opcode
             (if opcode AND 0xc0 \<noteq> 0 then opcode AND 0xc0 else opcode)
             (bb, pc, row, state_stack)))"

lemma binary_buffer_skip_forward:
  "binary_buffer_skip bb n = Inr bb' \<Longrightarrow> bb_forward bb bb'"
  by (auto simp: binary_buffer_skip_def bb_forward_advance split: if_splits)

lemma binary_buffer_next_into_u64_forward:
  "binary_buffer_next_u8_into_u64 bb = Inr (v, bb') \<Longrightarrow> bb_forward bb bb'"
  "binary_buffer_next_u16_into_u64 bb = Inr (v, bb') \<Longrightarrow> bb_forward bb bb'"
  "binary_buffer_next_u32_into_u64 bb = Inr (v, bb') \<Longrightarrow> bb_forward bb bb'"
  "binary_buffer_next_u64 bb = Inr (v, bb') \<Longrightarrow> bb_forward bb bb'"
  "binary_buffer_next_s8_into_u64 bb = Inr (v, bb') \<Longrightarrow> bb_forward bb bb'"
  "binary_buffer_next_s16_into_u64 bb = Inr (v, bb') \<Longrightarrow> bb_forward bb bb'"
  "binary_buffer_next_s32_into_u64 bb = Inr (v, bb') \<Longrightarrow> bb_forward bb bb'"
  "binary_buffer_next_s64_into_u64 bb = Inr (v, bb') \<Longrightarrow> bb_forward bb bb'"
  "binary_buffer_next_sleb128_into_u64 bb = Inr (v, bb') \<Longrightarrow> bb_forward bb bb'"
  by (auto simp: binary_buffer_next_u8_into_u64_def binary_buffer_next_u16_into_u64_def
      binary_buffer_next_u32_into_u64_def binary_buffer_next_u64_def
      binary_buffer_next_s8_into_u64_def binary_buffer_next_s16_into_u64_def
      binary_buffer_next_s32_into_u64_def binary_buffer_next_s64_into_u64_def
      binary_buffer_next_sleb128_into_u64_def
      split: sum.splits
      dest: binary_buffer_next_uint_forward binary_buffer_next_sleb128_forward)

lemma cfi_encoded_base_forward:
  "cfi_encoded_base bb module address_size encoding func_addr = Inr (v, bb') \<Longrightarrow>
   bb_forward bb bb'"
  by (auto simp: cfi_encoded_base_def Let_def bb_forward_refl
      split: if_splits sum.splits dest: binary_buffer_skip_forward)

lemma cfi_encoded_offset_forward:
  "cfi_encoded_offset bb address_size encoding = Inr (v, bb') \<Longrightarrow> bb_forward bb bb'"
  by (auto simp: cfi_encoded_offset_def Let_def
      split: if_splits
      dest: binary_buffer_next_into_u64_forward binary_buffer_next_uint_forward
        binary_buffer_next_uleb128_forward)

lemma drgn_dwarf_cfi_next_encoded_forward:
  "drgn_dwarf_cfi_next_encoded bb module address_size encoding func_addr = Inr (v, bb') \<Longrightarrow>
   bb_forward bb bb'"
  by (auto simp: drgn_dwarf_cfi_next_encoded_def split: if_splits sum.splits
      dest!: cfi_encoded_base_forward cfi_encoded_offset_forward intro: bb_forward_trans)

lemma drgn_dwarf_cfi_next_offset_forward:
  "drgn_dwarf_cfi_next_offset bb = Inr (v, bb') \<Longrightarrow> bb_forward bb bb'"
  "drgn_dwarf_cfi_next_offset_sf bb cie = Inr (v, bb') \<Longrightarrow> bb_forward bb bb'"
  "drgn_dwarf_cfi_next_offset_f bb cie = Inr (v, bb') \<Longrightarrow> bb_forward bb bb'"
  by (auto simp: drgn_dwarf_cfi_next_offset_def drgn_dwarf_cfi_next_offset_sf_def
      drgn_dwarf_cfi_next_offset_f_def Let_def split: sum.splits if_splits
      dest: binary_buffer_next_uleb128_forward binary_buffer_next_sleb128_forward)

lemma drgn_dwarf_cfi_next_block_forward:
  "drgn_dwarf_cfi_next_block bb = Inr (v, bb') \<Longrightarrow> bb_forward bb bb'"
  by (auto simp: drgn_dwarf_cfi_next_block_def bb_forward_def split: sum.splits if_splits
      dest!: binary_buffer_next_uleb128_forward)

text \<open>The cases of the \<^verbatim>\<open>switch\<close> of \<^verbatim>\<open>drgn_eval_dwarf_cfi\<close>.\<close>

definition cfi_known_opcodes :: "u8 set" where
  "cfi_known_opcodes =
     {DW_CFA_set_loc, DW_CFA_advance_loc, DW_CFA_advance_loc1, DW_CFA_advance_loc2,
      DW_CFA_advance_loc4, DW_CFA_def_cfa, DW_CFA_def_cfa_sf, DW_CFA_def_cfa_register,
      DW_CFA_def_cfa_offset, DW_CFA_def_cfa_offset_sf, DW_CFA_def_cfa_expression,
      DW_CFA_undefined, DW_CFA_same_value, DW_CFA_offset, DW_CFA_offset_extended,
      DW_CFA_offset_extended_sf, DW_CFA_val_offset, DW_CFA_val_offset_sf, DW_CFA_register,
      DW_CFA_expression, DW_CFA_val_expression, DW_CFA_restore, DW_CFA_restore_extended,
      DW_CFA_remember_state, DW_CFA_restore_state, DW_CFA_nop}"

lemma cfi_key_cases:
  fixes key :: u8
  obtains (set_loc) "key = DW_CFA_set_loc"
  | (advance_loc) "key = DW_CFA_advance_loc"
  | (advance_loc1) "key = DW_CFA_advance_loc1"
  | (advance_loc2) "key = DW_CFA_advance_loc2"
  | (advance_loc4) "key = DW_CFA_advance_loc4"
  | (def_cfa) "key = DW_CFA_def_cfa"
  | (def_cfa_sf) "key = DW_CFA_def_cfa_sf"
  | (def_cfa_register) "key = DW_CFA_def_cfa_register"
  | (def_cfa_offset) "key = DW_CFA_def_cfa_offset"
  | (def_cfa_offset_sf) "key = DW_CFA_def_cfa_offset_sf"
  | (def_cfa_expression) "key = DW_CFA_def_cfa_expression"
  | (undefined) "key = DW_CFA_undefined"
  | (same_value) "key = DW_CFA_same_value"
  | (offset) "key = DW_CFA_offset"
  | (offset_extended) "key = DW_CFA_offset_extended"
  | (offset_extended_sf) "key = DW_CFA_offset_extended_sf"
  | (val_offset) "key = DW_CFA_val_offset"
  | (val_offset_sf) "key = DW_CFA_val_offset_sf"
  | (register) "key = DW_CFA_register"
  | (expression) "key = DW_CFA_expression"
  | (val_expression) "key = DW_CFA_val_expression"
  | (restore) "key = DW_CFA_restore"
  | (restore_extended) "key = DW_CFA_restore_extended"
  | (remember_state) "key = DW_CFA_remember_state"
  | (restore_state) "key = DW_CFA_restore_state"
  | (nop) "key = DW_CFA_nop"
  | (unknown) "key \<notin> cfi_known_opcodes"
  unfolding cfi_known_opcodes_def by blast

lemma cfi_helpers_forward:
  "cfi_advance_loc cie target tmp (bb, pc, row, stack) = Continue (bb', st') \<Longrightarrow> bb' = bb"
  "cfi_set_cfa rule (bb, pc, row, stack) = Continue (bb', st') \<Longrightarrow> bb' = bb"
  "cfi_set_reg regno rule (bb, pc, row, stack) = Continue (bb', st') \<Longrightarrow> bb' = bb"
  "cfi_restore module ir dwarf_regno (bb, pc, row, stack) = Continue (bb', st') \<Longrightarrow> bb' = bb"
  by (auto simp: cfi_advance_loc_def cfi_set_cfa_def cfi_set_reg_def cfi_restore_def Let_def
      split: if_splits option.splits)

lemma drgn_eval_dwarf_cfi_switch_forward:
  assumes "drgn_eval_dwarf_cfi_switch module cie fde initial_row target opcode key
      (bb, pc, row, stack) = Continue (bb', st')"
  shows "bb_forward bb bb'"
proof (cases key rule: cfi_key_cases)
qed (use assms in \<open>auto simp: drgn_eval_dwarf_cfi_switch_def
      invalid_for_initial_def bb_forward_def cfi_known_opcodes_def
      split: sum.splits option.splits list.splits drgn_cfi_rule.splits if_splits
      dest!: cfi_helpers_forward binary_buffer_next_uleb128_forward
        binary_buffer_next_into_u64_forward
        drgn_dwarf_cfi_next_encoded_forward drgn_dwarf_cfi_next_offset_forward
        drgn_dwarf_cfi_next_block_forward\<close>)

lemma drgn_eval_dwarf_cfi_body_forward:
  assumes "drgn_eval_dwarf_cfi_body module cie fde initial_row target (bb, st) = Continue (bb', st')"
  shows "bb_end bb' = bb_end bb \<and> bb_pos bb < bb_pos bb' \<and> bb_pos bb < bb_end bb"
proof -
  obtain pc row stack where st: "st = (pc, row, stack)"
    by (cases st) auto
  obtain opcode bb1 where k: "binary_buffer_next_u8 bb = Inr (opcode, bb1)"
    using assms st by (auto simp: drgn_eval_dwarf_cfi_body_def split: sum.splits)
  note f1 = binary_buffer_next_u8_forward [OF k]
  have "bb_forward bb1 bb'"
    using assms st k
    by (auto simp: drgn_eval_dwarf_cfi_body_def dest: drgn_eval_dwarf_cfi_switch_forward)
  then show ?thesis using f1 by (auto simp: bb_forward_def)
qed

function drgn_eval_dwarf_cfi_loop ::
  "drgn_debug_info_module \<Rightarrow> drgn_dwarf_cie \<Rightarrow> drgn_dwarf_fde \<Rightarrow> drgn_cfi_row option \<Rightarrow>
   u64 \<Rightarrow> cfi_state \<Rightarrow> drgn_error + drgn_cfi_row" where
  "drgn_eval_dwarf_cfi_loop module cie fde initial_row target (bb, pc, row, state_stack) =
     (if binary_buffer_has_next bb then
        (case drgn_eval_dwarf_cfi_body module cie fde initial_row target
                (bb, pc, row, state_stack) of
           Return r \<Rightarrow> r
         | Continue st' \<Rightarrow> drgn_eval_dwarf_cfi_loop module cie fde initial_row target st')
      else Inr row)"
  by pat_completeness auto
termination
proof (relation "measure (\<lambda>(module, cie, fde, initial_row, target, bb, st).
    bb_end bb - bb_pos bb)")
  show "wf (measure (\<lambda>(module, cie, fde, initial_row, target, bb, st).
      bb_end (bb :: binary_buffer) - bb_pos bb))"
    by simp
next
  fix module cie fde initial_row target bb pc row state_stack and st' :: cfi_state
  assume "drgn_eval_dwarf_cfi_body module cie fde initial_row target
      (bb, pc, row, state_stack) = Continue st'"
  then show "((module, cie, fde, initial_row, target, st'),
       module, cie, fde, initial_row, target, bb, pc, row, state_stack)
      \<in> measure (\<lambda>(module, cie, fde, initial_row, target, bb, st). bb_end bb - bb_pos bb)"
    using drgn_eval_dwarf_cfi_body_forward [of module cie fde initial_row target bb
        "(pc, row, state_stack)" "fst st'" "snd st'"]
    by (cases st') auto
qed

declare drgn_eval_dwarf_cfi_loop.simps [simp del]

text \<open>
  \<^verbatim>\<open>drgn_eval_dwarf_cfi\<close>. \<open>cies\<close> is \<^verbatim>\<open>module->dwarf.cies\<close>; the instructions are a
  position and a size in the CIE's section, which is cached since the frames were parsed
  from it (the other cases of \<open>scn_data\<close> cannot arise). The result is the error, or
  the row left in \<^verbatim>\<open>*row\<close>.
\<close>

definition drgn_eval_dwarf_cfi ::
  "drgn_debug_info_module \<Rightarrow> drgn_dwarf_cie list \<Rightarrow> drgn_dwarf_fde \<Rightarrow> drgn_cfi_row option \<Rightarrow>
   u64 \<Rightarrow> nat \<Rightarrow> nat \<Rightarrow> drgn_cfi_row \<Rightarrow> drgn_error + drgn_cfi_row" where
  "drgn_eval_dwarf_cfi module cies fde initial_row target instructions instructions_size row =
     (let cie = cies ! fde_cie fde in
      case scn_data module
             (if cie_is_eh cie then DRGN_SCN_EH_FRAME else DRGN_SCN_DEBUG_FRAME) of
        Some (Inr data) \<Rightarrow>
          drgn_eval_dwarf_cfi_loop module cie fde initial_row target
            ((drgn_debug_info_buffer_init data module)
               \<lparr>bb_pos := instructions, bb_end := instructions + instructions_size\<rparr>,
             fde_initial_location fde, row, [])
      | Some (Inl err) \<Rightarrow> Inl err
      | None \<Rightarrow> Inl (drgn_error_create DRGN_ERROR_OTHER ''no CFI section''))"

definition drgn_debug_info_find_cfi_in_fde ::
  "drgn_debug_info_module \<Rightarrow> drgn_dwarf_cie list \<Rightarrow> drgn_dwarf_fde \<Rightarrow> u64 \<Rightarrow>
   drgn_error + drgn_cfi_row" where
  "drgn_debug_info_find_cfi_in_fde module cies fde unbiased_pc =
     (let cie = cies ! fde_cie fde in
      case drgn_eval_dwarf_cfi module cies fde None unbiased_pc
             (cie_initial_instructions cie) (cie_initial_instructions_size cie)
             (default_dwarf_cfi_row module) of
        Inl err \<Rightarrow> Inl err
      | Inr initial_row \<Rightarrow>
          drgn_eval_dwarf_cfi module cies fde (Some initial_row) unbiased_pc
            (fde_instructions fde) (fde_instructions_size fde) initial_row)"

text \<open>
  \<^verbatim>\<open>drgn_debug_info_find_dwarf_cfi\<close>, once the frames are parsed: the row, whether the
  CIE is for a signal frame, and the return address register.
\<close>

definition drgn_debug_info_find_dwarf_cfi ::
  "drgn_debug_info_module \<Rightarrow> drgn_dwarf_cie list \<Rightarrow> drgn_dwarf_fde list \<Rightarrow> u64 \<Rightarrow>
   drgn_error + (drgn_cfi_row \<times> bool \<times> drgn_register_number)" where
  "drgn_debug_info_find_dwarf_cfi module cies fdes unbiased_pc =
     (case drgn_debug_info_find_fde fdes unbiased_pc of
        None \<Rightarrow> Inl drgn_not_found
      | Some fde \<Rightarrow>
        (case drgn_debug_info_find_cfi_in_fde module cies fde unbiased_pc of
           Inl err \<Rightarrow> Inl err
         | Inr row \<Rightarrow>
             Inr (row, cie_signal_frame (cies ! fde_cie fde),
                  cie_return_address_register (cies ! fde_cie fde))))"

text \<open>
  For examples: a \<^verbatim>\<open>.debug_frame\<close> holding the initial instructions
  \<^verbatim>\<open>def_cfa(r7, 8); offset(r16, 1)\<close> of a CIE with code alignment factor 1 and data
  alignment factor \<open>-8\<close>, followed by the instructions
  \<^verbatim>\<open>advance_loc(4); def_cfa_offset(16)\<close> of an FDE at \<open>0x1000\<close>.
\<close>

definition example_debug_frame :: "u8 list" where
  "example_debug_frame = [0x0c, 0x07, 0x08,  0x90, 0x01,  0x44,  0x0e, 0x10]"

definition example_frame_cie :: drgn_dwarf_cie where
  "example_frame_cie = (example_cie False 1 (- 8))\<lparr>cie_initial_instructions_size := 5\<rparr>"

definition example_frame_fde :: drgn_dwarf_fde where
  "example_frame_fde =
     (example_fde 0 0x1000 0x40)\<lparr>fde_instructions := 5, fde_instructions_size := 3\<rparr>"

text \<open>
  An advance by \<open>delta\<close> fits when neither the product
  \<open>delta * code_alignment_factor\<close> nor its sum with the current location leaves the
  64-bit range, and the new location is an address of the CIE's address size.
\<close>

definition advance_fits :: "drgn_dwarf_cie \<Rightarrow> u64 \<Rightarrow> u64 \<Rightarrow> bool" where
  "advance_fits cie pc delta \<longleftrightarrow>
     unat delta * unat (cie_code_alignment_factor cie) < 2 ^ 64 \<and>
     unat pc + unat delta * unat (cie_code_alignment_factor cie) < 2 ^ 64 \<and>
     pc + delta * cie_code_alignment_factor cie \<le> uint_max (cie_address_size cie)"

text \<open>
  The spec's words for a location advance by \<open>delta\<close>: advance the current PC by
  \<open>delta * code_alignment_factor\<close>; execution stops as soon as the current PC exceeds the
  target, and the row captured just before the advance is the answer. An advance that
  does not fit is an error.
\<close>

definition advance_location_spec ::
  "drgn_dwarf_cie \<Rightarrow> u64 \<Rightarrow> u64 \<Rightarrow> cfi_state \<Rightarrow> (cfi_state, drgn_error + drgn_cfi_row) loop_step"
  where
  "advance_location_spec cie target delta st =
     (case st of (bb, pc, row, state_stack) \<Rightarrow>
        if \<not> advance_fits cie pc delta
        then Return (Inl (drgn_error_create DRGN_ERROR_OTHER
                            ''DW_CFA_advance_loc* overflows location''))
        else if pc + delta * cie_code_alignment_factor cie > target then Return (Inr row)
        else Continue (bb, pc + delta * cie_code_alignment_factor cie, row, state_stack))"

text \<open>
  The same for \<^verbatim>\<open>DW_CFA_set_loc\<close>, whose operand \<open>loc\<close> is the new location itself: it
  must be greater than the current location.
\<close>

definition set_location_spec ::
  "u64 \<Rightarrow> u64 \<Rightarrow> cfi_state \<Rightarrow> (cfi_state, drgn_error + drgn_cfi_row) loop_step" where
  "set_location_spec target loc st =
     (case st of (bb, pc, row, state_stack) \<Rightarrow>
        if loc \<le> pc
        then Return (Inl (binary_buffer_error
                            ''DW_CFA_set_loc location is not greater than current location''))
        else if loc > target then Return (Inr row)
        else Continue (bb, loc, row, state_stack))"

section \<open>DWARF expressions\<close>

text \<open>
  Modelled from the spec: \<^verbatim>\<open>truncate_signed\<close> (\<^verbatim>\<open>util.h\<close>) is not among the sources. It
  sign-extends the low \<open>bit_size\<close> bits of a value to 64 bits; the signed result is kept
  as the 64-bit word of its two's complement, and read as a signed integer with \<open>sint\<close>.
\<close>

definition truncate_signed :: "u64 \<Rightarrow> nat \<Rightarrow> u64" where
  "truncate_signed x bit_size = signed_take_bit (bit_size - 1) x"

text \<open>
  Modelled from the spec: the program and the register state (\<^verbatim>\<open>program.h\<close>,
  \<^verbatim>\<open>register_state.h\<close>) are not among the sources. Of a program the evaluator uses
  \<^verbatim>\<open>drgn_program_read_memory\<close>, which gives the bytes at an address or an error. Of a
  register state it uses the module, the bytes of each register that is set (\<open>None\<close> when
  \<^verbatim>\<open>drgn_register_state_has_register\<close> is false) and the CFA (\<open>None\<close> when
  \<^verbatim>\<open>drgn_register_state_get_cfa\<close> has no value).
\<close>

record drgn_program =
  drgn_program_read_memory :: "u64 \<Rightarrow> nat \<Rightarrow> drgn_error + u8 list"

record drgn_register_state =
  regs_module :: drgn_debug_info_module
  regs_buf :: "drgn_register_number \<Rightarrow> u8 list option"
  regs_cfa :: "u64 option"

text \<open>
  What libdw reports for a unit (\<^verbatim>\<open>dwarf_cu_die\<close>: its address size and its DIE,
  \<open>None\<close> when the call fails) and for the DIE of a function: its unit and its
  \<^verbatim>\<open>DW_AT_frame_base\<close>, which is \<open>None\<close> when \<^verbatim>\<open>dwarf_attr_integrate\<close> finds no such
  attribute and otherwise the result of \<^verbatim>\<open>drgn_dwarf_location\<close> on it for the register
  state at hand: an error or the bytes of the expression.
\<close>

type_synonym Dwarf_CU = "(nat \<times> cu_die) option"

record function_die =
  die_cu :: Dwarf_CU
  die_frame_base :: "(drgn_error + u8 list) option"

definition drgn_check_address_size :: "nat \<Rightarrow> drgn_error option" where
  "drgn_check_address_size address_size =
     (if address_size < 1 \<or> address_size > 8
      then Some (drgn_error_create DRGN_ERROR_OTHER ''unsupported address size'')
      else None)"

text \<open>
  \<^verbatim>\<open>MAX_DWARF_EXPR_OPS\<close>, and \<^verbatim>\<open>struct drgn_dwarf_expression_context\<close>: the buffer runs
  over the bytes of the expression, \<open>ctx_start\<close> is where they start, \<open>ctx_cu_die\<close> is
  \<open>None\<close> when \<^verbatim>\<open>cu_die.addr\<close> is \<^verbatim>\<open>NULL\<close>, \<open>ctx_function\<close> and \<open>ctx_regs\<close> are
  \<open>None\<close> for \<^verbatim>\<open>NULL\<close>.
\<close>

definition MAX_DWARF_EXPR_OPS :: int where
  "MAX_DWARF_EXPR_OPS = 10000"

record drgn_dwarf_expression_context =
  ctx_bb :: binary_buffer
  ctx_start :: nat
  ctx_prog :: drgn_program
  ctx_module :: drgn_debug_info_module
  ctx_address_size :: nat
  ctx_cu_die :: "cu_die option"
  ctx_cu_addr_base :: "nat option"
  ctx_function :: "function_die option"
  ctx_regs :: "drgn_register_state option"

definition drgn_dwarf_expression_context_init ::
  "drgn_program \<Rightarrow> drgn_debug_info_module \<Rightarrow> Dwarf_CU option \<Rightarrow> function_die option \<Rightarrow>
   drgn_register_state option \<Rightarrow> u8 list \<Rightarrow> drgn_error + drgn_dwarf_expression_context" where
  "drgn_dwarf_expression_context_init prog module cu function regs expr =
     (let ctx = \<lparr>ctx_bb = binary_buffer_init expr (platform_little_endian module),
                 ctx_start = 0, ctx_prog = prog, ctx_module = module,
                 ctx_address_size = platform_address_size module,
                 ctx_cu_die = None, ctx_cu_addr_base = None,
                 ctx_function = function, ctx_regs = regs\<rparr> in
      case cu of
        Some None \<Rightarrow> Inl drgn_error_libdw
      | Some (Some (address_size, cu_die)) \<Rightarrow>
          (case drgn_check_address_size address_size of
             Some err \<Rightarrow> Inl err
           | None \<Rightarrow> Inr (ctx\<lparr>ctx_address_size := address_size, ctx_cu_die := Some cu_die\<rparr>))
      | None \<Rightarrow> Inr ctx)"

abbreviation DW_OP_addr :: u8 where "DW_OP_addr \<equiv> 0x03"
abbreviation DW_OP_deref :: u8 where "DW_OP_deref \<equiv> 0x06"
abbreviation DW_OP_const1u :: u8 where "DW_OP_const1u \<equiv> 0x08"
abbreviation DW_OP_const1s :: u8 where "DW_OP_const1s \<equiv> 0x09"
abbreviation DW_OP_const2u :: u8 where "DW_OP_const2u \<equiv> 0x0a"
abbreviation DW_OP_const2s :: u8 where "DW_OP_const2s \<equiv> 0x0b"
abbreviation DW_OP_const4u :: u8 where "DW_OP_const4u \<equiv> 0x0c"
abbreviation DW_OP_const4s :: u8 where "DW_OP_const4s \<equiv> 0x0d"
abbreviation DW_OP_const8u :: u8 where "DW_OP_const8u \<equiv> 0x0e"
abbreviation DW_OP_const8s :: u8 where "DW_OP_const8s \<equiv> 0x0f"
abbreviation DW_OP_constu :: u8 where "DW_OP_constu \<equiv> 0x10"
abbreviation DW_OP_consts :: u8 where "DW_OP_consts \<equiv> 0x11"
abbreviation DW_OP_dup :: u8 where "DW_OP_dup \<equiv> 0x12"
abbreviation DW_OP_drop :: u8 where "DW_OP_drop \<equiv> 0x13"
abbreviation DW_OP_over :: u8 where "DW_OP_over \<equiv> 0x14"
abbreviation DW_OP_pick :: u8 where "DW_OP_pick \<equiv> 0x15"
abbreviation DW_OP_swap :: u8 where "DW_OP_swap \<equiv> 0x16"
abbreviation DW_OP_rot :: u8 where "DW_OP_rot \<equiv> 0x17"
abbreviation DW_OP_xderef :: u8 where "DW_OP_xderef \<equiv> 0x18"
abbreviation DW_OP_abs :: u8 where "DW_OP_abs \<equiv> 0x19"
abbreviation DW_OP_and :: u8 where "DW_OP_and \<equiv> 0x1a"
abbreviation DW_OP_div :: u8 where "DW_OP_div \<equiv> 0x1b"
abbreviation DW_OP_minus :: u8 where "DW_OP_minus \<equiv> 0x1c"
abbreviation DW_OP_mod :: u8 where "DW_OP_mod \<equiv> 0x1d"
abbreviation DW_OP_mul :: u8 where "DW_OP_mul \<equiv> 0x1e"
abbreviation DW_OP_neg :: u8 where "DW_OP_neg \<equiv> 0x1f"
abbreviation DW_OP_not :: u8 where "DW_OP_not \<equiv> 0x20"
abbreviation DW_OP_or :: u8 where "DW_OP_or \<equiv> 0x21"
abbreviation DW_OP_plus :: u8 where "DW_OP_plus \<equiv> 0x22"
abbreviation DW_OP_shl :: u8 where "DW_OP_shl \<equiv> 0x24"
abbreviation DW_OP_shr :: u8 where "DW_OP_shr \<equiv> 0x25"
abbreviation DW_OP_shra :: u8 where "DW_OP_shra \<equiv> 0x26"
abbreviation DW_OP_xor :: u8 where "DW_OP_xor \<equiv> 0x27"
abbreviation DW_OP_bra :: u8 where "DW_OP_bra \<equiv> 0x28"
abbreviation DW_OP_eq :: u8 where "DW_OP_eq \<equiv> 0x29"
abbreviation DW_OP_ge :: u8 where "DW_OP_ge \<equiv> 0x2a"
abbreviation DW_OP_gt :: u8 where "DW_OP_gt \<equiv> 0x2b"
abbreviation DW_OP_le :: u8 where "DW_OP_le \<equiv> 0x2c"
abbreviation DW_OP_lt :: u8 where "DW_OP_lt \<equiv> 0x2d"
abbreviation DW_OP_ne :: u8 where "DW_OP_ne \<equiv> 0x2e"
abbreviation DW_OP_skip :: u8 where "DW_OP_skip \<equiv> 0x2f"
abbreviation DW_OP_lit0 :: u8 where "DW_OP_lit0 \<equiv> 0x30"
abbreviation DW_OP_lit31 :: u8 where "DW_OP_lit31 \<equiv> 0x4f"
abbreviation DW_OP_reg0 :: u8 where "DW_OP_reg0 \<equiv> 0x50"
abbreviation DW_OP_reg31 :: u8 where "DW_OP_reg31 \<equiv> 0x6f"
abbreviation DW_OP_breg0 :: u8 where "DW_OP_breg0 \<equiv> 0x70"
abbreviation DW_OP_breg31 :: u8 where "DW_OP_breg31 \<equiv> 0x8f"
abbreviation DW_OP_regx :: u8 where "DW_OP_regx \<equiv> 0x90"
abbreviation DW_OP_fbreg :: u8 where "DW_OP_fbreg \<equiv> 0x91"
abbreviation DW_OP_bregx :: u8 where "DW_OP_bregx \<equiv> 0x92"
abbreviation DW_OP_piece :: u8 where "DW_OP_piece \<equiv> 0x93"
abbreviation DW_OP_deref_size :: u8 where "DW_OP_deref_size \<equiv> 0x94"
abbreviation DW_OP_xderef_size :: u8 where "DW_OP_xderef_size \<equiv> 0x95"
abbreviation DW_OP_nop :: u8 where "DW_OP_nop \<equiv> 0x96"
abbreviation DW_OP_push_object_address :: u8 where "DW_OP_push_object_address \<equiv> 0x97"
abbreviation DW_OP_call2 :: u8 where "DW_OP_call2 \<equiv> 0x98"
abbreviation DW_OP_call4 :: u8 where "DW_OP_call4 \<equiv> 0x99"
abbreviation DW_OP_call_ref :: u8 where "DW_OP_call_ref \<equiv> 0x9a"
abbreviation DW_OP_form_tls_address :: u8 where "DW_OP_form_tls_address \<equiv> 0x9b"
abbreviation DW_OP_call_frame_cfa :: u8 where "DW_OP_call_frame_cfa \<equiv> 0x9c"
abbreviation DW_OP_bit_piece :: u8 where "DW_OP_bit_piece \<equiv> 0x9d"
abbreviation DW_OP_implicit_value :: u8 where "DW_OP_implicit_value \<equiv> 0x9e"
abbreviation DW_OP_stack_value :: u8 where "DW_OP_stack_value \<equiv> 0x9f"
abbreviation DW_OP_implicit_pointer :: u8 where "DW_OP_implicit_pointer \<equiv> 0xa0"
abbreviation DW_OP_addrx :: u8 where "DW_OP_addrx \<equiv> 0xa1"
abbreviation DW_OP_constx :: u8 where "DW_OP_constx \<equiv> 0xa2"
abbreviation DW_OP_entry_value :: u8 where "DW_OP_entry_value \<equiv> 0xa3"
abbreviation DW_OP_const_type :: u8 where "DW_OP_const_type \<equiv> 0xa4"
abbreviation DW_OP_regval_type :: u8 where "DW_OP_regval_type \<equiv> 0xa5"
abbreviation DW_OP_deref_type :: u8 where "DW_OP_deref_type \<equiv> 0xa6"
abbreviation DW_OP_xderef_type :: u8 where "DW_OP_xderef_type \<equiv> 0xa7"
abbreviation DW_OP_convert :: u8 where "DW_OP_convert \<equiv> 0xa8"
abbreviation DW_OP_reinterpret :: u8 where "DW_OP_reinterpret \<equiv> 0xa9"

text \<open>
  The \<^verbatim>\<open>switch\<close> of \<^verbatim>\<open>drgn_eval_dwarf_expression\<close> changes the buffer and
  \<open>cu_addr_base\<close> of the context and the stack, whose top \<^verbatim>\<open>ELEM(0)\<close> is the head of
  the list. A case either breaks out of the \<^verbatim>\<open>switch\<close> with these (\<open>Continue\<close>), returns
  an error (\<open>Return (Inl err)\<close>) or returns \<^verbatim>\<open>NULL\<close> (\<open>Return (Inr _)\<close>). Running out
  of memory when the stack grows is not modelled.
\<close>

type_synonym dwarf_expr_vars = "binary_buffer \<times> nat option \<times> u64 list"

type_synonym dwarf_expr_step = "(dwarf_expr_vars, drgn_error + dwarf_expr_vars) loop_step"

definition stack_underflow :: dwarf_expr_step where
  "stack_underflow = Return (Inl (binary_buffer_error ''DWARF expression stack underflow''))"

text \<open>The macros \<^verbatim>\<open>UNOP_MASK\<close>, \<^verbatim>\<open>BINOP\<close>, \<^verbatim>\<open>BINOP_MASK\<close> and \<^verbatim>\<open>RELOP\<close>, each with its
  \<^verbatim>\<open>CHECK\<close>.\<close>

definition UNOP_MASK ::
  "(u64 \<Rightarrow> u64) \<Rightarrow> u64 \<Rightarrow> binary_buffer \<Rightarrow> nat option \<Rightarrow> u64 list \<Rightarrow> dwarf_expr_step" where
  "UNOP_MASK op address_mask bb addr_base stack =
     (case stack of
        e0 # rest \<Rightarrow> Continue (bb, addr_base, (op e0 AND address_mask) # rest)
      | _ \<Rightarrow> stack_underflow)"

definition BINOP ::
  "(u64 \<Rightarrow> u64 \<Rightarrow> u64) \<Rightarrow> binary_buffer \<Rightarrow> nat option \<Rightarrow> u64 list \<Rightarrow> dwarf_expr_step" where
  "BINOP op bb addr_base stack =
     (case stack of
        e0 # e1 # rest \<Rightarrow> Continue (bb, addr_base, op e1 e0 # rest)
      | _ \<Rightarrow> stack_underflow)"

definition BINOP_MASK ::
  "(u64 \<Rightarrow> u64 \<Rightarrow> u64) \<Rightarrow> u64 \<Rightarrow> binary_buffer \<Rightarrow> nat option \<Rightarrow> u64 list \<Rightarrow>
   dwarf_expr_step" where
  "BINOP_MASK op address_mask bb addr_base stack =
     (case stack of
        e0 # e1 # rest \<Rightarrow> Continue (bb, addr_base, (op e1 e0 AND address_mask) # rest)
      | _ \<Rightarrow> stack_underflow)"

definition RELOP ::
  "(int \<Rightarrow> int \<Rightarrow> bool) \<Rightarrow> nat \<Rightarrow> binary_buffer \<Rightarrow> nat option \<Rightarrow> u64 list \<Rightarrow>
   dwarf_expr_step" where
  "RELOP op address_bits bb addr_base stack =
     (case stack of
        e0 # e1 # rest \<Rightarrow>
          Continue (bb, addr_base,
            (if op (sint (truncate_signed e1 address_bits))
                   (sint (truncate_signed e0 address_bits)) then 1 else 0) # rest)
      | _ \<Rightarrow> stack_underflow)"

text \<open>An operand is read, then pushed with \<^verbatim>\<open>PUSH\<close> or \<^verbatim>\<open>PUSH_MASK\<close>.\<close>

definition PUSH_next ::
  "drgn_error + (u64 \<times> binary_buffer) \<Rightarrow> nat option \<Rightarrow> u64 list \<Rightarrow> dwarf_expr_step" where
  "PUSH_next r addr_base stack =
     (case r of
        Inl err \<Rightarrow> Return (Inl err)
      | Inr (uvalue, bb') \<Rightarrow> Continue (bb', addr_base, uvalue # stack))"

definition PUSH_MASK_next ::
  "drgn_error + (u64 \<times> binary_buffer) \<Rightarrow> u64 \<Rightarrow> nat option \<Rightarrow> u64 list \<Rightarrow> dwarf_expr_step"
  where
  "PUSH_MASK_next r address_mask addr_base stack =
     (case r of
        Inl err \<Rightarrow> Return (Inl err)
      | Inr (uvalue, bb') \<Rightarrow> Continue (bb', addr_base, (uvalue AND address_mask) # stack))"

text \<open>The code at the labels \<^verbatim>\<open>breg\<close>, \<^verbatim>\<open>deref\<close> and \<^verbatim>\<open>branch\<close>.\<close>

definition dwarf_expr_breg ::
  "drgn_dwarf_expression_context \<Rightarrow> u64 \<Rightarrow> binary_buffer \<Rightarrow> nat option \<Rightarrow> u64 list \<Rightarrow>
   dwarf_expr_step" where
  "dwarf_expr_breg ctx dwarf_regno bb addr_base stack =
     (case ctx_regs ctx of
        None \<Rightarrow> Return (Inl drgn_not_found)
      | Some regs \<Rightarrow>
        (case dwarf_regno_to_internal (ctx_module ctx) dwarf_regno of
           None \<Rightarrow> Return (Inl drgn_not_found)
         | Some regno \<Rightarrow>
           (case regs_buf regs regno of
              None \<Rightarrow> Return (Inl drgn_not_found)
            | Some bytes \<Rightarrow>
              let uvalue = copy_lsbytes_u64 bytes (platform_little_endian (ctx_module ctx)) in
              (case binary_buffer_next_sleb128 bb of
                 Inl err \<Rightarrow> Return (Inl err)
               | Inr (svalue, bb') \<Rightarrow>
                   Continue (bb', addr_base,
                     ((uvalue + svalue) AND uint_max (ctx_address_size ctx)) # stack)))))"

definition dwarf_expr_deref ::
  "drgn_dwarf_expression_context \<Rightarrow> nat \<Rightarrow> binary_buffer \<Rightarrow> nat option \<Rightarrow> u64 list \<Rightarrow>
   dwarf_expr_step" where
  "dwarf_expr_deref ctx deref_size bb addr_base stack =
     (case stack of
        [] \<Rightarrow> stack_underflow
      | e0 # rest \<Rightarrow>
        (case drgn_program_read_memory (ctx_prog ctx) e0 deref_size of
           Inl err \<Rightarrow> Return (Inl err)
         | Inr deref_buf \<Rightarrow>
             Continue (bb, addr_base,
               copy_lsbytes_u64 (take deref_size deref_buf)
                 (platform_little_endian (ctx_module ctx)) # rest)))"

definition dwarf_expr_branch ::
  "drgn_dwarf_expression_context \<Rightarrow> binary_buffer \<Rightarrow> nat option \<Rightarrow> u64 list \<Rightarrow>
   dwarf_expr_step" where
  "dwarf_expr_branch ctx bb addr_base stack =
     (case binary_buffer_next_s16 bb of
        Inl err \<Rightarrow> Return (Inl err)
      | Inr (skip, bb') \<Rightarrow>
        if (sint skip \<ge> 0 \<and> sint skip > int (bb_end bb') - int (bb_pos bb')) \<or>
           (sint skip < 0 \<and> - sint skip > int (bb_pos bb') - int (ctx_start ctx))
        then Return (Inl (binary_buffer_error ''DWARF expression branch is out of bounds''))
        else Continue (bb'\<lparr>bb_pos := nat (int (bb_pos bb') + sint skip)\<rparr>, addr_base, stack))"

text \<open>
  The \<^verbatim>\<open>switch\<close> on the opcode, in the state after the opcode was read. The case
  \<^verbatim>\<open>DW_OP_fbreg\<close>, the only one that uses \<^verbatim>\<open>remaining_ops\<close>, is in the loop body below.
  In \<^verbatim>\<open>DW_OP_div\<close> the quotient of the two signed values is the one of C, truncated
  towards zero (\<open>sdiv\<close>).
\<close>

definition drgn_eval_dwarf_expression_switch ::
  "drgn_dwarf_expression_context \<Rightarrow> u8 \<Rightarrow> binary_buffer \<Rightarrow> nat option \<Rightarrow> u64 list \<Rightarrow>
   dwarf_expr_step" where
  "drgn_eval_dwarf_expression_switch ctx opcode bb addr_base stack =
     (let address_size = ctx_address_size ctx;
          address_bits = address_size * 8;
          address_mask = uint_max address_size in
      if DW_OP_lit0 \<le> opcode \<and> opcode \<le> DW_OP_lit31 then
        Continue (bb, addr_base, ucast (opcode - DW_OP_lit0) # stack)
      else if opcode = DW_OP_addr then
        PUSH_next (binary_buffer_next_uint bb address_size) addr_base stack
      else if opcode = DW_OP_const1u then
        PUSH_next (binary_buffer_next_u8_into_u64 bb) addr_base stack
      else if opcode = DW_OP_const2u then
        PUSH_MASK_next (binary_buffer_next_u16_into_u64 bb) address_mask addr_base stack
      else if opcode = DW_OP_const4u then
        PUSH_MASK_next (binary_buffer_next_u32_into_u64 bb) address_mask addr_base stack
      else if opcode = DW_OP_const8u then
        PUSH_MASK_next (binary_buffer_next_u64 bb) address_mask addr_base stack
      else if opcode = DW_OP_const1s then
        PUSH_MASK_next (binary_buffer_next_s8_into_u64 bb) address_mask addr_base stack
      else if opcode = DW_OP_const2s then
        PUSH_MASK_next (binary_buffer_next_s16_into_u64 bb) address_mask addr_base stack
      else if opcode = DW_OP_const4s then
        PUSH_MASK_next (binary_buffer_next_s32_into_u64 bb) address_mask addr_base stack
      else if opcode = DW_OP_const8s then
        PUSH_MASK_next (binary_buffer_next_s64_into_u64 bb) address_mask addr_base stack
      else if opcode = DW_OP_constu then
        PUSH_MASK_next (binary_buffer_next_uleb128 bb) address_mask addr_base stack
      else if opcode = DW_OP_consts then
        PUSH_MASK_next (binary_buffer_next_sleb128_into_u64 bb) address_mask addr_base stack
      else if opcode = DW_OP_addrx \<or> opcode = DW_OP_constx then
        (case ctx_cu_die ctx of
           None \<Rightarrow> Return (Inr (bb\<lparr>bb_pos := bb_prev bb\<rparr>, addr_base, stack))
         | Some cu \<Rightarrow>
           (case drgn_dwarf_next_addrx bb (ctx_module ctx) cu address_size addr_base of
              Inl err \<Rightarrow> Return (Inl err)
            | Inr (uvalue, bb', addr_base') \<Rightarrow> Continue (bb', addr_base', uvalue # stack)))
      else if DW_OP_breg0 \<le> opcode \<and> opcode \<le> DW_OP_breg31 then
        dwarf_expr_breg ctx (ucast (opcode - DW_OP_breg0)) bb addr_base stack
      else if opcode = DW_OP_bregx then
        (case binary_buffer_next_uleb128 bb of
           Inl err \<Rightarrow> Return (Inl err)
         | Inr (dwarf_regno, bb') \<Rightarrow> dwarf_expr_breg ctx dwarf_regno bb' addr_base stack)
      else if opcode = DW_OP_dup then
        (case stack of
           e0 # rest \<Rightarrow> Continue (bb, addr_base, e0 # stack)
         | _ \<Rightarrow> stack_underflow)
      else if opcode = DW_OP_drop then
        (case stack of
           e0 # rest \<Rightarrow> Continue (bb, addr_base, rest)
         | _ \<Rightarrow> stack_underflow)
      else if opcode = DW_OP_pick then
        (case binary_buffer_next_u8 bb of
           Inl err \<Rightarrow> Return (Inl err)
         | Inr (index, bb') \<Rightarrow>
           if length stack < unat index + 1 then stack_underflow
           else Continue (bb', addr_base, stack ! unat index # stack))
      else if opcode = DW_OP_over then
        (case stack of
           e0 # e1 # rest \<Rightarrow> Continue (bb, addr_base, e1 # stack)
         | _ \<Rightarrow> stack_underflow)
      else if opcode = DW_OP_swap then
        (case stack of
           e0 # e1 # rest \<Rightarrow> Continue (bb, addr_base, e1 # e0 # rest)
         | _ \<Rightarrow> stack_underflow)
      else if opcode = DW_OP_rot then
        (case stack of
           e0 # e1 # e2 # rest \<Rightarrow> Continue (bb, addr_base, e1 # e2 # e0 # rest)
         | _ \<Rightarrow> stack_underflow)
      else if opcode = DW_OP_deref then
        dwarf_expr_deref ctx address_size bb addr_base stack
      else if opcode = DW_OP_deref_size then
        (case binary_buffer_next_u8 bb of
           Inl err \<Rightarrow> Return (Inl err)
         | Inr (deref_size, bb') \<Rightarrow>
           if unat deref_size > address_size
           then Return (Inl (binary_buffer_error ''DW_OP_deref_size has invalid size''))
           else dwarf_expr_deref ctx (unat deref_size) bb' addr_base stack)
      else if opcode = DW_OP_call_frame_cfa then
        (case ctx_regs ctx of
           None \<Rightarrow> Return (Inl drgn_not_found)
         | Some regs \<Rightarrow>
           (case regs_cfa regs of
              None \<Rightarrow> Return (Inl drgn_not_found)
            | Some cfa \<Rightarrow> Continue (bb, addr_base, cfa # stack)))
      else if opcode = DW_OP_abs then
        (case stack of
           e0 # rest \<Rightarrow>
             Continue (bb, addr_base,
               (if e0 AND push_bit (address_bits - 1) 1 \<noteq> 0
                then (- e0) AND address_mask else e0) # rest)
         | _ \<Rightarrow> stack_underflow)
      else if opcode = DW_OP_and then
        BINOP (\<lambda>e1 e0. e1 AND e0) bb addr_base stack
      else if opcode = DW_OP_div then
        (case stack of
           e0 # e1 # rest \<Rightarrow>
             if e0 = 0
             then Return (Inl (binary_buffer_error ''division by zero in DWARF expression''))
             else Continue (bb, addr_base,
               (word_of_int (sint (truncate_signed e1 address_bits) sdiv
                             sint (truncate_signed e0 address_bits)) AND address_mask) # rest)
         | _ \<Rightarrow> stack_underflow)
      else if opcode = DW_OP_minus then
        BINOP_MASK (\<lambda>e1 e0. e1 - e0) address_mask bb addr_base stack
      else if opcode = DW_OP_mod then
        (case stack of
           e0 # e1 # rest \<Rightarrow>
             if e0 = 0
             then Return (Inl (binary_buffer_error ''modulo by zero in DWARF expression''))
             else Continue (bb, addr_base, (e1 mod e0) # rest)
         | _ \<Rightarrow> stack_underflow)
      else if opcode = DW_OP_mul then
        BINOP_MASK (\<lambda>e1 e0. e1 * e0) address_mask bb addr_base stack
      else if opcode = DW_OP_neg then
        UNOP_MASK (\<lambda>e0. - e0) address_mask bb addr_base stack
      else if opcode = DW_OP_not then
        UNOP_MASK (\<lambda>e0. NOT e0) address_mask bb addr_base stack
      else if opcode = DW_OP_or then
        BINOP (\<lambda>e1 e0. e1 OR e0) bb addr_base stack
      else if opcode = DW_OP_plus then
        BINOP_MASK (\<lambda>e1 e0. e1 + e0) address_mask bb addr_base stack
      else if opcode = DW_OP_plus_uconst then
        (case stack of
           e0 # rest \<Rightarrow>
             (case binary_buffer_next_uleb128 bb of
                Inl err \<Rightarrow> Return (Inl err)
              | Inr (uvalue, bb') \<Rightarrow>
                  Continue (bb', addr_base, ((e0 + uvalue) AND address_mask) # rest))
         | _ \<Rightarrow> stack_underflow)
      else if opcode = DW_OP_shl then
        (case stack of
           e0 # e1 # rest \<Rightarrow>
             Continue (bb, addr_base,
               (if unat e0 < address_bits then push_bit (unat e0) e1 AND address_mask else 0)
               # rest)
         | _ \<Rightarrow> stack_underflow)
      else if opcode = DW_OP_shr then
        (case stack of
           e0 # e1 # rest \<Rightarrow>
             Continue (bb, addr_base,
               (if unat e0 < address_bits then drop_bit (unat e0) e1 else 0) # rest)
         | _ \<Rightarrow> stack_underflow)
      else if opcode = DW_OP_shra then
        (case stack of
           e0 # e1 # rest \<Rightarrow>
             Continue (bb, addr_base,
               (if unat e0 < address_bits
                then signed_drop_bit (unat e0) (truncate_signed e1 address_bits)
                       AND address_mask
                else if e1 AND push_bit (address_bits - 1) 1 \<noteq> 0
                then (- 1) AND address_mask
                else 0) # rest)
         | _ \<Rightarrow> stack_underflow)
      else if opcode = DW_OP_xor then
        BINOP (\<lambda>e1 e0. e1 XOR e0) bb addr_base stack
      else if opcode = DW_OP_le then
        RELOP (\<lambda>e1 e0. e1 \<le> e0) address_bits bb addr_base stack
      else if opcode = DW_OP_ge then
        RELOP (\<lambda>e1 e0. e1 \<ge> e0) address_bits bb addr_base stack
      else if opcode = DW_OP_eq then
        RELOP (\<lambda>e1 e0. e1 = e0) address_bits bb addr_base stack
      else if opcode = DW_OP_lt then
        RELOP (\<lambda>e1 e0. e1 < e0) address_bits bb addr_base stack
      else if opcode = DW_OP_gt then
        RELOP (\<lambda>e1 e0. e1 > e0) address_bits bb addr_base stack
      else if opcode = DW_OP_ne then
        RELOP (\<lambda>e1 e0. e1 \<noteq> e0) address_bits bb addr_base stack
      else if opcode = DW_OP_skip then
        dwarf_expr_branch ctx bb addr_base stack
      else if opcode = DW_OP_bra then
        (case stack of
           e0 # rest \<Rightarrow>
             if e0 \<noteq> 0 then dwarf_expr_branch ctx bb addr_base rest
             else
               (case binary_buffer_skip bb 2 of
                  Inl err \<Rightarrow> Return (Inl err)
                | Inr bb' \<Rightarrow> Continue (bb', addr_base, rest))
         | _ \<Rightarrow> stack_underflow)
      else if opcode = DW_OP_nop then
        Continue (bb, addr_base, stack)
      else if (DW_OP_reg0 \<le> opcode \<and> opcode \<le> DW_OP_reg31) \<or> opcode = DW_OP_regx \<or>
              opcode = DW_OP_implicit_value \<or> opcode = DW_OP_stack_value \<or>
              opcode = DW_OP_piece \<or> opcode = DW_OP_bit_piece then
        Return (Inr (bb\<lparr>bb_pos := bb_prev bb\<rparr>, addr_base, stack))
      else Return (Inl (binary_buffer_error ''unknown DWARF expression opcode'')))"

text \<open>
  The state of the loop is the context, the stack and \<^verbatim>\<open>*remaining_ops\<close>; the function
  returns its result (an error, or \<^verbatim>\<open>NULL\<close> with the context and the stack) and leaves
  a value in \<^verbatim>\<open>*remaining_ops\<close>. \<open>frame_base\<close> stands for the call of
  \<^verbatim>\<open>drgn_dwarf_frame_base\<close> with the context's program, module, function and registers:
  given \<^verbatim>\<open>*remaining_ops\<close> it returns an error or the frame base, and the new
  \<^verbatim>\<open>*remaining_ops\<close>.
\<close>

type_synonym dwarf_expr_state = "drgn_dwarf_expression_context \<times> u64 list \<times> int"

type_synonym dwarf_expr_result =
  "(drgn_error + drgn_dwarf_expression_context \<times> u64 list) \<times> int"

definition too_many_operations :: drgn_error where
  "too_many_operations = binary_buffer_error ''DWARF expression executed too many operations''"

text \<open>One iteration of the \<^verbatim>\<open>while\<close> loop of \<^verbatim>\<open>drgn_eval_dwarf_expression\<close>.\<close>

definition drgn_eval_dwarf_expression_body ::
  "(int \<Rightarrow> (drgn_error + u64) \<times> int) \<Rightarrow> dwarf_expr_state \<Rightarrow>
   (dwarf_expr_state, dwarf_expr_result) loop_step" where
  "drgn_eval_dwarf_expression_body frame_base st =
     (case st of (ctx, stack, remaining_ops0) \<Rightarrow>
      if remaining_ops0 \<le> 0 then Return (Inl too_many_operations, remaining_ops0)
      else
        let remaining_ops = remaining_ops0 - 1 in
        (case binary_buffer_next_u8 (ctx_bb ctx) of
           Inl err \<Rightarrow> Return (Inl err, remaining_ops)
         | Inr (opcode, bb) \<Rightarrow>
           if opcode = DW_OP_fbreg then
             (case frame_base remaining_ops of
                (Inl err, remaining_ops') \<Rightarrow> Return (Inl err, remaining_ops')
              | (Inr uvalue, remaining_ops') \<Rightarrow>
                (case binary_buffer_next_sleb128 bb of
                   Inl err \<Rightarrow> Return (Inl err, remaining_ops')
                 | Inr (svalue, bb') \<Rightarrow>
                     Continue (ctx\<lparr>ctx_bb := bb'\<rparr>,
                       ((uvalue + svalue) AND uint_max (ctx_address_size ctx)) # stack,
                       remaining_ops')))
           else
             (case drgn_eval_dwarf_expression_switch ctx opcode bb (ctx_cu_addr_base ctx) stack
              of
                Continue (bb', addr_base', stack') \<Rightarrow>
                  Continue (ctx\<lparr>ctx_bb := bb', ctx_cu_addr_base := addr_base'\<rparr>, stack',
                            remaining_ops)
              | Return (Inl err) \<Rightarrow> Return (Inl err, remaining_ops)
              | Return (Inr (bb', addr_base', stack')) \<Rightarrow>
                  Return (Inr (ctx\<lparr>ctx_bb := bb', ctx_cu_addr_base := addr_base'\<rparr>, stack'),
                          remaining_ops))))"

text \<open>
  \<^verbatim>\<open>drgn_dwarf_frame_base\<close> evaluates the frame base expression in a context whose
  function is \<^verbatim>\<open>NULL\<close>, so that a \<^verbatim>\<open>DW_OP_fbreg\<close> in that expression calls
  \<^verbatim>\<open>drgn_dwarf_frame_base\<close> with no DIE, which returns \<^verbatim>\<open>&drgn_not_found\<close> at once. The
  evaluator is therefore defined first for such a context.
\<close>

definition drgn_dwarf_frame_base_no_die :: "int \<Rightarrow> (drgn_error + u64) \<times> int" where
  "drgn_dwarf_frame_base_no_die remaining_ops = (Inl drgn_not_found, remaining_ops)"

lemma drgn_eval_dwarf_expression_body_no_die_decreases:
  "drgn_eval_dwarf_expression_body drgn_dwarf_frame_base_no_die (ctx, stack, remaining_ops)
     = Continue (ctx', stack', remaining_ops') \<Longrightarrow>
   0 < remaining_ops \<and> remaining_ops' = remaining_ops - 1"
  by (auto simp: drgn_eval_dwarf_expression_body_def drgn_dwarf_frame_base_no_die_def Let_def
      split: if_splits sum.splits loop_step.splits prod.splits)

function drgn_eval_dwarf_expression_no_function :: "dwarf_expr_state \<Rightarrow> dwarf_expr_result" where
  "drgn_eval_dwarf_expression_no_function (ctx, stack, remaining_ops) =
     (if \<not> binary_buffer_has_next (ctx_bb ctx) then (Inr (ctx, stack), remaining_ops)
      else
        (case drgn_eval_dwarf_expression_body drgn_dwarf_frame_base_no_die
                (ctx, stack, remaining_ops) of
           Return r \<Rightarrow> r
         | Continue st' \<Rightarrow> drgn_eval_dwarf_expression_no_function st'))"
  by pat_completeness auto
termination
proof (relation "measure (\<lambda>(ctx, stack, remaining_ops). nat remaining_ops)")
  show "wf (measure (\<lambda>(ctx, stack, remaining_ops). nat remaining_ops))"
    by simp
next
  fix ctx :: drgn_dwarf_expression_context and stack :: "u64 list" and remaining_ops :: int
    and st' :: dwarf_expr_state
  assume "drgn_eval_dwarf_expression_body drgn_dwarf_frame_base_no_die
      (ctx, stack, remaining_ops) = Continue st'"
  then show "(st', ctx, stack, remaining_ops)
      \<in> measure (\<lambda>(ctx, stack, remaining_ops). nat remaining_ops)"
    using drgn_eval_dwarf_expression_body_no_die_decreases
      [of ctx stack remaining_ops "fst st'" "fst (snd st')" "snd (snd st')"]
    by (cases st') auto
qed

declare drgn_eval_dwarf_expression_no_function.simps [simp del]

lemma drgn_eval_dwarf_expression_no_function_remaining_ops:
  "snd (drgn_eval_dwarf_expression_no_function (ctx, stack, remaining_ops)) \<le> remaining_ops"
proof (induction "(ctx, stack, remaining_ops)" arbitrary: ctx stack remaining_ops
    rule: drgn_eval_dwarf_expression_no_function.induct)
  case (1 ctx stack remaining_ops)
  show ?case
  proof (cases "binary_buffer_has_next (ctx_bb ctx)")
    case False
    then show ?thesis by (subst drgn_eval_dwarf_expression_no_function.simps) simp
  next
    case True
    show ?thesis
    proof (cases "drgn_eval_dwarf_expression_body drgn_dwarf_frame_base_no_die
        (ctx, stack, remaining_ops)")
      case (Return r)
      then have "snd r \<le> remaining_ops"
        by (auto simp: drgn_eval_dwarf_expression_body_def drgn_dwarf_frame_base_no_die_def
            Let_def split: if_splits sum.splits loop_step.splits prod.splits)
      then show ?thesis using True Return
        by (subst drgn_eval_dwarf_expression_no_function.simps) simp
    next
      case (Continue st')
      obtain ctx' stack' remaining_ops' where st': "st' = (ctx', stack', remaining_ops')"
        by (cases st') auto
      from drgn_eval_dwarf_expression_body_no_die_decreases [OF Continue [unfolded st']]
      have "remaining_ops' \<le> remaining_ops" by simp
      moreover have "snd (drgn_eval_dwarf_expression_no_function (ctx', stack', remaining_ops'))
          \<le> remaining_ops'"
        using "1.hyps" [of ctx' stack' remaining_ops'] True Continue st' by simp
      ultimately show ?thesis using True Continue st'
        by (subst drgn_eval_dwarf_expression_no_function.simps) simp
    qed
  qed
qed

text \<open>
  \<^verbatim>\<open>drgn_dwarf_frame_base\<close>. Every path through the body of its \<^verbatim>\<open>for (;;)\<close> loop leaves
  the loop, so the body runs once. The code at the label \<^verbatim>\<open>reg\<close> comes first.
\<close>

definition frame_base_reg ::
  "drgn_debug_info_module \<Rightarrow> drgn_register_state option \<Rightarrow> u64 \<Rightarrow> binary_buffer \<Rightarrow>
   drgn_error + u64" where
  "frame_base_reg module regs dwarf_regno bb =
     (case regs of
        None \<Rightarrow> Inl drgn_not_found
      | Some rs \<Rightarrow>
        (case dwarf_regno_to_internal module dwarf_regno of
           None \<Rightarrow> Inl drgn_not_found
         | Some regno \<Rightarrow>
           (case regs_buf rs regno of
              None \<Rightarrow> Inl drgn_not_found
            | Some bytes \<Rightarrow>
              if binary_buffer_has_next bb
              then Inl (binary_buffer_error
                          ''stray operations in DW_AT_frame_base expression'')
              else Inr (copy_lsbytes_u64 bytes (platform_little_endian module)))))"

definition drgn_dwarf_frame_base ::
  "drgn_program \<Rightarrow> drgn_debug_info_module \<Rightarrow> function_die option \<Rightarrow>
   drgn_register_state option \<Rightarrow> int \<Rightarrow> (drgn_error + u64) \<times> int" where
  "drgn_dwarf_frame_base prog module die regs remaining_ops =
     (case die of
        None \<Rightarrow> (Inl drgn_not_found, remaining_ops)
      | Some d \<Rightarrow>
        (case die_frame_base d of
           None \<Rightarrow> (Inl drgn_not_found, remaining_ops)
         | Some (Inl err) \<Rightarrow> (Inl err, remaining_ops)
         | Some (Inr expr) \<Rightarrow>
           (case drgn_dwarf_expression_context_init prog module (Some (die_cu d)) None regs expr
            of
              Inl err \<Rightarrow> (Inl err, remaining_ops)
            | Inr ctx \<Rightarrow>
              (case drgn_eval_dwarf_expression_no_function (ctx, [], remaining_ops) of
                 (Inl err, remaining_ops') \<Rightarrow> (Inl err, remaining_ops')
               | (Inr (ctx', stack), remaining_ops') \<Rightarrow>
                 if binary_buffer_has_next (ctx_bb ctx') then
                   (case binary_buffer_next_u8 (ctx_bb ctx') of
                      Inl err \<Rightarrow> (Inl err, remaining_ops')
                    | Inr (opcode, bb) \<Rightarrow>
                      if DW_OP_reg0 \<le> opcode \<and> opcode \<le> DW_OP_reg31 then
                        (frame_base_reg module regs (ucast (opcode - DW_OP_reg0)) bb,
                         remaining_ops')
                      else if opcode = DW_OP_regx then
                        (case binary_buffer_next_uleb128 bb of
                           Inl err \<Rightarrow> (Inl err, remaining_ops')
                         | Inr (dwarf_regno, bb') \<Rightarrow>
                             (frame_base_reg module regs dwarf_regno bb', remaining_ops'))
                      else (Inl (binary_buffer_error
                                   ''invalid opcode for DW_AT_frame_base expression''),
                            remaining_ops'))
                 else
                   (case stack of
                      e0 # rest \<Rightarrow> (Inr e0, remaining_ops')
                    | [] \<Rightarrow> (Inl drgn_not_found, remaining_ops'))))))"

lemma drgn_dwarf_frame_base_remaining_ops:
  "snd (drgn_dwarf_frame_base prog module die regs remaining_ops) \<le> remaining_ops"
proof -
  have "\<And>ctx r remaining_ops'.
      drgn_eval_dwarf_expression_no_function (ctx, [], remaining_ops) = (r, remaining_ops') \<Longrightarrow>
      remaining_ops' \<le> remaining_ops"
    using drgn_eval_dwarf_expression_no_function_remaining_ops [of _ "[]" remaining_ops]
    by (metis snd_conv)
  then show ?thesis
    by (auto simp: drgn_dwarf_frame_base_def
        split: option.splits sum.splits prod.splits list.splits if_splits)
qed

text \<open>\<^verbatim>\<open>drgn_eval_dwarf_expression\<close> in any context.\<close>

definition drgn_dwarf_frame_base_of ::
  "drgn_dwarf_expression_context \<Rightarrow> int \<Rightarrow> (drgn_error + u64) \<times> int" where
  "drgn_dwarf_frame_base_of ctx =
     drgn_dwarf_frame_base (ctx_prog ctx) (ctx_module ctx) (ctx_function ctx) (ctx_regs ctx)"

lemma drgn_eval_dwarf_expression_body_decreases:
  "drgn_eval_dwarf_expression_body (drgn_dwarf_frame_base_of ctx) (ctx, stack, remaining_ops)
     = Continue (ctx', stack', remaining_ops') \<Longrightarrow>
   0 < remaining_ops \<and> remaining_ops' \<le> remaining_ops - 1"
  using drgn_dwarf_frame_base_remaining_ops
    [of "ctx_prog ctx" "ctx_module ctx" "ctx_function ctx" "ctx_regs ctx" "remaining_ops - 1"]
  by (auto simp: drgn_eval_dwarf_expression_body_def drgn_dwarf_frame_base_of_def Let_def
      split: if_splits sum.splits loop_step.splits prod.splits)

function drgn_eval_dwarf_expression :: "dwarf_expr_state \<Rightarrow> dwarf_expr_result" where
  "drgn_eval_dwarf_expression (ctx, stack, remaining_ops) =
     (if \<not> binary_buffer_has_next (ctx_bb ctx) then (Inr (ctx, stack), remaining_ops)
      else
        (case drgn_eval_dwarf_expression_body (drgn_dwarf_frame_base_of ctx)
                (ctx, stack, remaining_ops) of
           Return r \<Rightarrow> r
         | Continue st' \<Rightarrow> drgn_eval_dwarf_expression st'))"
  by pat_completeness auto
termination
proof (relation "measure (\<lambda>(ctx, stack, remaining_ops). nat remaining_ops)")
  show "wf (measure (\<lambda>(ctx, stack, remaining_ops). nat remaining_ops))"
    by simp
next
  fix ctx :: drgn_dwarf_expression_context and stack :: "u64 list" and remaining_ops :: int
    and st' :: dwarf_expr_state
  assume "drgn_eval_dwarf_expression_body (drgn_dwarf_frame_base_of ctx)
      (ctx, stack, remaining_ops) = Continue st'"
  then show "(st', ctx, stack, remaining_ops)
      \<in> measure (\<lambda>(ctx, stack, remaining_ops). nat remaining_ops)"
    using drgn_eval_dwarf_expression_body_decreases
      [of ctx stack remaining_ops "fst st'" "fst (snd st')" "snd (snd st')"]
    by (cases st') auto
qed

declare drgn_eval_dwarf_expression.simps [simp del]
text \<open>
  \<^verbatim>\<open>drgn_eval_cfi_dwarf_expression\<close> evaluates the expression of a CFI rule with a fresh
  budget of \<^verbatim>\<open>MAX_DWARF_EXPR_OPS\<close>. Its arguments here are \<^verbatim>\<open>rule->push_cfa\<close>, whether
  \<^verbatim>\<open>rule->kind\<close> is \<^verbatim>\<open>DRGN_CFI_RULE_AT_DWARF_EXPRESSION\<close>, and the bytes of
  \<^verbatim>\<open>rule->expr\<close>; the result is what it leaves in \<^verbatim>\<open>buf\<close>. Modelled from the spec:
  copying the \<open>size\<close> least significant bytes of a host \<^verbatim>\<open>uint64_t\<close> into a buffer in a
  given byte order (\<^verbatim>\<open>copy_lsbytes\<close>, \<^verbatim>\<open>serialize.h\<close>).
\<close>

definition copy_lsbytes_from_u64 :: "nat \<Rightarrow> bool \<Rightarrow> u64 \<Rightarrow> u8 list" where
  "copy_lsbytes_from_u64 dst_size dst_little_endian src =
     (let bytes = map (\<lambda>i. if i < 8 then ucast (drop_bit (8 * i) src) else 0) [0..<dst_size]
      in if dst_little_endian then bytes else rev bytes)"

definition drgn_eval_cfi_dwarf_expression ::
  "drgn_program \<Rightarrow> bool \<Rightarrow> bool \<Rightarrow> bool \<Rightarrow> u8 list \<Rightarrow> drgn_register_state \<Rightarrow> nat \<Rightarrow>
   drgn_error + u8 list" where
  "drgn_eval_cfi_dwarf_expression prog prog_little_endian push_cfa at_expression expr regs buf_size =
     (case (if push_cfa
            then (case regs_cfa regs of None \<Rightarrow> Inl drgn_not_found | Some cfa \<Rightarrow> Inr [cfa])
            else Inr []) of
        Inl err \<Rightarrow> Inl err
      | Inr stack0 \<Rightarrow>
        (case drgn_dwarf_expression_context_init prog (regs_module regs) None None (Some regs) expr
         of
           Inl err \<Rightarrow> Inl err
         | Inr ctx0 \<Rightarrow>
           (case drgn_eval_dwarf_expression (ctx0, stack0, MAX_DWARF_EXPR_OPS) of
              (Inl err, remaining_ops) \<Rightarrow> Inl err
            | (Inr (ctx, stack), remaining_ops) \<Rightarrow>
              if binary_buffer_has_next (ctx_bb ctx) then
                (case binary_buffer_next_u8 (ctx_bb ctx) of
                   Inl err \<Rightarrow> Inl err
                 | Inr (opcode, bb) \<Rightarrow>
                     Inl (binary_buffer_error ''invalid opcode for CFI expression''))
              else
                (case stack of
                   [] \<Rightarrow> Inl drgn_not_found
                 | e0 # rest \<Rightarrow>
                   if at_expression then drgn_program_read_memory prog e0 buf_size
                   else Inr (copy_lsbytes_from_u64 buf_size prog_little_endian e0)))))"



section \<open>Call frame information: parsing a CIE\<close>










text \<open>
  The opcodes that \<^verbatim>\<open>drgn_eval_dwarf_expression\<close> has a case for: \<^verbatim>\<open>DW_OP_addr\<close>,
  \<^verbatim>\<open>DW_OP_deref\<close>, \<^verbatim>\<open>DW_OP_const1u\<close> to \<^verbatim>\<open>DW_OP_rot\<close>, \<^verbatim>\<open>DW_OP_abs\<close> to
  \<^verbatim>\<open>DW_OP_deref_size\<close>, \<^verbatim>\<open>DW_OP_nop\<close>, \<^verbatim>\<open>DW_OP_call_frame_cfa\<close> to
  \<^verbatim>\<open>DW_OP_stack_value\<close>, \<^verbatim>\<open>DW_OP_addrx\<close> and \<^verbatim>\<open>DW_OP_constx\<close>. And the opcodes that
  \<^verbatim>\<open>drgn_eval_dwarf_cfi\<close> has a case for: those with one of the two high bits set, and
  \<^verbatim>\<open>DW_CFA_nop\<close> to \<^verbatim>\<open>DW_CFA_val_expression\<close>.
\<close>

definition dwarf_expression_opcode_known :: "u8 \<Rightarrow> bool" where
  "dwarf_expression_opcode_known opcode \<longleftrightarrow>
     opcode = DW_OP_addr \<or> opcode = DW_OP_deref \<or>
     (DW_OP_const1u \<le> opcode \<and> opcode \<le> DW_OP_rot) \<or>
     (DW_OP_abs \<le> opcode \<and> opcode \<le> DW_OP_deref_size) \<or>
     opcode = DW_OP_nop \<or>
     (DW_OP_call_frame_cfa \<le> opcode \<and> opcode \<le> DW_OP_stack_value) \<or>
     opcode = DW_OP_addrx \<or> opcode = DW_OP_constx"



section \<open>Verified properties\<close>

subsection \<open>Member bit offsets\<close>

text \<open>
  Claim C5. For a member without \<^verbatim>\<open>DW_AT_data_bit_offset\<close> and with
  \<^verbatim>\<open>DW_AT_bit_offset\<close>, the offset starts at eight times
  \<^verbatim>\<open>DW_AT_data_member_location\<close> (0 if absent); a big-endian target adds the bit offset,
  a little-endian target adds \<open>8 * byte_size - bit_offset - bit_size\<close>, the byte size
  taken from \<^verbatim>\<open>DW_AT_byte_size\<close> if present and from the size of the member's type
  otherwise. All arithmetic is that of \<^verbatim>\<open>uint64_t\<close>. For
  \<^verbatim>\<open>struct { int a:3; int b:5; }\<close> with byte size 1 on a little-endian target, the
  offset of \<open>a\<close> (bit offset 5, bit size 3) is 0 and that of \<open>b\<close> (bit offset 0, bit
  size 5) is 3.
\<close>

theorem parse_member_offset_bit_field:
  assumes "DW_AT_data_bit_offset die = None"
    and "DW_AT_bit_offset die = Some battr"
    and "dwarf_formudata battr = Some bit_offset"
    and "(DW_AT_data_member_location die = None \<and> loc = 0) \<or>
         (\<exists>attr. DW_AT_data_member_location die = Some attr \<and>
            drgn_parse_dwarf_data_member_location attr = Inr loc)"
  shows "parse_member_offset die ev False = Inr (loc * 8 + bit_offset) \<and>
    (\<forall>obj byte_size.
       ev = Inr obj \<and>
       ((\<exists>a. DW_AT_byte_size die = Some a \<and> dwarf_formudata a = Some byte_size) \<or>
        (DW_AT_byte_size die = None \<and> drgn_type_has_size obj \<and>
         drgn_type_sizeof obj = Inr byte_size)) \<longrightarrow>
       parse_member_offset die ev True =
         Inr (loc * 8 + (8 * byte_size - bit_offset - obj_bit_size obj))) \<and>
    parse_member_offset
     \<lparr>DW_AT_data_bit_offset = None,
      DW_AT_data_member_location = None,
      DW_AT_bit_offset = Some \<lparr>attr_form = DW_FORM_data1, attr_cu_version = 3,
        dwarf_formudata = Some 5, dwarf_formblock = None\<rparr>,
      DW_AT_byte_size = Some \<lparr>attr_form = DW_FORM_data1, attr_cu_version = 3,
        dwarf_formudata = Some 1, dwarf_formblock = None\<rparr>\<rparr>
     (Inr \<lparr>obj_bit_size = 3, drgn_type_has_size = True, drgn_type_sizeof = Inr 4\<rparr>) True
    = Inr 0 \<and>
    parse_member_offset
     \<lparr>DW_AT_data_bit_offset = None,
      DW_AT_data_member_location = None,
      DW_AT_bit_offset = Some \<lparr>attr_form = DW_FORM_data1, attr_cu_version = 3,
        dwarf_formudata = Some 0, dwarf_formblock = None\<rparr>,
      DW_AT_byte_size = Some \<lparr>attr_form = DW_FORM_data1, attr_cu_version = 3,
        dwarf_formudata = Some 1, dwarf_formblock = None\<rparr>\<rparr>
     (Inr \<lparr>obj_bit_size = 5, drgn_type_has_size = True, drgn_type_sizeof = Inr 4\<rparr>) True
    = Inr 3"
proof -
  have "parse_member_offset die ev False = Inr (loc * 8 + bit_offset)"
    using assms by (auto simp: parse_member_offset_def)
  moreover have "\<forall>obj byte_size.
       ev = Inr obj \<and>
       ((\<exists>a. DW_AT_byte_size die = Some a \<and> dwarf_formudata a = Some byte_size) \<or>
        (DW_AT_byte_size die = None \<and> drgn_type_has_size obj \<and>
         drgn_type_sizeof obj = Inr byte_size)) \<longrightarrow>
       parse_member_offset die ev True =
         Inr (loc * 8 + (8 * byte_size - bit_offset - obj_bit_size obj))"
    using assms by (auto simp: parse_member_offset_def)
  ultimately show ?thesis
    by (simp add: parse_member_offset_def)
qed

theorem parse_member_offset_bit_field_witness:
  "parse_member_offset
     \<lparr>DW_AT_data_bit_offset = None,
      DW_AT_data_member_location = None,
      DW_AT_bit_offset = Some \<lparr>attr_form = DW_FORM_data1, attr_cu_version = 3,
        dwarf_formudata = Some 5, dwarf_formblock = None\<rparr>,
      DW_AT_byte_size = Some \<lparr>attr_form = DW_FORM_data1, attr_cu_version = 3,
        dwarf_formudata = Some 1, dwarf_formblock = None\<rparr>\<rparr>
     (Inr \<lparr>obj_bit_size = 3, drgn_type_has_size = True, drgn_type_sizeof = Inr 4\<rparr>) True
   = Inr 0 \<and>
   parse_member_offset
     \<lparr>DW_AT_data_bit_offset = None,
      DW_AT_data_member_location = None,
      DW_AT_bit_offset = Some \<lparr>attr_form = DW_FORM_data1, attr_cu_version = 3,
        dwarf_formudata = Some 0, dwarf_formblock = None\<rparr>,
      DW_AT_byte_size = Some \<lparr>attr_form = DW_FORM_data1, attr_cu_version = 3,
        dwarf_formudata = Some 1, dwarf_formblock = None\<rparr>\<rparr>
     (Inr \<lparr>obj_bit_size = 5, drgn_type_has_size = True, drgn_type_sizeof = Inr 4\<rparr>) True
   = Inr 3 \<and>
   parse_member_offset
     \<lparr>DW_AT_data_bit_offset = None,
      DW_AT_data_member_location = Some \<lparr>attr_form = DW_FORM_block1, attr_cu_version = 2,
        dwarf_formudata = None, dwarf_formblock = Some [0x23, 0x04]\<rparr>,
      DW_AT_bit_offset = Some \<lparr>attr_form = DW_FORM_data1, attr_cu_version = 2,
        dwarf_formudata = Some 5, dwarf_formblock = None\<rparr>,
      DW_AT_byte_size = None\<rparr>
     (Inr \<lparr>obj_bit_size = 3, drgn_type_has_size = True, drgn_type_sizeof = Inr 4\<rparr>) False
   = Inr 37"
proof -
  let ?a5 = "\<lparr>attr_form = DW_FORM_data1, attr_cu_version = 3,
        dwarf_formudata = Some (5 :: u64), dwarf_formblock = None\<rparr>"
  let ?a0 = "\<lparr>attr_form = DW_FORM_data1, attr_cu_version = 3,
        dwarf_formudata = Some (0 :: u64), dwarf_formblock = None\<rparr>"
  let ?b5 = "\<lparr>attr_form = DW_FORM_data1, attr_cu_version = 2,
        dwarf_formudata = Some (5 :: u64), dwarf_formblock = None\<rparr>"
  let ?s1 = "\<lparr>attr_form = DW_FORM_data1, attr_cu_version = 3,
        dwarf_formudata = Some (1 :: u64), dwarf_formblock = None\<rparr>"
  let ?loc = "\<lparr>attr_form = DW_FORM_block1, attr_cu_version = 2,
        dwarf_formudata = None, dwarf_formblock = Some [0x23, 0x04 :: u8]\<rparr>"
  let ?da = "\<lparr>DW_AT_data_bit_offset = None, DW_AT_data_member_location = None,
      DW_AT_bit_offset = Some ?a5, DW_AT_byte_size = Some ?s1\<rparr>"
  let ?db = "\<lparr>DW_AT_data_bit_offset = None, DW_AT_data_member_location = None,
      DW_AT_bit_offset = Some ?a0, DW_AT_byte_size = Some ?s1\<rparr>"
  let ?dc = "\<lparr>DW_AT_data_bit_offset = None, DW_AT_data_member_location = Some ?loc,
      DW_AT_bit_offset = Some ?b5, DW_AT_byte_size = None\<rparr>"
  have loc: "drgn_parse_dwarf_data_member_location ?loc = Inr 4"
    by (simp add: drgn_parse_dwarf_data_member_location_def drgn_dwarf_attribute_is_block_def
        binary_buffer_next_u8_def binary_buffer_next_uint_def binary_buffer_init_def
        bb_remaining_def bb_advance_def bytes_u64_def binary_buffer_next_uleb128_def
        binary_buffer_has_next_def)
  have a: "parse_member_offset ?da
      (Inr \<lparr>obj_bit_size = 3, drgn_type_has_size = True, drgn_type_sizeof = Inr 4\<rparr>) True
      = Inr 0"
    using parse_member_offset_bit_field [of ?da ?a5 5 0
        "Inr \<lparr>obj_bit_size = 3, drgn_type_has_size = True, drgn_type_sizeof = Inr 4\<rparr>"]
    by simp
  have b: "parse_member_offset ?db
      (Inr \<lparr>obj_bit_size = 5, drgn_type_has_size = True, drgn_type_sizeof = Inr 4\<rparr>) True
      = Inr 3"
    using parse_member_offset_bit_field [of ?db ?a0 0 0
        "Inr \<lparr>obj_bit_size = 5, drgn_type_has_size = True, drgn_type_sizeof = Inr 4\<rparr>"]
    by simp
  have c: "parse_member_offset ?dc
      (Inr \<lparr>obj_bit_size = 3, drgn_type_has_size = True, drgn_type_sizeof = Inr 4\<rparr>) False
      = Inr 37"
    using parse_member_offset_bit_field [of ?dc ?b5 5 4
        "Inr \<lparr>obj_bit_size = 3, drgn_type_has_size = True, drgn_type_sizeof = Inr 4\<rparr>"] loc
    by simp
  from a b c show ?thesis by simp
qed

subsection \<open>Sorting and deduplicating FDEs\<close>

text \<open>The comparison function as an order: by initial location, then \<^verbatim>\<open>.debug_frame\<close> first.\<close>

definition fde_le :: "drgn_dwarf_cie list \<Rightarrow> drgn_dwarf_fde \<Rightarrow> drgn_dwarf_fde \<Rightarrow> bool" where
  "fde_le cies a b = (drgn_dwarf_fde_compar a b cies \<le> 0)"

lemma fde_le_iff:
  "fde_le cies a b \<longleftrightarrow>
     fde_initial_location a < fde_initial_location b \<or>
     (fde_initial_location a = fde_initial_location b \<and>
      (cie_is_eh (cies ! fde_cie a) \<longrightarrow> cie_is_eh (cies ! fde_cie b)))"
  by (auto simp: fde_le_def drgn_dwarf_fde_compar_def)

lemma fde_le_total: "fde_le cies a b \<or> fde_le cies b a"
  by (auto simp: fde_le_iff)

lemma fde_le_trans: "fde_le cies a b \<Longrightarrow> fde_le cies b c \<Longrightarrow> fde_le cies a c"
  by (auto simp: fde_le_iff)

lemma set_qsort_r_insert: "set (qsort_r_insert compar x ys) = insert x (set ys)"
  by (induction ys) auto

lemma sorted_qsort_r_insert:
  "sorted_wrt (fde_le cies) ys \<Longrightarrow>
   sorted_wrt (fde_le cies) (qsort_r_insert (\<lambda>a b. drgn_dwarf_fde_compar a b cies) x ys)"
proof (induction ys)
  case Nil
  then show ?case by simp
next
  case (Cons y ys)
  show ?case
  proof (cases "drgn_dwarf_fde_compar x y cies \<le> 0")
    case True
    then have "fde_le cies x y" by (simp add: fde_le_def)
    with Cons.prems show ?thesis using True
      by (auto intro: fde_le_trans)
  next
    case False
    then have "fde_le cies y x" using fde_le_total [of cies x y] by (simp add: fde_le_def)
    with Cons show ?thesis using False
      by (auto simp: set_qsort_r_insert)
  qed
qed

lemma set_qsort_r: "set (qsort_r xs compar arg) = set xs"
  by (induction xs) (auto simp: qsort_r_def set_qsort_r_insert)

lemma sorted_qsort_r: "sorted_wrt (fde_le cies) (qsort_r xs drgn_dwarf_fde_compar cies)"
  by (induction xs) (auto simp: qsort_r_def sorted_qsort_r_insert)

lemma length_qsort_r_insert: "length (qsort_r_insert compar x ys) = Suc (length ys)"
  by (induction ys) auto

lemma length_qsort_r: "length (qsort_r xs compar arg) = length xs"
  by (induction xs) (auto simp: qsort_r_def length_qsort_r_insert)

definition dedup_step :: "drgn_dwarf_fde list \<Rightarrow> drgn_dwarf_fde \<Rightarrow> drgn_dwarf_fde list" where
  "dedup_step acc x =
     (if fde_initial_location x \<noteq> fde_initial_location (last acc) then acc @ [x] else acc)"

lemma dedup_step_new:
  "fde_initial_location x \<noteq> fde_initial_location (last acc) \<Longrightarrow> dedup_step acc x = acc @ [x]"
  unfolding dedup_step_def by simp

lemma dedup_step_dup:
  "fde_initial_location x = fde_initial_location (last acc) \<Longrightarrow> dedup_step acc x = acc"
  unfolding dedup_step_def by simp

lemma dedup_fdes_loop_foldl:
  "0 < dst \<Longrightarrow> dst \<le> src \<Longrightarrow> src \<le> length data \<Longrightarrow>
   dedup_fdes_loop data src dst = (data', dst') \<Longrightarrow>
   take dst' data' = foldl dedup_step (take dst data) (drop src data)"
proof (induction data src dst arbitrary: data' dst' rule: dedup_fdes_loop.induct)
  case (1 data src dst)
  show ?case
  proof (cases "src < length data")
    case False
    with "1.prems" show ?thesis
      by (subst (asm) dedup_fdes_loop.simps) simp
  next
    case True
    have last: "last (take dst data) = data ! (dst - 1)"
    proof -
      have "take dst data \<noteq> []" using "1.prems" True by auto
      then have "last (take dst data) = take dst data ! (length (take dst data) - 1)"
        by (rule last_conv_nth)
      also have "\<dots> = data ! (dst - 1)" using "1.prems" True by simp
      finally show ?thesis .
    qed
    have "drop src data = data ! src # drop (Suc src) data"
      using True by (simp add: Cons_nth_drop_Suc)
    then have dr: "foldl dedup_step (take dst data) (drop src data) =
        foldl dedup_step (dedup_step (take dst data) (data ! src)) (drop (Suc src) data)"
      by simp
    show ?thesis
    proof (cases "fde_initial_location (data ! src) \<noteq> fde_initial_location (data ! (dst - 1))")
      case ne: True
      let ?d = "if src \<noteq> dst then data[dst := data ! src] else data"
      have run: "dedup_fdes_loop ?d (Suc src) (Suc dst) = (data', dst')"
        using "1.prems"(4) True ne by (simp add: dedup_fdes_loop.simps [of data src dst])
      have "take dst' data' = foldl dedup_step (take (Suc dst) ?d) (drop (Suc src) ?d)"
        using "1.IH"(1) [OF True ne _ _ _ run] "1.prems" True by simp
      moreover have "take (Suc dst) ?d = take dst data @ [data ! src]"
        using "1.prems" True by (auto simp: take_Suc_conv_app_nth)
      moreover have "drop (Suc src) ?d = drop (Suc src) data"
        using "1.prems" by auto
      moreover have "dedup_step (take dst data) (data ! src) = take dst data @ [data ! src]"
        using ne last unfolding dedup_step_def by simp
      ultimately show ?thesis
        using dr by simp
    next
      case eq: False
      have run: "dedup_fdes_loop data (Suc src) dst = (data', dst')"
        using "1.prems"(4) True eq by (simp add: dedup_fdes_loop.simps [of data src dst])
      have "take dst' data' = foldl dedup_step (take dst data) (drop (Suc src) data)"
        using "1.IH"(2) [OF True _ _ _ _ run] eq "1.prems" True by simp
      moreover have "dedup_step (take dst data) (data ! src) = take dst data"
        using eq last unfolding dedup_step_def by simp
      ultimately show ?thesis
        using dr by simp
    qed
  qed
qed


lemma strict_sorted_le_last:
  "sorted_wrt (\<lambda>a b. fde_initial_location a < fde_initial_location b) acc \<Longrightarrow>
   a \<in> set acc \<Longrightarrow> fde_initial_location a \<le> fde_initial_location (last acc)"
  by (induction acc) (auto simp: less_imp_le)

lemma foldl_dedup_step_strict:
  "acc \<noteq> [] \<Longrightarrow> sorted_wrt (\<lambda>a b. fde_initial_location a < fde_initial_location b) acc \<Longrightarrow>
   sorted_wrt (\<lambda>a b. fde_initial_location a \<le> fde_initial_location b) (last acc # rest) \<Longrightarrow>
   sorted_wrt (\<lambda>a b. fde_initial_location a < fde_initial_location b)
     (foldl dedup_step acc rest)"
proof (induction rest arbitrary: acc)
  case Nil
  then show ?case by simp
next
  case (Cons x rest)
  show ?case
  proof (cases "fde_initial_location x \<noteq> fde_initial_location (last acc)")
    case True
    have lt: "fde_initial_location (last acc) < fde_initial_location x"
      using Cons.prems(3) True by auto
    have "\<forall>a\<in>set acc. fde_initial_location a \<le> fde_initial_location (last acc)"
      using Cons.prems(2) strict_sorted_le_last by blast
    then have "sorted_wrt (\<lambda>a b. fde_initial_location a < fde_initial_location b) (acc @ [x])"
      using Cons.prems(2) lt by (auto simp: sorted_wrt_append)
    moreover have "sorted_wrt (\<lambda>a b. fde_initial_location a \<le> fde_initial_location b)
        (last (acc @ [x]) # rest)"
      using Cons.prems(3) by simp
    ultimately have "sorted_wrt (\<lambda>a b. fde_initial_location a < fde_initial_location b)
        (foldl dedup_step (acc @ [x]) rest)"
      using Cons.IH [of "acc @ [x]"] by simp
    then show ?thesis using True by (simp add: dedup_step_new)
  next
    case False
    have "sorted_wrt (\<lambda>a b. fde_initial_location a \<le> fde_initial_location b) (last acc # rest)"
      using Cons.prems(3) by auto
    then have "sorted_wrt (\<lambda>a b. fde_initial_location a < fde_initial_location b)
        (foldl dedup_step acc rest)"
      using Cons.IH [of acc] Cons.prems(1,2) by simp
    then show ?thesis using False by (simp add: dedup_step_dup)
  qed
qed


lemma sorted_fde_le_last:
  "sorted_wrt (fde_le cies) pre \<Longrightarrow> g \<in> set pre \<Longrightarrow>
   fde_initial_location g \<le> fde_initial_location (last pre)"
proof (induction pre)
  case Nil
  then show ?case by simp
next
  case (Cons a pre)
  show ?case
  proof (cases "pre = []")
    case True
    with Cons.prems show ?thesis by simp
  next
    case False
    then have "last pre \<in> set pre" by simp
    then have "fde_le cies a (last pre)" using Cons.prems(1) by simp
    then have "fde_initial_location a \<le> fde_initial_location (last pre)"
      by (auto simp: fde_le_iff)
    then show ?thesis using Cons False by auto
  qed
qed

lemma foldl_dedup_step_first:
  "sorted_wrt (fde_le cies) (pre @ rest) \<Longrightarrow> acc \<noteq> [] \<Longrightarrow>
   fde_initial_location (last acc) = fde_initial_location (last pre) \<Longrightarrow>
   set acc \<subseteq> set pre \<Longrightarrow>
   (\<forall>f\<in>set acc. \<forall>g\<in>set pre.
      fde_initial_location g = fde_initial_location f \<longrightarrow> fde_le cies f g) \<Longrightarrow>
   (\<forall>g\<in>set pre. \<exists>f\<in>set acc. fde_initial_location f = fde_initial_location g) \<Longrightarrow>
   set (foldl dedup_step acc rest) \<subseteq> set (pre @ rest) \<and>
   (\<forall>f\<in>set (foldl dedup_step acc rest). \<forall>g\<in>set (pre @ rest).
      fde_initial_location g = fde_initial_location f \<longrightarrow> fde_le cies f g) \<and>
   (\<forall>g\<in>set (pre @ rest). \<exists>f\<in>set (foldl dedup_step acc rest).
      fde_initial_location f = fde_initial_location g)"
proof (induction rest arbitrary: pre acc)
  case Nil
  then show ?case by simp
next
  case (Cons x rest)
  have srt: "sorted_wrt (fde_le cies) ((pre @ [x]) @ rest)"
    using Cons.prems(1) by simp
  have pre_x: "\<forall>g\<in>set pre. fde_le cies g x"
    using Cons.prems(1) by (auto simp: sorted_wrt_append)
  have pre_sorted: "sorted_wrt (fde_le cies) pre"
    using Cons.prems(1) by (auto simp: sorted_wrt_append)
  have refl: "fde_le cies x x" by (simp add: fde_le_iff)
  show ?case
  proof (cases "fde_initial_location x \<noteq> fde_initial_location (last acc)")
    case True
    have acc_pre: "acc \<noteq> [] \<and> set acc \<subseteq> set pre" using Cons.prems by simp
    then have "last acc \<in> set pre" by auto
    then have "fde_le cies (last acc) x" using pre_x by blast
    then have lt: "fde_initial_location (last pre) < fde_initial_location x"
      using True Cons.prems(3) by (auto simp: fde_le_iff)
    have below: "\<forall>g\<in>set pre. fde_initial_location g \<noteq> fde_initial_location x"
      using sorted_fde_le_last [OF pre_sorted] lt by fastforce
    have "set (foldl dedup_step (acc @ [x]) rest) \<subseteq> set ((pre @ [x]) @ rest) \<and>
      (\<forall>f\<in>set (foldl dedup_step (acc @ [x]) rest). \<forall>g\<in>set ((pre @ [x]) @ rest).
        fde_initial_location g = fde_initial_location f \<longrightarrow> fde_le cies f g) \<and>
      (\<forall>g\<in>set ((pre @ [x]) @ rest). \<exists>f\<in>set (foldl dedup_step (acc @ [x]) rest).
        fde_initial_location f = fde_initial_location g)"
    proof (rule Cons.IH [OF srt])
      show "acc @ [x] \<noteq> []" by simp
      show "fde_initial_location (last (acc @ [x])) = fde_initial_location (last (pre @ [x]))"
        by simp
      show "set (acc @ [x]) \<subseteq> set (pre @ [x])" using Cons.prems(4) by auto
      show "\<forall>f\<in>set (acc @ [x]). \<forall>g\<in>set (pre @ [x]).
          fde_initial_location g = fde_initial_location f \<longrightarrow> fde_le cies f g"
        using Cons.prems(4,5) pre_x below refl by auto
      show "\<forall>g\<in>set (pre @ [x]). \<exists>f\<in>set (acc @ [x]).
          fde_initial_location f = fde_initial_location g"
        using Cons.prems(6) by auto
    qed
    then show ?thesis using True by (simp add: dedup_step_new)
  next
    case False
    have "set (foldl dedup_step acc rest) \<subseteq> set ((pre @ [x]) @ rest) \<and>
      (\<forall>f\<in>set (foldl dedup_step acc rest). \<forall>g\<in>set ((pre @ [x]) @ rest).
        fde_initial_location g = fde_initial_location f \<longrightarrow> fde_le cies f g) \<and>
      (\<forall>g\<in>set ((pre @ [x]) @ rest). \<exists>f\<in>set (foldl dedup_step acc rest).
        fde_initial_location f = fde_initial_location g)"
    proof (rule Cons.IH [OF srt])
      show "acc \<noteq> []" using Cons.prems(2) .
      show "fde_initial_location (last acc) = fde_initial_location (last (pre @ [x]))"
        using False by simp
      show "set acc \<subseteq> set (pre @ [x])" using Cons.prems(4) by auto
      show "\<forall>f\<in>set acc. \<forall>g\<in>set (pre @ [x]).
          fde_initial_location g = fde_initial_location f \<longrightarrow> fde_le cies f g"
        using Cons.prems(4,5) pre_x by auto
      show "\<forall>g\<in>set (pre @ [x]). \<exists>f\<in>set acc.
          fde_initial_location f = fde_initial_location g"
        using Cons.prems(2,6) False by (metis Un_iff empty_iff empty_set insert_iff
            last_in_set list.simps(15) set_append)
    qed
    then show ?thesis using False by (simp add: dedup_step_dup)
  qed
qed

lemma sorted_fde_le_initial_location:
  "sorted_wrt (fde_le cies) xs \<Longrightarrow>
   sorted_wrt (\<lambda>a b. fde_initial_location a \<le> fde_initial_location b) xs"
  by (rule sorted_wrt_mono_rel) (auto simp: fde_le_iff)

lemma dedup_sorted_fdes:
  assumes srt: "sorted_wrt (fde_le cies) data" and ne: "data \<noteq> []"
    and run: "dedup_fdes_loop data 1 1 = (data', dst)"
  shows "sorted_wrt (\<lambda>a b. fde_initial_location a < fde_initial_location b) (take dst data') \<and>
    set (take dst data') \<subseteq> set data \<and>
    (\<forall>f\<in>set (take dst data'). \<forall>g\<in>set data.
       fde_initial_location g = fde_initial_location f \<longrightarrow> fde_le cies f g) \<and>
    (\<forall>g\<in>set data. \<exists>f\<in>set (take dst data').
       fde_initial_location f = fde_initial_location g)"
proof -
  obtain x rest where data: "data = x # rest" using ne by (cases data) auto
  have res: "take dst data' = foldl dedup_step [x] rest"
    using dedup_fdes_loop_foldl [of 1 1 data data' dst] run data by simp
  have "sorted_wrt (\<lambda>a b. fde_initial_location a < fde_initial_location b)
      (foldl dedup_step [x] rest)"
    using foldl_dedup_step_strict [of "[x]" rest] sorted_fde_le_initial_location [OF srt] data
    by simp
  moreover have "set (foldl dedup_step [x] rest) \<subseteq> set ([x] @ rest) \<and>
   (\<forall>f\<in>set (foldl dedup_step [x] rest). \<forall>g\<in>set ([x] @ rest).
      fde_initial_location g = fde_initial_location f \<longrightarrow> fde_le cies f g) \<and>
   (\<forall>g\<in>set ([x] @ rest). \<exists>f\<in>set (foldl dedup_step [x] rest).
      fde_initial_location f = fde_initial_location g)"
    using srt data by (intro foldl_dedup_step_first) (auto simp: fde_le_iff)
  ultimately show ?thesis using res data by simp
qed

text \<open>
  Claim C1. After \<^verbatim>\<open>drgn_debug_info_parse_frames\<close> has sorted and deduplicated the
  FDEs, the array is strictly increasing by initial location: for all indices \<open>i < j\<close>,
  the initial location of entry \<open>i\<close> is below that of entry \<open>j\<close>. Every entry kept is
  one of the FDEs parsed, every initial location parsed is still there, and where an FDE of
  \<^verbatim>\<open>.debug_frame\<close> and an FDE of \<^verbatim>\<open>.eh_frame\<close> have the same initial location, the
  entry kept for it is from \<^verbatim>\<open>.debug_frame\<close>.
\<close>

theorem drgn_debug_info_parse_frames_sorted_dedup:
  assumes "\<forall>f\<in>set fdes. fde_cie f < length cies"
  shows "\<exists>fdes'. drgn_debug_info_parse_frames (Inr (cies, fdes)) = Inr (cies, fdes') \<and>
    (\<forall>i j. i < j \<and> j < length fdes' \<longrightarrow>
       fde_initial_location (fdes' ! i) < fde_initial_location (fdes' ! j)) \<and>
    set fdes' \<subseteq> set fdes \<and>
    fde_initial_location ` set fdes' = fde_initial_location ` set fdes \<and>
    (\<forall>f\<in>set fdes'. \<forall>g\<in>set fdes.
       fde_initial_location g = fde_initial_location f \<and> \<not> cie_is_eh (cies ! fde_cie g) \<longrightarrow>
       \<not> cie_is_eh (cies ! fde_cie f))"
proof (cases "fdes = []")
  case True
  then show ?thesis
    by (simp add: drgn_debug_info_parse_frames_def qsort_r_def)
next
  case False
  let ?data = "qsort_r fdes drgn_dwarf_fde_compar cies"
  have ne: "?data \<noteq> []" using False length_qsort_r [of fdes drgn_dwarf_fde_compar cies]
    by (metis length_0_conv)
  obtain data' dst where run: "dedup_fdes_loop ?data 1 1 = (data', dst)"
    by (cases "dedup_fdes_loop ?data 1 1") auto
  have res: "drgn_debug_info_parse_frames (Inr (cies, fdes)) = Inr (cies, take dst data')"
    using ne run by (simp add: drgn_debug_info_parse_frames_def Let_def)
  note d = dedup_sorted_fdes [OF sorted_qsort_r ne run, unfolded set_qsort_r]
  have "\<forall>i j. i < j \<and> j < length (take dst data') \<longrightarrow>
       fde_initial_location (take dst data' ! i) < fde_initial_location (take dst data' ! j)"
    using d by (simp only: sorted_wrt_iff_nth_less) blast
  moreover have "fde_initial_location ` set (take dst data') = fde_initial_location ` set fdes"
    using d by (auto simp: image_iff) metis
  moreover have "\<forall>f\<in>set (take dst data'). \<forall>g\<in>set fdes.
       fde_initial_location g = fde_initial_location f \<and> \<not> cie_is_eh (cies ! fde_cie g) \<longrightarrow>
       \<not> cie_is_eh (cies ! fde_cie f)"
    using d by (auto simp: fde_le_iff)
  ultimately show ?thesis using res d by blast
qed

theorem drgn_debug_info_parse_frames_sorted_dedup_witness:
  "drgn_debug_info_parse_frames
     (Inr ([example_cie False 1 (- 8), example_cie True 1 (- 8)],
           [example_fde 0 0x2000 0x40, example_fde 0 0x1000 0x40,
            example_fde 1 0x1000 0x40, example_fde 1 0x3000 0x40, example_fde 1 0x2000 0x40]))
   = Inr ([example_cie False 1 (- 8), example_cie True 1 (- 8)],
          [example_fde 0 0x1000 0x40, example_fde 0 0x2000 0x40, example_fde 1 0x3000 0x40]) \<and>
   fde_initial_location (example_fde 0 0x1000 0x40) < fde_initial_location (example_fde 0 0x2000 0x40) \<and>
   fde_initial_location (example_fde 0 0x2000 0x40) < fde_initial_location (example_fde 1 0x3000 0x40) \<and>
   \<not> cie_is_eh ([example_cie False 1 (- 8), example_cie True 1 (- 8)] !
         fde_cie (example_fde 0 0x1000 0x40))"
proof -
  let ?cies = "[example_cie False 1 (- 8), example_cie True 1 (- 8)]"
  let ?fdes = "[example_fde 0 0x2000 0x40, example_fde 0 0x1000 0x40,
            example_fde 1 0x1000 0x40, example_fde 1 0x3000 0x40, example_fde 1 0x2000 0x40]"
  let ?res = "[example_fde 0 0x1000 0x40, example_fde 0 0x2000 0x40, example_fde 1 0x3000 0x40]"
  have valid: "\<forall>f\<in>set ?fdes. fde_cie f < length ?cies"
    by (simp add: example_fde_def)
  have run: "drgn_debug_info_parse_frames (Inr (?cies, ?fdes)) = Inr (?cies, ?res)"
    by (simp add: drgn_debug_info_parse_frames_def qsort_r_def drgn_dwarf_fde_compar_def
        example_cie_def example_fde_def dedup_fdes_loop.simps)
  obtain fdes' where all:
    "drgn_debug_info_parse_frames (Inr (?cies, ?fdes)) = Inr (?cies, fdes') \<and>
    (\<forall>i j. i < j \<and> j < length fdes' \<longrightarrow>
       fde_initial_location (fdes' ! i) < fde_initial_location (fdes' ! j)) \<and>
    set fdes' \<subseteq> set ?fdes \<and>
    fde_initial_location ` set fdes' = fde_initial_location ` set ?fdes \<and>
    (\<forall>f\<in>set fdes'. \<forall>g\<in>set ?fdes.
       fde_initial_location g = fde_initial_location f \<and> \<not> cie_is_eh (?cies ! fde_cie g) \<longrightarrow>
       \<not> cie_is_eh (?cies ! fde_cie f))"
    using drgn_debug_info_parse_frames_sorted_dedup [OF valid] ..
  note res = all [THEN conjunct1]
  note incr = all [THEN conjunct2, THEN conjunct1]
  note pref = all [THEN conjunct2, THEN conjunct2, THEN conjunct2, THEN conjunct2]
  have eq: "fdes' = ?res" using res run by simp
  have "fde_initial_location (?res ! 0) < fde_initial_location (?res ! 1)"
    using incr [rule_format, of 0 1] unfolding eq by simp
  moreover have "fde_initial_location (?res ! 1) < fde_initial_location (?res ! 2)"
    using incr [rule_format, of 1 2] unfolding eq by simp
  moreover have "\<not> cie_is_eh (?cies ! fde_cie (example_fde 0 0x1000 0x40))"
    using pref [unfolded eq, rule_format, of "example_fde 0 0x1000 0x40" "example_fde 0 0x1000 0x40"]
    by (simp add: example_fde_def example_cie_def)
  ultimately show ?thesis using run by simp
qed

subsection \<open>DWARF 4 location lists\<close>

lemmas bb_eval = binary_buffer_next_uint_def binary_buffer_next_u8_def binary_buffer_next_u16_def
  binary_buffer_next_u32_def binary_buffer_init_def drgn_debug_info_buffer_init_def
  bb_remaining_def bb_advance_def bytes_u64_def binary_buffer_has_next_def
  mask_eq_exp_minus_1






subsection \<open>DWARF 5 location lists\<close>

lemma location_description_counted:
  "location_description bb = Some (expr, bb') \<Longrightarrow>
   counted_location_description bb addr_base base expr_ret start len pc =
     (if pc \<ge> start \<and> pc - start < len then Return (Inr (Some expr))
      else Continue (bb', addr_base, base, expr_ret))"
  by (auto simp: location_description_def counted_location_description_def
      split: sum.splits if_splits)

lemma location_description_default:
  "location_description bb = Some (expr, bb') \<Longrightarrow>
   (case binary_buffer_next_uleb128 bb of
      Inl err \<Rightarrow> Return (Inl err)
    | Inr (expr_size, bb1) \<Rightarrow>
      if unat expr_size > bb_end bb1 - bb_pos bb1
      then Return (Inl (binary_buffer_error ''location description size is out of bounds''))
      else Continue (bb1\<lparr>bb_pos := bb_pos bb1 + unat expr_size\<rparr>, addr_base, base,
                     Some (bb_pos bb1, unat expr_size)))
   = (Continue (bb', addr_base, base, Some expr) ::
        (loclist5_state, drgn_error + expr_ref) loop_step)"
  by (auto simp: location_description_def split: sum.splits if_splits)

lemma loc5_covers_end:
  fixes start ed pc :: u64
  assumes "unat start \<le> unat ed"
  shows "(start \<le> pc \<and> pc - start < ed - start) \<longleftrightarrow> (unat start \<le> unat pc \<and> unat pc < unat ed)"
proof (cases "start \<le> pc")
  case True
  have "start \<le> ed" using assms by (simp add: word_le_nat_alt)
  then show ?thesis using True assms
    by (auto simp: word_le_nat_alt word_less_nat_alt unat_sub)
next
  case False
  then show ?thesis by (simp add: word_le_nat_alt)
qed

lemma loc5_covers_length:
  fixes start len pc :: u64
  shows "(start \<le> pc \<and> pc - start < len) \<longleftrightarrow>
    (unat start \<le> unat pc \<and> unat pc < unat start + unat len)"
proof (cases "start \<le> pc")
  case True
  then show ?thesis
    by (auto simp: word_le_nat_alt word_less_nat_alt unat_sub)
next
  case False
  then show ?thesis by (simp add: word_le_nat_alt)
qed

lemma loc5_covers_offset:
  fixes start ed b pc :: u64
  assumes "unat b + unat start < 2 ^ 64" and "unat start \<le> unat ed"
  shows "(start + b \<le> pc \<and> pc - (start + b) < ed - start) \<longleftrightarrow>
    (unat b + unat start \<le> unat pc \<and> unat pc < unat b + unat ed)"
proof -
  have sum: "unat (start + b) = unat b + unat start"
    using assms(1) by (simp add: unat_add_lem [THEN iffD1])
  have le: "start \<le> ed" using assms(2) by (simp add: word_le_nat_alt)
  show ?thesis
  proof (cases "start + b \<le> pc")
    case True
    then show ?thesis using sum le assms(2)
      by (auto simp: word_le_nat_alt word_less_nat_alt unat_sub)
  next
    case False
    then show ?thesis using sum by (simp add: word_le_nat_alt)
  qed
qed

lemma dwarf5_location_list_body_next_entry:
  assumes "dwarf5_next_entry module cu address_size (bb, addr_base, base) = Some r"
    and wf: "case r of Some (Some e, st') \<Rightarrow> loc5_well_formed e | _ \<Rightarrow> True"
  shows "dwarf5_location_list_body module cu address_size pc (bb, addr_base, base, expr_ret) =
    (case r of
       None \<Rightarrow> Return (Inr expr_ret)
     | Some (None, bb', addr_base', base') \<Rightarrow> Continue (bb', addr_base', base', expr_ret)
     | Some (Some e, bb', addr_base', base') \<Rightarrow>
         if loc5_covers pc e then Return (Inr (Some (loc5_expr e)))
         else Continue (bb', addr_base', base',
                        if loc5_is_default e then Some (loc5_expr e) else expr_ret))"
proof -
  obtain kind bb1 where k: "binary_buffer_next_u8 bb = Inr (kind, bb1)"
    using assms by (auto simp: dwarf5_next_entry_def split: sum.splits)
  show ?thesis
  proof (cases kind rule: lle_kind_cases)
    case end_of_list
    with assms k show ?thesis
      by (auto simp: dwarf5_next_entry_def dwarf5_location_list_body_def)
  next
    case base_addressx
    with assms k show ?thesis
      by (auto simp: dwarf5_next_entry_def dwarf5_location_list_body_def
          split: sum.splits)
  next
    case base_address
    with assms k show ?thesis
      by (auto simp: dwarf5_next_entry_def dwarf5_location_list_body_def
          split: sum.splits)
  next
    case startx_endx
    from assms(1) k startx_endx obtain start bb' ab' ed bb'' ab'' expr bb3 where
      "drgn_dwarf_next_addrx bb1 module cu address_size addr_base = Inr (start, bb', ab')"
      "drgn_dwarf_next_addrx bb' module cu address_size ab' = Inr (ed, bb'', ab'')"
      "location_description bb'' = Some (expr, bb3)"
      "r = Some (Some (Loc5_ranged (unat start) (unat ed) expr), bb3, ab'', base)"
      by (auto simp: dwarf5_next_entry_def split: sum.splits option.splits)
    then show ?thesis using k startx_endx wf
      by (simp add: dwarf5_location_list_body_def location_description_counted
          loc5_covers_end)
  next
    case startx_length
    from assms(1) k startx_length obtain start bb' ab' len bb'' expr bb3 where
      "drgn_dwarf_next_addrx bb1 module cu address_size addr_base = Inr (start, bb', ab')"
      "binary_buffer_next_uleb128 bb' = Inr (len, bb'')"
      "location_description bb'' = Some (expr, bb3)"
      "r = Some (Some (Loc5_ranged (unat start) (unat start + unat len) expr), bb3, ab', base)"
      by (auto simp: dwarf5_next_entry_def split: sum.splits option.splits)
    then show ?thesis using k startx_length
      by (simp add: dwarf5_location_list_body_def location_description_counted
          loc5_covers_length)
  next
    case start_end
    from assms(1) k start_end obtain start bb' ed bb'' expr bb3 where
      "binary_buffer_next_uint bb1 address_size = Inr (start, bb')"
      "binary_buffer_next_uint bb' address_size = Inr (ed, bb'')"
      "location_description bb'' = Some (expr, bb3)"
      "r = Some (Some (Loc5_ranged (unat start) (unat ed) expr), bb3, addr_base, base)"
      by (auto simp: dwarf5_next_entry_def split: sum.splits option.splits)
    then show ?thesis using k start_end wf
      by (simp add: dwarf5_location_list_body_def location_description_counted
          loc5_covers_end)
  next
    case start_length
    from assms(1) k start_length obtain start bb' len bb'' expr bb3 where
      "binary_buffer_next_uint bb1 address_size = Inr (start, bb')"
      "binary_buffer_next_uleb128 bb' = Inr (len, bb'')"
      "location_description bb'' = Some (expr, bb3)"
      "r = Some (Some (Loc5_ranged (unat start) (unat start + unat len) expr), bb3,
             addr_base, base)"
      by (auto simp: dwarf5_next_entry_def split: sum.splits option.splits)
    then show ?thesis using k start_length
      by (simp add: dwarf5_location_list_body_def location_description_counted
          loc5_covers_length)
  next
    case offset_pair
    from assms(1) k offset_pair obtain start bb' ed bb'' b expr bb3 where
      s: "binary_buffer_next_uleb128 bb1 = Inr (start, bb')"
      and e: "binary_buffer_next_uleb128 bb' = Inr (ed, bb'')"
      and b: "(case base of Some b \<Rightarrow> Some b | None \<Rightarrow> dwarf_lowpc cu) = Some b"
      and ld: "location_description bb'' = Some (expr, bb3)"
      and r: "r = Some (Some (Loc5_ranged (unat b + unat start) (unat b + unat ed) expr), bb3,
             addr_base, Some b)"
      by (auto simp: dwarf5_next_entry_def split: sum.splits option.splits)
    from wf r have wfb: "unat b + unat start < 2 ^ 64" "unat start \<le> unat ed"
      by simp_all
    have "counted_location_description bb'' addr_base (Some b) expr_ret (start + b)
        (ed - start) pc =
      (if unat b + unat start \<le> unat pc \<and> unat pc < unat b + unat ed
       then Return (Inr (Some expr)) else Continue (bb3, addr_base, Some b, expr_ret))"
      using location_description_counted [OF ld] loc5_covers_offset [OF wfb, of pc]
      by simp
    then show ?thesis using k offset_pair s e b r
      by (auto simp: dwarf5_location_list_body_def split: option.splits)
  next
    case default_location
    from assms(1) k default_location obtain expr bb3 where
      "location_description bb1 = Some (expr, bb3)"
      "r = Some (Some (Loc5_default expr), bb3, addr_base, base)"
      by (auto simp: dwarf5_next_entry_def split: sum.splits option.splits)
    then show ?thesis using k default_location
      by (simp add: dwarf5_location_list_body_def location_description_default)
  next
    case unknown
    with assms k show ?thesis
      by (simp add: dwarf5_next_entry_def)
  qed
qed

lemma dwarf5_select_from_Nil: "dwarf5_select_from expr_ret pc [] = expr_ret"
  by (simp add: dwarf5_select_from_def)

lemma dwarf5_select_from_covers:
  "loc5_covers pc e \<Longrightarrow> dwarf5_select_from expr_ret pc (e # es) = Some (loc5_expr e)"
  by (simp add: dwarf5_select_from_def)

lemma dwarf5_select_from_skip:
  "\<not> loc5_covers pc e \<Longrightarrow>
   dwarf5_select_from expr_ret pc (e # es) =
   dwarf5_select_from (if loc5_is_default e then Some (loc5_expr e) else expr_ret) pc es"
  by (auto simp: dwarf5_select_from_def split: option.splits list.splits)

lemma dwarf5_location_list_loop_select:
  "dwarf5_entries module cu address_size st = Some es \<Longrightarrow> st = (bb, addr_base, base) \<Longrightarrow>
   list_all loc5_well_formed es \<Longrightarrow>
   dwarf5_location_list_loop module cu address_size pc (bb, addr_base, base, expr_ret)
     = Inr (dwarf5_select_from expr_ret pc es)"
proof (induction module cu address_size st arbitrary: es bb addr_base base expr_ret
    rule: dwarf5_entries.induct)
  case (1 module cu address_size st)
  from "1.prems" obtain r where
    r: "dwarf5_next_entry module cu address_size (bb, addr_base, base) = Some r"
    by (subst (asm) dwarf5_entries.simps) (auto split: option.splits)
  show ?case
  proof (cases r)
    case None
    then have "es = []" using "1.prems" r
      by (subst (asm) dwarf5_entries.simps) simp
    moreover have "dwarf5_location_list_body module cu address_size pc
        (bb, addr_base, base, expr_ret) = Return (Inr expr_ret)"
      using dwarf5_location_list_body_next_entry [OF r, of pc expr_ret] None by simp
    ultimately show ?thesis
      by (subst dwarf5_location_list_loop.simps) (simp add: dwarf5_select_from_Nil)
  next
    case (Some x)
    obtain e bb' addr_base' base' where x: "x = (e, bb', addr_base', base')"
      by (cases x) auto
    from "1.prems" r Some x obtain es' where
      es': "dwarf5_entries module cu address_size (bb', addr_base', base') = Some es'"
      and es: "es = (case e of None \<Rightarrow> es' | Some y \<Rightarrow> y # es')"
      by (subst (asm) dwarf5_entries.simps) (auto split: option.splits)
    have wf': "list_all loc5_well_formed es'"
      using "1.prems"(3) es by (cases e) auto
    have wfe: "case r of Some (Some e, st') \<Rightarrow> loc5_well_formed e | _ \<Rightarrow> True"
      using "1.prems"(3) es Some x by (cases e) auto
    note body = dwarf5_location_list_body_next_entry [OF r wfe, of pc expr_ret]
    have r': "dwarf5_next_entry module cu address_size st = Some r"
      using r "1.prems"(2) by simp
    have ih: "\<And>expr_ret'.
        dwarf5_location_list_loop module cu address_size pc (bb', addr_base', base', expr_ret')
        = Inr (dwarf5_select_from expr_ret' pc es')"
      using "1.IH" [OF r' Some x [symmetric] es' refl wf'] .
    show ?thesis
    proof (cases e)
      case None
      then show ?thesis using body Some x es ih
        by (subst dwarf5_location_list_loop.simps) simp
    next
      case (Some y)
      show ?thesis
      proof (cases "loc5_covers pc y")
        case True
        then show ?thesis using body \<open>r = Some x\<close> x es Some
          by (subst dwarf5_location_list_loop.simps) (simp add: dwarf5_select_from_covers)
      next
        case False
        then show ?thesis using body \<open>r = Some x\<close> x es Some ih
          by (subst dwarf5_location_list_loop.simps) (simp add: dwarf5_select_from_skip)
      qed
    qed
  qed
qed

text \<open>
  Claim C3 says that the expression of a \<^verbatim>\<open>DW_LLE_default_location\<close> entry is returned
  if and only if no ranged entry covers the PC. It does not hold for a ranged entry whose
  end precedes its start. The list below holds a default entry (expression at offset 2)
  and the offset pair \<open>(0x20, 0x10)\<close> (expression at offset 7); with the base \<open>0x1000\<close>
  its range \<open>[0x1020, 0x1010)\<close> contains no address, yet for the PC \<open>0x1030\<close> the
  ranged entry is returned, not the default one: the test
  \<^verbatim>\<open>pc >= start && pc - start < length\<close> is made with \<open>length = end - start\<close> in 64-bit
  arithmetic.
\<close>

theorem drgn_dwarf5_location_list_inverted_range_counterexample:
  "drgn_dwarf5_location_list
     (module_with_section DRGN_SCN_DEBUG_LOCLISTS
        [0x05, 0x01, 0x50,  0x04, 0x20, 0x10, 0x01, 0x51,  0x00]) 0
     \<lparr>DW_AT_addr_base = None, dwarf_lowpc = Some 0x1000\<rparr> 8 0x1030 = Inr (Some (7, 1)) \<and>
   dwarf5_entries
     (module_with_section DRGN_SCN_DEBUG_LOCLISTS
        [0x05, 0x01, 0x50,  0x04, 0x20, 0x10, 0x01, 0x51,  0x00])
     \<lparr>DW_AT_addr_base = None, dwarf_lowpc = Some 0x1000\<rparr> 8
     (binary_buffer_init [0x05, 0x01, 0x50,  0x04, 0x20, 0x10, 0x01, 0x51,  0x00] True,
      None, None)
   = Some [Loc5_default (2, 1), Loc5_ranged 0x1020 0x1010 (7, 1)] \<and>
   \<not> loc5_covers 0x1030 (Loc5_ranged 0x1020 0x1010 (7, 1)) \<and>
   dwarf5_select 0x1030 [Loc5_default (2, 1), Loc5_ranged 0x1020 0x1010 (7, 1)] = Some (2, 1)"
proof -
  have ex: "\<And>data pc. drgn_dwarf5_location_list
      (module_with_section DRGN_SCN_DEBUG_LOCLISTS data) 0
      \<lparr>DW_AT_addr_base = None, dwarf_lowpc = Some 0x1000\<rparr> 8 pc =
      dwarf5_location_list_loop (module_with_section DRGN_SCN_DEBUG_LOCLISTS data)
        \<lparr>DW_AT_addr_base = None, dwarf_lowpc = Some 0x1000\<rparr> 8 pc
        (binary_buffer_init data True, None, None, None)"
    by (simp add: drgn_dwarf5_location_list_def module_with_section_def
        drgn_debug_info_buffer_init_def binary_buffer_init_def)
  have code: "drgn_dwarf5_location_list
     (module_with_section DRGN_SCN_DEBUG_LOCLISTS
        [0x05, 0x01, 0x50,  0x04, 0x20, 0x10, 0x01, 0x51,  0x00]) 0
     \<lparr>DW_AT_addr_base = None, dwarf_lowpc = Some 0x1000\<rparr> 8 0x1030 = Inr (Some (7, 1))"
    unfolding ex
    by (simp add: dwarf5_location_list_loop.simps dwarf5_location_list_body_def
        counted_location_description_def binary_buffer_next_uleb128_def bb_eval)
  have dec: "dwarf5_entries
     (module_with_section DRGN_SCN_DEBUG_LOCLISTS
        [0x05, 0x01, 0x50,  0x04, 0x20, 0x10, 0x01, 0x51,  0x00])
     \<lparr>DW_AT_addr_base = None, dwarf_lowpc = Some 0x1000\<rparr> 8
     (binary_buffer_init [0x05, 0x01, 0x50,  0x04, 0x20, 0x10, 0x01, 0x51,  0x00] True,
      None, None)
   = Some [Loc5_default (2, 1), Loc5_ranged 0x1020 0x1010 (7, 1)]"
    by (simp add: module_with_section_def dwarf5_entries.simps dwarf5_next_entry_def
        location_description_def binary_buffer_next_uleb128_def bb_eval)
  have sel: "dwarf5_select 0x1030 [Loc5_default (2, 1), Loc5_ranged 0x1020 0x1010 (7, 1)]
      = Some (2, 1)"
    by (simp add: dwarf5_select_def dwarf5_select_from_def)
  show ?thesis using code dec sel by simp
qed

text \<open>
  Claim C3, amended. Take a DWARF 5 location list that decodes, up to its
  \<^verbatim>\<open>end_of_list\<close>, to the entries \<open>es\<close>, all of them well formed: the range of a ranged
  entry does not end before it starts, and starts at a 64-bit address. Walking it for a PC
  returns the expression of the first ranged entry whose range \<open>[lo, hi)\<close> contains the
  PC if there is one, whether it stands before or after a default entry, and that entry
  is not a default entry; if the range of no ranged entry contains the PC, it returns the
  expression of the last \<^verbatim>\<open>DW_LLE_default_location\<close> entry, or no expression if there is
  none. So the expression of a default entry is returned if and only if no ranged entry
  covers the PC. The two example lists hold a default entry and an offset pair for
  \<open>[0x1010, 0x1020)\<close> in either order.
\<close>

theorem drgn_dwarf5_location_list_default_location:
  assumes sec: "scn_data module DRGN_SCN_DEBUG_LOCLISTS = Some (Inr data)"
    and off: "offset \<le> length data"
    and dec: "dwarf5_entries module cu address_size
        ((drgn_debug_info_buffer_init data module)\<lparr>bb_pos := offset\<rparr>, None, None) = Some es"
    and wf: "list_all loc5_well_formed es"
  shows "drgn_dwarf5_location_list module offset cu address_size pc
      = Inr (dwarf5_select pc es) \<and>
    ((\<exists>e\<in>set es. loc5_covers pc e) \<longrightarrow>
       (\<exists>e. find (loc5_covers pc) es = Some e \<and> \<not> loc5_is_default e \<and>
          drgn_dwarf5_location_list module offset cu address_size pc
            = Inr (Some (loc5_expr e)))) \<and>
    ((\<forall>e\<in>set es. \<not> loc5_covers pc e) \<longrightarrow>
       drgn_dwarf5_location_list module offset cu address_size pc =
         Inr (case filter loc5_is_default es of
                [] \<Rightarrow> None
              | d # ds \<Rightarrow> Some (loc5_expr (last (d # ds))))) \<and>
    drgn_dwarf5_location_list
      (module_with_section DRGN_SCN_DEBUG_LOCLISTS
         [0x05, 0x01, 0x50,  0x04, 0x10, 0x20, 0x01, 0x51,  0x00]) 0
      \<lparr>DW_AT_addr_base = None, dwarf_lowpc = Some 0x1000\<rparr> 8 0x1018 = Inr (Some (7, 1)) \<and>
    drgn_dwarf5_location_list
      (module_with_section DRGN_SCN_DEBUG_LOCLISTS
         [0x05, 0x01, 0x50,  0x04, 0x10, 0x20, 0x01, 0x51,  0x00]) 0
      \<lparr>DW_AT_addr_base = None, dwarf_lowpc = Some 0x1000\<rparr> 8 0x1030 = Inr (Some (2, 1)) \<and>
    drgn_dwarf5_location_list
      (module_with_section DRGN_SCN_DEBUG_LOCLISTS
         [0x04, 0x10, 0x20, 0x01, 0x51,  0x05, 0x01, 0x50,  0x00]) 0
      \<lparr>DW_AT_addr_base = None, dwarf_lowpc = Some 0x1000\<rparr> 8 0x1018 = Inr (Some (4, 1)) \<and>
    drgn_dwarf5_location_list
      (module_with_section DRGN_SCN_DEBUG_LOCLISTS
         [0x04, 0x10, 0x20, 0x01, 0x51,  0x05, 0x01, 0x50,  0x00]) 0
      \<lparr>DW_AT_addr_base = None, dwarf_lowpc = Some 0x1000\<rparr> 8 0x1030 = Inr (Some (7, 1))"
proof -
  have res: "drgn_dwarf5_location_list module offset cu address_size pc
      = Inr (dwarf5_select pc es)"
    using sec off dwarf5_location_list_loop_select [OF dec refl wf, of pc None]
    by (simp add: drgn_dwarf5_location_list_def drgn_debug_info_buffer_init_def
        binary_buffer_init_def dwarf5_select_def)
  have covered: "(\<exists>e\<in>set es. loc5_covers pc e) \<longrightarrow>
       (\<exists>e. find (loc5_covers pc) es = Some e \<and> \<not> loc5_is_default e \<and>
          drgn_dwarf5_location_list module offset cu address_size pc
            = Inr (Some (loc5_expr e)))"
  proof
    assume "\<exists>e\<in>set es. loc5_covers pc e"
    then obtain e where e: "find (loc5_covers pc) es = Some e"
      by (cases "find (loc5_covers pc) es") (auto simp: find_None_iff)
    then have "loc5_covers pc e" by (auto simp: find_Some_iff)
    then have "\<not> loc5_is_default e" by (cases e) auto
    then show "\<exists>e. find (loc5_covers pc) es = Some e \<and> \<not> loc5_is_default e \<and>
          drgn_dwarf5_location_list module offset cu address_size pc
            = Inr (Some (loc5_expr e))"
      using e res by (auto simp: dwarf5_select_def dwarf5_select_from_def)
  qed
  have uncovered: "(\<forall>e\<in>set es. \<not> loc5_covers pc e) \<longrightarrow>
       drgn_dwarf5_location_list module offset cu address_size pc =
         Inr (case filter loc5_is_default es of
                [] \<Rightarrow> None
              | d # ds \<Rightarrow> Some (loc5_expr (last (d # ds))))"
  proof
    assume "\<forall>e\<in>set es. \<not> loc5_covers pc e"
    then have "find (loc5_covers pc) es = None" by (auto simp: find_None_iff)
    then show "drgn_dwarf5_location_list module offset cu address_size pc =
         Inr (case filter loc5_is_default es of
                [] \<Rightarrow> None
              | d # ds \<Rightarrow> Some (loc5_expr (last (d # ds))))"
      using res by (simp add: dwarf5_select_def dwarf5_select_from_def)
  qed
  have ex: "\<And>data pc. drgn_dwarf5_location_list
      (module_with_section DRGN_SCN_DEBUG_LOCLISTS data) 0
      \<lparr>DW_AT_addr_base = None, dwarf_lowpc = Some 0x1000\<rparr> 8 pc =
      dwarf5_location_list_loop (module_with_section DRGN_SCN_DEBUG_LOCLISTS data)
        \<lparr>DW_AT_addr_base = None, dwarf_lowpc = Some 0x1000\<rparr> 8 pc
        (binary_buffer_init data True, None, None, None)"
    by (simp add: drgn_dwarf5_location_list_def module_with_section_def
        drgn_debug_info_buffer_init_def binary_buffer_init_def)
  note ev = dwarf5_location_list_loop.simps dwarf5_location_list_body_def
      counted_location_description_def binary_buffer_next_uleb128_def bb_eval
  have e1: "drgn_dwarf5_location_list
      (module_with_section DRGN_SCN_DEBUG_LOCLISTS
         [0x05, 0x01, 0x50,  0x04, 0x10, 0x20, 0x01, 0x51,  0x00]) 0
      \<lparr>DW_AT_addr_base = None, dwarf_lowpc = Some 0x1000\<rparr> 8 0x1018 = Inr (Some (7, 1))"
    unfolding ex by (simp add: ev)
  have e2: "drgn_dwarf5_location_list
      (module_with_section DRGN_SCN_DEBUG_LOCLISTS
         [0x05, 0x01, 0x50,  0x04, 0x10, 0x20, 0x01, 0x51,  0x00]) 0
      \<lparr>DW_AT_addr_base = None, dwarf_lowpc = Some 0x1000\<rparr> 8 0x1030 = Inr (Some (2, 1))"
    unfolding ex by (simp add: ev)
  have e3: "drgn_dwarf5_location_list
      (module_with_section DRGN_SCN_DEBUG_LOCLISTS
         [0x04, 0x10, 0x20, 0x01, 0x51,  0x05, 0x01, 0x50,  0x00]) 0
      \<lparr>DW_AT_addr_base = None, dwarf_lowpc = Some 0x1000\<rparr> 8 0x1018 = Inr (Some (4, 1))"
    unfolding ex by (simp add: ev)
  have e4: "drgn_dwarf5_location_list
      (module_with_section DRGN_SCN_DEBUG_LOCLISTS
         [0x04, 0x10, 0x20, 0x01, 0x51,  0x05, 0x01, 0x50,  0x00]) 0
      \<lparr>DW_AT_addr_base = None, dwarf_lowpc = Some 0x1000\<rparr> 8 0x1030 = Inr (Some (7, 1))"
    unfolding ex by (simp add: ev)
  show ?thesis
    by (intro conjI res covered uncovered e1 e2 e3 e4)
qed

theorem drgn_dwarf5_location_list_default_location_witness:
  "drgn_dwarf5_location_list
     (module_with_section DRGN_SCN_DEBUG_LOCLISTS
        [0x05, 0x01, 0x50,  0x07, 0x10, 0x10, 0, 0, 0, 0, 0, 0,  0x20, 0x10, 0, 0, 0, 0, 0, 0,
         0x01, 0x51,  0x05, 0x01, 0x52,  0x00]) 0
     \<lparr>DW_AT_addr_base = None, dwarf_lowpc = None\<rparr> 8 0x1018 = Inr (Some (21, 1)) \<and>
   drgn_dwarf5_location_list
     (module_with_section DRGN_SCN_DEBUG_LOCLISTS
        [0x05, 0x01, 0x50,  0x07, 0x10, 0x10, 0, 0, 0, 0, 0, 0,  0x20, 0x10, 0, 0, 0, 0, 0, 0,
         0x01, 0x51,  0x05, 0x01, 0x52,  0x00]) 0
     \<lparr>DW_AT_addr_base = None, dwarf_lowpc = None\<rparr> 8 0x1020 = Inr (Some (24, 1))"
proof -
  let ?data = "[0x05, 0x01, 0x50,  0x07, 0x10, 0x10, 0, 0, 0, 0, 0, 0,
         0x20, 0x10, 0, 0, 0, 0, 0, 0,  0x01, 0x51,  0x05, 0x01, 0x52,  0x00] :: u8 list"
  let ?m = "module_with_section DRGN_SCN_DEBUG_LOCLISTS ?data"
  let ?cu = "\<lparr>DW_AT_addr_base = None, dwarf_lowpc = None\<rparr>"
  let ?es = "[Loc5_default (2, 1), Loc5_ranged 0x1010 0x1020 (21, 1), Loc5_default (24, 1)]"
  have sec: "scn_data ?m DRGN_SCN_DEBUG_LOCLISTS = Some (Inr ?data)"
    by (simp add: module_with_section_def)
  have dec: "dwarf5_entries ?m ?cu 8
      ((drgn_debug_info_buffer_init ?data ?m)\<lparr>bb_pos := 0\<rparr>, None, None) = Some ?es"
    by (simp add: module_with_section_def dwarf5_entries.simps dwarf5_next_entry_def
        location_description_def binary_buffer_next_uleb128_def bb_eval)
  have wf: "list_all loc5_well_formed ?es"
    by simp
  have "drgn_dwarf5_location_list ?m 0 ?cu 8 0x1018 = Inr (Some (21, 1))"
    using drgn_dwarf5_location_list_default_location [OF sec _ dec wf, where pc = "0x1018"]
    by (simp add: dwarf5_select_def dwarf5_select_from_def)
  moreover have "drgn_dwarf5_location_list ?m 0 ?cu 8 0x1020 = Inr (Some (24, 1))"
    using drgn_dwarf5_location_list_default_location [OF sec _ dec wf, where pc = "0x1020"]
    by (simp add: dwarf5_select_def dwarf5_select_from_def)
  ultimately show ?thesis by simp
qed

subsection \<open>CFI instruction execution: location advances\<close>

lemma cfi_advance_loc_spec:
  "cfi_advance_loc cie target delta (bb, pc, row, stack) =
   advance_location_spec cie target delta (bb, pc, row, stack)"
proof (cases "unat delta * unat (cie_code_alignment_factor cie) < 2 ^ 64 \<and>
    unat pc + unat delta * unat (cie_code_alignment_factor cie) < 2 ^ 64")
  case True
  then show ?thesis
    by (simp add: cfi_advance_loc_def advance_location_spec_def advance_fits_def Let_def
        not_le [symmetric])
next
  case False
  then show ?thesis
    by (auto simp: cfi_advance_loc_def advance_location_spec_def advance_fits_def Let_def
        not_less)
qed

lemmas cfi_eval = drgn_debug_info_find_cfi_in_fde_def drgn_eval_dwarf_cfi_def
  drgn_eval_dwarf_cfi_loop.simps drgn_eval_dwarf_cfi_body_def drgn_eval_dwarf_cfi_switch_def
  cfi_advance_loc_def cfi_set_cfa_def cfi_set_reg_def cfi_restore_def invalid_for_initial_def
  drgn_dwarf_cfi_next_offset_def drgn_dwarf_cfi_next_offset_f_def
  drgn_dwarf_cfi_next_offset_sf_def drgn_dwarf_cfi_next_block_def int64_fits_def
  drgn_cfi_row_get_cfa_def drgn_cfi_row_set_cfa_def drgn_cfi_row_get_register_def
  drgn_cfi_row_set_register_def drgn_empty_cfi_row_def uint_max_def
  binary_buffer_next_uleb128_def binary_buffer_next_sleb128_def
  binary_buffer_next_u8_into_u64_def binary_buffer_next_u16_into_u64_def
  binary_buffer_next_u32_into_u64_def
  module_with_section_def example_debug_frame_def example_frame_cie_def example_frame_fde_def
  example_cie_def example_fde_def

lemma cfi_body_advance_loc:
  "(binary_buffer_next_u8 start = Inr (opcode, bb) \<and> opcode AND 0xc0 = DW_CFA_advance_loc \<and>
      initial_row \<noteq> None \<longrightarrow>
    drgn_eval_dwarf_cfi_body module cie fde initial_row target (start, pc, row, stack) =
      advance_location_spec cie target (ucast (opcode AND 0x3f)) (bb, pc, row, stack))"
  by (auto simp: drgn_eval_dwarf_cfi_body_def drgn_eval_dwarf_cfi_switch_def
      cfi_advance_loc_spec)

lemma cfi_body_advance_loc1:
  "(binary_buffer_next_u8 start = Inr (DW_CFA_advance_loc1, bb) \<and> initial_row \<noteq> None \<and>
      binary_buffer_next_u8_into_u64 bb = Inr (delta, bb') \<longrightarrow>
    drgn_eval_dwarf_cfi_body module cie fde initial_row target (start, pc, row, stack) =
      advance_location_spec cie target delta (bb', pc, row, stack))"
  by (auto simp: drgn_eval_dwarf_cfi_body_def drgn_eval_dwarf_cfi_switch_def
      cfi_advance_loc_spec)

lemma cfi_body_advance_loc2:
  "(binary_buffer_next_u8 start = Inr (DW_CFA_advance_loc2, bb) \<and> initial_row \<noteq> None \<and>
      binary_buffer_next_u16_into_u64 bb = Inr (delta, bb') \<longrightarrow>
    drgn_eval_dwarf_cfi_body module cie fde initial_row target (start, pc, row, stack) =
      advance_location_spec cie target delta (bb', pc, row, stack))"
  by (auto simp: drgn_eval_dwarf_cfi_body_def drgn_eval_dwarf_cfi_switch_def
      cfi_advance_loc_spec)

lemma cfi_body_advance_loc4:
  "(binary_buffer_next_u8 start = Inr (DW_CFA_advance_loc4, bb) \<and> initial_row \<noteq> None \<and>
      binary_buffer_next_u32_into_u64 bb = Inr (delta, bb') \<longrightarrow>
    drgn_eval_dwarf_cfi_body module cie fde initial_row target (start, pc, row, stack) =
      advance_location_spec cie target delta (bb', pc, row, stack))"
  by (auto simp: drgn_eval_dwarf_cfi_body_def drgn_eval_dwarf_cfi_switch_def
      cfi_advance_loc_spec)

lemma cfi_body_set_loc:
  "(binary_buffer_next_u8 start = Inr (DW_CFA_set_loc, bb) \<and> initial_row \<noteq> None \<and>
      drgn_dwarf_cfi_next_encoded bb module (cie_address_size cie)
        (cie_address_encoding cie) (fde_initial_location fde) = Inr (loc, bb') \<longrightarrow>
    drgn_eval_dwarf_cfi_body module cie fde initial_row target (start, pc, row, stack) =
      set_location_spec target loc (bb', pc, row, stack))"
  by (auto simp: drgn_eval_dwarf_cfi_body_def drgn_eval_dwarf_cfi_switch_def
      set_location_spec_def)

lemma cfi_body_invalid_for_initial:
  "(binary_buffer_next_u8 start = Inr (opcode, bb) \<and>
      (opcode AND 0xc0 = DW_CFA_advance_loc \<or> opcode AND 0xc0 = DW_CFA_restore \<or>
       opcode = DW_CFA_set_loc \<or> opcode = DW_CFA_advance_loc1 \<or>
       opcode = DW_CFA_advance_loc2 \<or> opcode = DW_CFA_advance_loc4 \<or>
       opcode = DW_CFA_restore_extended) \<longrightarrow>
    drgn_eval_dwarf_cfi_body module cie fde None target (start, pc, row, stack) =
      Return (Inl (binary_buffer_error ''invalid initial DWARF CFI opcode'')))"
  by (auto simp: drgn_eval_dwarf_cfi_body_def drgn_eval_dwarf_cfi_switch_def
      invalid_for_initial_def)

lemma cfi_loop_return:
  "(binary_buffer_has_next start \<and>
      drgn_eval_dwarf_cfi_body module cie fde initial_row target (start, pc, row, stack)
        = Return r \<longrightarrow>
    drgn_eval_dwarf_cfi_loop module cie fde initial_row target (start, pc, row, stack) = r)"
  by (simp add: drgn_eval_dwarf_cfi_loop.simps)

lemma cfi_example_row_3:
  "drgn_debug_info_find_cfi_in_fde
     (module_with_section DRGN_SCN_DEBUG_FRAME example_debug_frame)
     [example_frame_cie] example_frame_fde (fde_initial_location example_frame_fde + 3)
   = Inr \<lparr>cfa_rule = DRGN_CFI_RULE_REGISTER_PLUS_OFFSET 7 8,
          reg_rules = (\<lambda>regno. DRGN_CFI_RULE_UNDEFINED)
            (16 := DRGN_CFI_RULE_AT_CFA_PLUS_OFFSET (- 8))\<rparr>"
  by (simp add: cfi_eval bb_eval)

lemma cfi_example_row_10:
  "drgn_debug_info_find_cfi_in_fde
     (module_with_section DRGN_SCN_DEBUG_FRAME example_debug_frame)
     [example_frame_cie] example_frame_fde (fde_initial_location example_frame_fde + 10)
   = Inr \<lparr>cfa_rule = DRGN_CFI_RULE_REGISTER_PLUS_OFFSET 7 16,
          reg_rules = (\<lambda>regno. DRGN_CFI_RULE_UNDEFINED)
            (16 := DRGN_CFI_RULE_AT_CFA_PLUS_OFFSET (- 8))\<rparr>"
  by (simp add: cfi_eval bb_eval)

text \<open>
  Claim C2 says that every location-advance opcode, \<^verbatim>\<open>DW_CFA_set_loc\<close> among them,
  advances the current location by its operand times the code alignment factor. It does
  not hold for \<^verbatim>\<open>DW_CFA_set_loc\<close>: with a code alignment factor of 4, a current location
  \<open>0x1000\<close> and the operand \<open>0x1003\<close>, the location becomes \<open>0x1003\<close>, which is
  neither \<open>0x1000 + 0x1003 * 4\<close> nor \<open>0x1000 + (0x1003 - 0x1000) * 4\<close>; execution goes
  on for the target \<open>0x1003\<close>.
\<close>

theorem drgn_eval_dwarf_cfi_set_loc_counterexample:
  "drgn_eval_dwarf_cfi_body
     (module_with_section DRGN_SCN_DEBUG_FRAME [0x01, 0x03, 0x10, 0, 0, 0, 0, 0, 0, 0x0e, 0x10])
     (example_cie False 4 (- 8)) (example_fde 0 0x1000 0x40) (Some drgn_empty_cfi_row) 0x1003
     (binary_buffer_init [0x01, 0x03, 0x10, 0, 0, 0, 0, 0, 0, 0x0e, 0x10] True,
      0x1000, drgn_empty_cfi_row, [])
   = Continue
       ((binary_buffer_init [0x01, 0x03, 0x10, 0, 0, 0, 0, 0, 0, 0x0e, 0x10] True)
          \<lparr>bb_pos := 9, bb_prev := 1\<rparr>,
        0x1003, drgn_empty_cfi_row, []) \<and>
   (0x1003 :: u64) \<noteq> 0x1000 + 0x1003 * cie_code_alignment_factor (example_cie False 4 (- 8)) \<and>
   (0x1003 :: u64) \<noteq>
     0x1000 + (0x1003 - 0x1000) * cie_code_alignment_factor (example_cie False 4 (- 8))"
  by (simp add: drgn_eval_dwarf_cfi_body_def drgn_eval_dwarf_cfi_switch_def
      drgn_dwarf_cfi_next_encoded_def cfi_encoded_base_def cfi_encoded_offset_def
      example_cie_def example_fde_def uint_max_def bb_eval)

text \<open>
  Claim C2, amended. The opcodes \<^verbatim>\<open>DW_CFA_advance_loc\<close>, \<^verbatim>\<open>advance_loc1\<close>,
  \<^verbatim>\<open>advance_loc2\<close> and \<^verbatim>\<open>advance_loc4\<close> advance the current location by their delta
  times the CIE's code alignment factor, and return an error when that product or the
  new location leaves the 64-bit range or the new location exceeds the largest address of
  the CIE's address size; \<^verbatim>\<open>DW_CFA_set_loc\<close> sets the current location to its operand,
  and returns an error when the operand is not greater than the current location; in both
  cases execution stops as soon as the new location exceeds the target, and the row
  returned is the one in effect before the advance. In the
  pass over the CIE's initial instructions (\<open>initial_row\<close> is \<^verbatim>\<open>NULL\<close>), these five
  opcodes, \<^verbatim>\<open>DW_CFA_restore\<close> and \<^verbatim>\<open>DW_CFA_restore_extended\<close> return an error. For the
  CIE with initial instructions \<^verbatim>\<open>def_cfa(r7, 8); offset(r16, -8)\<close> and the FDE with
  \<^verbatim>\<open>advance_loc(4); def_cfa_offset(16)\<close>, the row for the initial location plus 3 has
  the CFA at \<open>r7 + 8\<close> and the row for the initial location plus 10 has it at
  \<open>r7 + 16\<close>, with \<open>r16\<close> at \<open>CFA - 8\<close> in both.
\<close>

theorem drgn_eval_dwarf_cfi_location_advance:
  "(binary_buffer_next_u8 start = Inr (opcode, bb) \<and> opcode AND 0xc0 = DW_CFA_advance_loc \<and>
      initial_row \<noteq> None \<longrightarrow>
    drgn_eval_dwarf_cfi_body module cie fde initial_row target (start, pc, row, stack) =
      advance_location_spec cie target (ucast (opcode AND 0x3f)) (bb, pc, row, stack)) \<and>
   (binary_buffer_next_u8 start = Inr (DW_CFA_advance_loc1, bb) \<and> initial_row \<noteq> None \<and>
      binary_buffer_next_u8_into_u64 bb = Inr (delta, bb') \<longrightarrow>
    drgn_eval_dwarf_cfi_body module cie fde initial_row target (start, pc, row, stack) =
      advance_location_spec cie target delta (bb', pc, row, stack)) \<and>
   (binary_buffer_next_u8 start = Inr (DW_CFA_advance_loc2, bb) \<and> initial_row \<noteq> None \<and>
      binary_buffer_next_u16_into_u64 bb = Inr (delta, bb') \<longrightarrow>
    drgn_eval_dwarf_cfi_body module cie fde initial_row target (start, pc, row, stack) =
      advance_location_spec cie target delta (bb', pc, row, stack)) \<and>
   (binary_buffer_next_u8 start = Inr (DW_CFA_advance_loc4, bb) \<and> initial_row \<noteq> None \<and>
      binary_buffer_next_u32_into_u64 bb = Inr (delta, bb') \<longrightarrow>
    drgn_eval_dwarf_cfi_body module cie fde initial_row target (start, pc, row, stack) =
      advance_location_spec cie target delta (bb', pc, row, stack)) \<and>
   (binary_buffer_next_u8 start = Inr (DW_CFA_set_loc, bb) \<and> initial_row \<noteq> None \<and>
      drgn_dwarf_cfi_next_encoded bb module (cie_address_size cie)
        (cie_address_encoding cie) (fde_initial_location fde) = Inr (loc, bb') \<longrightarrow>
    drgn_eval_dwarf_cfi_body module cie fde initial_row target (start, pc, row, stack) =
      set_location_spec target loc (bb', pc, row, stack)) \<and>
   (binary_buffer_next_u8 start = Inr (opcode, bb) \<and>
      (opcode AND 0xc0 = DW_CFA_advance_loc \<or> opcode AND 0xc0 = DW_CFA_restore \<or>
       opcode = DW_CFA_set_loc \<or> opcode = DW_CFA_advance_loc1 \<or>
       opcode = DW_CFA_advance_loc2 \<or> opcode = DW_CFA_advance_loc4 \<or>
       opcode = DW_CFA_restore_extended) \<longrightarrow>
    drgn_eval_dwarf_cfi_body module cie fde None target (start, pc, row, stack) =
      Return (Inl (binary_buffer_error ''invalid initial DWARF CFI opcode''))) \<and>
   (binary_buffer_has_next start \<and>
      drgn_eval_dwarf_cfi_body module cie fde initial_row target (start, pc, row, stack)
        = Return r \<longrightarrow>
    drgn_eval_dwarf_cfi_loop module cie fde initial_row target (start, pc, row, stack) = r) \<and>
   drgn_debug_info_find_cfi_in_fde
     (module_with_section DRGN_SCN_DEBUG_FRAME example_debug_frame)
     [example_frame_cie] example_frame_fde (fde_initial_location example_frame_fde + 3)
   = Inr \<lparr>cfa_rule = DRGN_CFI_RULE_REGISTER_PLUS_OFFSET 7 8,
          reg_rules = (\<lambda>regno. DRGN_CFI_RULE_UNDEFINED)
            (16 := DRGN_CFI_RULE_AT_CFA_PLUS_OFFSET (- 8))\<rparr> \<and>
   drgn_debug_info_find_cfi_in_fde
     (module_with_section DRGN_SCN_DEBUG_FRAME example_debug_frame)
     [example_frame_cie] example_frame_fde (fde_initial_location example_frame_fde + 10)
   = Inr \<lparr>cfa_rule = DRGN_CFI_RULE_REGISTER_PLUS_OFFSET 7 16,
          reg_rules = (\<lambda>regno. DRGN_CFI_RULE_UNDEFINED)
            (16 := DRGN_CFI_RULE_AT_CFA_PLUS_OFFSET (- 8))\<rparr>"
  by (intro conjI cfi_body_advance_loc cfi_body_advance_loc1 cfi_body_advance_loc2 cfi_body_advance_loc4 cfi_body_set_loc cfi_body_invalid_for_initial cfi_loop_return cfi_example_row_3 cfi_example_row_10)

theorem drgn_eval_dwarf_cfi_location_advance_witness:
  "drgn_eval_dwarf_cfi_body
     (module_with_section DRGN_SCN_DEBUG_FRAME [0x02, 0x05, 0x0e, 0x10])
     (example_cie False 4 (- 8)) (example_fde 0 0x1000 0x40) (Some drgn_empty_cfi_row) 0x1013
     (binary_buffer_init [0x02, 0x05, 0x0e, 0x10] True, 0x1000, drgn_empty_cfi_row, [])
   = Return (Inr drgn_empty_cfi_row) \<and>
   drgn_eval_dwarf_cfi_body
     (module_with_section DRGN_SCN_DEBUG_FRAME [0x02, 0x05, 0x0e, 0x10])
     (example_cie False 4 (- 8)) (example_fde 0 0x1000 0x40) (Some drgn_empty_cfi_row) 0x1014
     (binary_buffer_init [0x02, 0x05, 0x0e, 0x10] True, 0x1000, drgn_empty_cfi_row, [])
   = Continue
       ((binary_buffer_init [0x02, 0x05, 0x0e, 0x10] True)\<lparr>bb_pos := 2, bb_prev := 1\<rparr>,
        0x1014, drgn_empty_cfi_row, []) \<and>
   drgn_eval_dwarf_cfi_body
     (module_with_section DRGN_SCN_DEBUG_FRAME [0x02, 0x05, 0x0e, 0x10])
     (example_cie False 4 (- 8)) (example_fde 0 0x1000 0x40) (Some drgn_empty_cfi_row) 0x1014
     (binary_buffer_init [0x02, 0x05, 0x0e, 0x10] True, 0xffffffffffffffff,
      drgn_empty_cfi_row, [])
   = Return (Inl (drgn_error_create DRGN_ERROR_OTHER ''DW_CFA_advance_loc* overflows location''))"
proof -
  let ?start = "binary_buffer_init [0x02, 0x05, 0x0e, 0x10 :: u8] True"
  let ?bbo = "?start\<lparr>bb_pos := 1, bb_prev := 0\<rparr>"
  let ?bbd = "?start\<lparr>bb_pos := 2, bb_prev := 1\<rparr>"
  let ?cie = "example_cie False 4 (- 8)"
  have op: "binary_buffer_next_u8 ?start = Inr (DW_CFA_advance_loc1, ?bbo)"
    by (simp add: bb_eval)
  have delta: "binary_buffer_next_u8_into_u64 ?bbo = Inr (5, ?bbd)"
    by (simp add: binary_buffer_next_u8_into_u64_def bb_eval)
  have fits: "advance_fits ?cie 0x1000 5"
    by (simp add: advance_fits_def example_cie_def uint_max_def mask_eq_exp_minus_1)
  have over: "\<not> advance_fits ?cie 0xffffffffffffffff 5"
    by (simp add: advance_fits_def example_cie_def)
  have ini: "Some drgn_empty_cfi_row \<noteq> None" by simp
  note adv = drgn_eval_dwarf_cfi_location_advance
    [where start = ?start and bb = ?bbo and bb' = ?bbd and delta = 5 and cie = ?cie
       and pc = "0x1000" and initial_row = "Some drgn_empty_cfi_row"
       and row = drgn_empty_cfi_row and stack = "[]",
     THEN conjunct2, THEN conjunct1, rule_format, OF conjI [OF op conjI [OF ini delta]]]
  note adv_over = drgn_eval_dwarf_cfi_location_advance
    [where start = ?start and bb = ?bbo and bb' = ?bbd and delta = 5 and cie = ?cie
       and pc = "0xffffffffffffffff" and initial_row = "Some drgn_empty_cfi_row"
       and row = drgn_empty_cfi_row and stack = "[]",
     THEN conjunct2, THEN conjunct1, rule_format, OF conjI [OF op conjI [OF ini delta]]]
  show ?thesis
    unfolding adv adv_over using fits over
    by (simp add: advance_location_spec_def example_cie_def)
qed

subsection \<open>CFI instruction execution: registers without an internal number\<close>

lemma cfi_unmapped_undefined:
  "(binary_buffer_next_u8 start = Inr (opcode, bb) \<and>
      (opcode = DW_CFA_undefined \<or> opcode = DW_CFA_same_value) \<and>
      binary_buffer_next_uleb128 bb = Inr (dwarf_regno, bb') \<and> dwarf_regno_to_internal module dwarf_regno = None \<longrightarrow>
    drgn_eval_dwarf_cfi_body module cie fde initial_row target (start, pc, row, stack) = Continue (bb', pc, row, stack))"
  by (intro impI; elim conjE disjE;
      clarsimp simp: drgn_eval_dwarf_cfi_body_def drgn_eval_dwarf_cfi_switch_def
        cfi_restore_def cfi_set_cfa_def invalid_for_initial_def)

lemma cfi_unmapped_offset:
  "(binary_buffer_next_u8 start = Inr (opcode, bb) \<and> opcode AND 0xc0 = DW_CFA_offset \<and>
      drgn_dwarf_cfi_next_offset_f bb cie = Inr (offset, bb') \<and>
      dwarf_regno_to_internal module (ucast (opcode AND 0x3f)) = None \<longrightarrow>
    drgn_eval_dwarf_cfi_body module cie fde initial_row target (start, pc, row, stack) = Continue (bb', pc, row, stack))"
  by (intro impI; elim conjE disjE;
      clarsimp simp: drgn_eval_dwarf_cfi_body_def drgn_eval_dwarf_cfi_switch_def
        cfi_restore_def cfi_set_cfa_def invalid_for_initial_def)

lemma cfi_unmapped_offset_extended:
  "(binary_buffer_next_u8 start = Inr (opcode, bb) \<and>
      (opcode = DW_CFA_offset_extended \<or> opcode = DW_CFA_val_offset) \<and>
      binary_buffer_next_uleb128 bb = Inr (dwarf_regno, bb') \<and>
      drgn_dwarf_cfi_next_offset_f bb' cie = Inr (offset, bb'') \<and> dwarf_regno_to_internal module dwarf_regno = None \<longrightarrow>
    drgn_eval_dwarf_cfi_body module cie fde initial_row target (start, pc, row, stack) = Continue (bb'', pc, row, stack))"
  by (intro impI; elim conjE disjE;
      clarsimp simp: drgn_eval_dwarf_cfi_body_def drgn_eval_dwarf_cfi_switch_def
        cfi_restore_def cfi_set_cfa_def invalid_for_initial_def)

lemma cfi_unmapped_offset_extended_sf:
  "(binary_buffer_next_u8 start = Inr (opcode, bb) \<and>
      (opcode = DW_CFA_offset_extended_sf \<or> opcode = DW_CFA_val_offset_sf) \<and>
      binary_buffer_next_uleb128 bb = Inr (dwarf_regno, bb') \<and>
      drgn_dwarf_cfi_next_offset_sf bb' cie = Inr (offset, bb'') \<and> dwarf_regno_to_internal module dwarf_regno = None \<longrightarrow>
    drgn_eval_dwarf_cfi_body module cie fde initial_row target (start, pc, row, stack) = Continue (bb'', pc, row, stack))"
  by (intro impI; elim conjE disjE;
      clarsimp simp: drgn_eval_dwarf_cfi_body_def drgn_eval_dwarf_cfi_switch_def
        cfi_restore_def cfi_set_cfa_def invalid_for_initial_def)

lemma cfi_unmapped_register:
  "(binary_buffer_next_u8 start = Inr (DW_CFA_register, bb) \<and>
      binary_buffer_next_uleb128 bb = Inr (dwarf_regno, bb') \<and>
      binary_buffer_next_uleb128 bb' = Inr (dwarf_regno2, bb'') \<and> dwarf_regno_to_internal module dwarf_regno = None \<longrightarrow>
    drgn_eval_dwarf_cfi_body module cie fde initial_row target (start, pc, row, stack) = Continue (bb'', pc, row, stack))"
  by (intro impI; elim conjE disjE;
      clarsimp simp: drgn_eval_dwarf_cfi_body_def drgn_eval_dwarf_cfi_switch_def
        cfi_restore_def cfi_set_cfa_def invalid_for_initial_def)

lemma cfi_unmapped_expression:
  "(binary_buffer_next_u8 start = Inr (opcode, bb) \<and>
      (opcode = DW_CFA_expression \<or> opcode = DW_CFA_val_expression) \<and>
      binary_buffer_next_uleb128 bb = Inr (dwarf_regno, bb') \<and>
      drgn_dwarf_cfi_next_block bb' = Inr (expr, bb'') \<and> dwarf_regno_to_internal module dwarf_regno = None \<longrightarrow>
    drgn_eval_dwarf_cfi_body module cie fde initial_row target (start, pc, row, stack) = Continue (bb'', pc, row, stack))"
  by (intro impI; elim conjE disjE;
      clarsimp simp: drgn_eval_dwarf_cfi_body_def drgn_eval_dwarf_cfi_switch_def
        cfi_restore_def cfi_set_cfa_def invalid_for_initial_def)

lemma cfi_unmapped_restore:
  "(binary_buffer_next_u8 start = Inr (opcode, bb) \<and> opcode AND 0xc0 = DW_CFA_restore \<and>
      initial_row \<noteq> None \<and>
      dwarf_regno_to_internal module (ucast (opcode AND 0x3f)) = None \<longrightarrow>
    drgn_eval_dwarf_cfi_body module cie fde initial_row target (start, pc, row, stack) = Continue (bb, pc, row, stack))"
  by (intro impI; elim conjE disjE;
      clarsimp simp: drgn_eval_dwarf_cfi_body_def drgn_eval_dwarf_cfi_switch_def
        cfi_restore_def cfi_set_cfa_def invalid_for_initial_def)

lemma cfi_unmapped_restore_extended:
  "(binary_buffer_next_u8 start = Inr (DW_CFA_restore_extended, bb) \<and>
      initial_row \<noteq> None \<and>
      binary_buffer_next_uleb128 bb = Inr (dwarf_regno, bb') \<and> dwarf_regno_to_internal module dwarf_regno = None \<longrightarrow>
    drgn_eval_dwarf_cfi_body module cie fde initial_row target (start, pc, row, stack) = Continue (bb', pc, row, stack))"
  by (intro impI; elim conjE disjE;
      clarsimp simp: drgn_eval_dwarf_cfi_body_def drgn_eval_dwarf_cfi_switch_def
        cfi_restore_def cfi_set_cfa_def invalid_for_initial_def)

lemma cfi_restore_initial:
  "(binary_buffer_next_u8 start = Inr (opcode, bb) \<and>
      (opcode AND 0xc0 = DW_CFA_restore \<or> opcode = DW_CFA_restore_extended) \<longrightarrow>
    drgn_eval_dwarf_cfi_body module cie fde None target (start, pc, row, stack) =
      Return (Inl (binary_buffer_error ''invalid initial DWARF CFI opcode'')))"
  by (intro impI; elim conjE disjE;
      clarsimp simp: drgn_eval_dwarf_cfi_body_def drgn_eval_dwarf_cfi_switch_def
        cfi_restore_def cfi_set_cfa_def invalid_for_initial_def)

lemma cfi_unmapped_def_cfa:
  "(binary_buffer_next_u8 start = Inr (DW_CFA_def_cfa, bb) \<and>
      binary_buffer_next_uleb128 bb = Inr (dwarf_regno, bb') \<and>
      drgn_dwarf_cfi_next_offset bb' = Inr (offset, bb'') \<and> dwarf_regno_to_internal module dwarf_regno = None \<longrightarrow>
    drgn_eval_dwarf_cfi_body module cie fde initial_row target (start, pc, row, stack) =
      Continue (bb'', pc, drgn_cfi_row_set_cfa row DRGN_CFI_RULE_UNDEFINED, stack))"
  by (intro impI; elim conjE disjE;
      clarsimp simp: drgn_eval_dwarf_cfi_body_def drgn_eval_dwarf_cfi_switch_def
        cfi_restore_def cfi_set_cfa_def invalid_for_initial_def)

lemma cfi_unmapped_def_cfa_sf:
  "(binary_buffer_next_u8 start = Inr (DW_CFA_def_cfa_sf, bb) \<and>
      binary_buffer_next_uleb128 bb = Inr (dwarf_regno, bb') \<and>
      drgn_dwarf_cfi_next_offset_sf bb' cie = Inr (offset, bb'') \<and> dwarf_regno_to_internal module dwarf_regno = None \<longrightarrow>
    drgn_eval_dwarf_cfi_body module cie fde initial_row target (start, pc, row, stack) =
      Continue (bb'', pc, drgn_cfi_row_set_cfa row DRGN_CFI_RULE_UNDEFINED, stack))"
  by (intro impI; elim conjE disjE;
      clarsimp simp: drgn_eval_dwarf_cfi_body_def drgn_eval_dwarf_cfi_switch_def
        cfi_restore_def cfi_set_cfa_def invalid_for_initial_def)

lemma cfi_set_cfa_undefined:
  "drgn_cfi_row_get_cfa (drgn_cfi_row_set_cfa row DRGN_CFI_RULE_UNDEFINED) =
      DRGN_CFI_RULE_UNDEFINED \<and>
    reg_rules (drgn_cfi_row_set_cfa row DRGN_CFI_RULE_UNDEFINED) = reg_rules row"
  by (simp add: drgn_cfi_row_get_cfa_def drgn_cfi_row_set_cfa_def)

text \<open>
  Claim C10 says that a register-rule instruction, \<^verbatim>\<open>DW_CFA_restore\<close> and
  \<^verbatim>\<open>DW_CFA_restore_extended\<close> among them, whose register has no internal number is
  ignored and raises no error. In the pass over a CIE's initial instructions
  (\<open>initial_row\<close> is \<^verbatim>\<open>NULL\<close>) both opcodes return an error before the register is
  looked at: here register 63 has no internal number, and \<^verbatim>\<open>DW_CFA_restore\<close> of
  register 63 (the byte \<open>0xff\<close>) and \<^verbatim>\<open>DW_CFA_restore_extended\<close> of register 63
  (the bytes \<open>0x06 0x3f\<close>) each give the error.
\<close>

theorem drgn_eval_dwarf_cfi_restore_unmapped_counterexample:
  "dwarf_regno_to_internal (module_with_section DRGN_SCN_DEBUG_FRAME [0xff]) 63 = None \<and>
   drgn_eval_dwarf_cfi_body (module_with_section DRGN_SCN_DEBUG_FRAME [0xff])
     (example_cie False 1 (- 8)) (example_fde 0 0x1000 0x40) None 0x1000
     (binary_buffer_init [0xff] True, 0, drgn_empty_cfi_row, [])
   = Return (Inl (binary_buffer_error ''invalid initial DWARF CFI opcode'')) \<and>
   drgn_eval_dwarf_cfi_body (module_with_section DRGN_SCN_DEBUG_FRAME [0x06, 0x3f])
     (example_cie False 1 (- 8)) (example_fde 0 0x1000 0x40) None 0x1000
     (binary_buffer_init [0x06, 0x3f] True, 0, drgn_empty_cfi_row, [])
   = Return (Inl (binary_buffer_error ''invalid initial DWARF CFI opcode''))"
  by (simp add: drgn_eval_dwarf_cfi_body_def drgn_eval_dwarf_cfi_switch_def
      invalid_for_initial_def module_with_section_def bb_eval)

text \<open>
  Claim C10, amended. One iteration of the loop of \<^verbatim>\<open>drgn_eval_dwarf_cfi\<close> on a
  register-rule instruction whose operands decode and whose register has no internal
  number (\<^verbatim>\<open>dwarf_regno_to_internal\<close> gives \<open>None\<close>) continues with the buffer after
  the operands and with the location, the row and the state stack unchanged: no rule is
  set and no error is returned. This holds for \<^verbatim>\<open>DW_CFA_undefined\<close>,
  \<^verbatim>\<open>same_value\<close>, \<^verbatim>\<open>offset\<close>, \<^verbatim>\<open>offset_extended\<close>, \<^verbatim>\<open>val_offset\<close>,
  \<^verbatim>\<open>offset_extended_sf\<close>, \<^verbatim>\<open>val_offset_sf\<close>, \<^verbatim>\<open>register\<close> (for its first
  register), \<^verbatim>\<open>expression\<close> and \<^verbatim>\<open>val_expression\<close> in both passes, and for
  \<^verbatim>\<open>DW_CFA_restore\<close> and \<^verbatim>\<open>restore_extended\<close> in the pass over the FDE's
  instructions (\<open>initial_row\<close> is not \<^verbatim>\<open>NULL\<close>); in the pass over the CIE's initial
  instructions these two return an error whatever the register.
  \<^verbatim>\<open>DW_CFA_def_cfa\<close> and \<^verbatim>\<open>DW_CFA_def_cfa_sf\<close> with such a register set the CFA rule
  to undefined, leave the register rules as they are, and continue.
\<close>

theorem drgn_eval_dwarf_cfi_unmapped_register:
  "(binary_buffer_next_u8 start = Inr (opcode, bb) \<and>
      (opcode = DW_CFA_undefined \<or> opcode = DW_CFA_same_value) \<and>
      binary_buffer_next_uleb128 bb = Inr (dwarf_regno, bb') \<and> dwarf_regno_to_internal module dwarf_regno = None \<longrightarrow>
    drgn_eval_dwarf_cfi_body module cie fde initial_row target (start, pc, row, stack) = Continue (bb', pc, row, stack)) \<and>
   (binary_buffer_next_u8 start = Inr (opcode, bb) \<and> opcode AND 0xc0 = DW_CFA_offset \<and>
      drgn_dwarf_cfi_next_offset_f bb cie = Inr (offset, bb') \<and>
      dwarf_regno_to_internal module (ucast (opcode AND 0x3f)) = None \<longrightarrow>
    drgn_eval_dwarf_cfi_body module cie fde initial_row target (start, pc, row, stack) = Continue (bb', pc, row, stack)) \<and>
   (binary_buffer_next_u8 start = Inr (opcode, bb) \<and>
      (opcode = DW_CFA_offset_extended \<or> opcode = DW_CFA_val_offset) \<and>
      binary_buffer_next_uleb128 bb = Inr (dwarf_regno, bb') \<and>
      drgn_dwarf_cfi_next_offset_f bb' cie = Inr (offset, bb'') \<and> dwarf_regno_to_internal module dwarf_regno = None \<longrightarrow>
    drgn_eval_dwarf_cfi_body module cie fde initial_row target (start, pc, row, stack) = Continue (bb'', pc, row, stack)) \<and>
   (binary_buffer_next_u8 start = Inr (opcode, bb) \<and>
      (opcode = DW_CFA_offset_extended_sf \<or> opcode = DW_CFA_val_offset_sf) \<and>
      binary_buffer_next_uleb128 bb = Inr (dwarf_regno, bb') \<and>
      drgn_dwarf_cfi_next_offset_sf bb' cie = Inr (offset, bb'') \<and> dwarf_regno_to_internal module dwarf_regno = None \<longrightarrow>
    drgn_eval_dwarf_cfi_body module cie fde initial_row target (start, pc, row, stack) = Continue (bb'', pc, row, stack)) \<and>
   (binary_buffer_next_u8 start = Inr (DW_CFA_register, bb) \<and>
      binary_buffer_next_uleb128 bb = Inr (dwarf_regno, bb') \<and>
      binary_buffer_next_uleb128 bb' = Inr (dwarf_regno2, bb'') \<and> dwarf_regno_to_internal module dwarf_regno = None \<longrightarrow>
    drgn_eval_dwarf_cfi_body module cie fde initial_row target (start, pc, row, stack) = Continue (bb'', pc, row, stack)) \<and>
   (binary_buffer_next_u8 start = Inr (opcode, bb) \<and>
      (opcode = DW_CFA_expression \<or> opcode = DW_CFA_val_expression) \<and>
      binary_buffer_next_uleb128 bb = Inr (dwarf_regno, bb') \<and>
      drgn_dwarf_cfi_next_block bb' = Inr (expr, bb'') \<and> dwarf_regno_to_internal module dwarf_regno = None \<longrightarrow>
    drgn_eval_dwarf_cfi_body module cie fde initial_row target (start, pc, row, stack) = Continue (bb'', pc, row, stack)) \<and>
   (binary_buffer_next_u8 start = Inr (opcode, bb) \<and> opcode AND 0xc0 = DW_CFA_restore \<and>
      initial_row \<noteq> None \<and>
      dwarf_regno_to_internal module (ucast (opcode AND 0x3f)) = None \<longrightarrow>
    drgn_eval_dwarf_cfi_body module cie fde initial_row target (start, pc, row, stack) = Continue (bb, pc, row, stack)) \<and>
   (binary_buffer_next_u8 start = Inr (DW_CFA_restore_extended, bb) \<and>
      initial_row \<noteq> None \<and>
      binary_buffer_next_uleb128 bb = Inr (dwarf_regno, bb') \<and> dwarf_regno_to_internal module dwarf_regno = None \<longrightarrow>
    drgn_eval_dwarf_cfi_body module cie fde initial_row target (start, pc, row, stack) = Continue (bb', pc, row, stack)) \<and>
   (binary_buffer_next_u8 start = Inr (opcode, bb) \<and>
      (opcode AND 0xc0 = DW_CFA_restore \<or> opcode = DW_CFA_restore_extended) \<longrightarrow>
    drgn_eval_dwarf_cfi_body module cie fde None target (start, pc, row, stack) =
      Return (Inl (binary_buffer_error ''invalid initial DWARF CFI opcode''))) \<and>
   (binary_buffer_next_u8 start = Inr (DW_CFA_def_cfa, bb) \<and>
      binary_buffer_next_uleb128 bb = Inr (dwarf_regno, bb') \<and>
      drgn_dwarf_cfi_next_offset bb' = Inr (offset, bb'') \<and> dwarf_regno_to_internal module dwarf_regno = None \<longrightarrow>
    drgn_eval_dwarf_cfi_body module cie fde initial_row target (start, pc, row, stack) =
      Continue (bb'', pc, drgn_cfi_row_set_cfa row DRGN_CFI_RULE_UNDEFINED, stack)) \<and>
   (binary_buffer_next_u8 start = Inr (DW_CFA_def_cfa_sf, bb) \<and>
      binary_buffer_next_uleb128 bb = Inr (dwarf_regno, bb') \<and>
      drgn_dwarf_cfi_next_offset_sf bb' cie = Inr (offset, bb'') \<and> dwarf_regno_to_internal module dwarf_regno = None \<longrightarrow>
    drgn_eval_dwarf_cfi_body module cie fde initial_row target (start, pc, row, stack) =
      Continue (bb'', pc, drgn_cfi_row_set_cfa row DRGN_CFI_RULE_UNDEFINED, stack)) \<and>
   drgn_cfi_row_get_cfa (drgn_cfi_row_set_cfa row DRGN_CFI_RULE_UNDEFINED) =
      DRGN_CFI_RULE_UNDEFINED \<and>
    reg_rules (drgn_cfi_row_set_cfa row DRGN_CFI_RULE_UNDEFINED) = reg_rules row"
  by (intro conjI cfi_unmapped_undefined
    cfi_unmapped_offset
    cfi_unmapped_offset_extended
    cfi_unmapped_offset_extended_sf
    cfi_unmapped_register
    cfi_unmapped_expression
    cfi_unmapped_restore
    cfi_unmapped_restore_extended
    cfi_restore_initial
    cfi_unmapped_def_cfa
    cfi_unmapped_def_cfa_sf)
     (simp_all add: drgn_cfi_row_get_cfa_def drgn_cfi_row_set_cfa_def)

theorem drgn_eval_dwarf_cfi_unmapped_register_witness:
  "drgn_eval_dwarf_cfi_body (module_with_section DRGN_SCN_DEBUG_FRAME [0x07, 0x3f, 0x0c, 0x3f, 0x08])
     (example_cie False 1 (- 8)) (example_fde 0 0x1000 0x40) None 0x1000
     (binary_buffer_init [0x07, 0x3f, 0x0c, 0x3f, 0x08] True, 0x1000,
      drgn_cfi_row_set_cfa drgn_empty_cfi_row (DRGN_CFI_RULE_REGISTER_PLUS_OFFSET 7 8), [])
   = Continue
       ((binary_buffer_init [0x07, 0x3f, 0x0c, 0x3f, 0x08] True)\<lparr>bb_pos := 2, bb_prev := 1\<rparr>,
        0x1000,
        drgn_cfi_row_set_cfa drgn_empty_cfi_row (DRGN_CFI_RULE_REGISTER_PLUS_OFFSET 7 8), []) \<and>
   drgn_eval_dwarf_cfi_body (module_with_section DRGN_SCN_DEBUG_FRAME [0x07, 0x3f, 0x0c, 0x3f, 0x08])
     (example_cie False 1 (- 8)) (example_fde 0 0x1000 0x40) None 0x1000
     ((binary_buffer_init [0x07, 0x3f, 0x0c, 0x3f, 0x08] True)\<lparr>bb_pos := 2, bb_prev := 1\<rparr>,
      0x1000,
      drgn_cfi_row_set_cfa drgn_empty_cfi_row (DRGN_CFI_RULE_REGISTER_PLUS_OFFSET 7 8), [])
   = Continue
       ((binary_buffer_init [0x07, 0x3f, 0x0c, 0x3f, 0x08] True)\<lparr>bb_pos := 5, bb_prev := 4\<rparr>,
        0x1000, drgn_empty_cfi_row, [])"
proof -
  let ?data = "[0x07, 0x3f, 0x0c, 0x3f, 0x08] :: u8 list"
  let ?module = "module_with_section DRGN_SCN_DEBUG_FRAME ?data"
  let ?first = "binary_buffer_init ?data True"
  let ?opa = "?first\<lparr>bb_pos := 1, bb_prev := 0\<rparr>"
  let ?second = "?first\<lparr>bb_pos := 2, bb_prev := 1\<rparr>"
  let ?opb = "?first\<lparr>bb_pos := 3, bb_prev := 2\<rparr>"
  let ?rega = "?first\<lparr>bb_pos := 4, bb_prev := 3\<rparr>"
  let ?last = "?first\<lparr>bb_pos := 5, bb_prev := 4\<rparr>"
  let ?row = "drgn_cfi_row_set_cfa drgn_empty_cfi_row (DRGN_CFI_RULE_REGISTER_PLUS_OFFSET 7 8)"
  have unmapped: "dwarf_regno_to_internal ?module 63 = None"
    by (simp add: module_with_section_def)
  have opa: "binary_buffer_next_u8 ?first = Inr (DW_CFA_undefined, ?opa)"
    by (simp add: bb_eval)
  have rega: "binary_buffer_next_uleb128 ?opa = Inr (63, ?second)"
    by (simp add: binary_buffer_next_uleb128_def bb_eval)
  have opb: "binary_buffer_next_u8 ?second = Inr (DW_CFA_def_cfa, ?opb)"
    by (simp add: bb_eval)
  have regb: "binary_buffer_next_uleb128 ?opb = Inr (63, ?rega)"
    by (simp add: binary_buffer_next_uleb128_def bb_eval)
  have offb: "drgn_dwarf_cfi_next_offset ?rega = Inr (8, ?last)"
    by (simp add: drgn_dwarf_cfi_next_offset_def binary_buffer_next_uleb128_def bb_eval)
  note all = drgn_eval_dwarf_cfi_unmapped_register
    [where module = ?module and dwarf_regno = 63 and pc = "0x1000" and row = ?row
       and stack = "[]" and cie = "example_cie False 1 (- 8)"
       and fde = "example_fde 0 0x1000 0x40" and initial_row = None and target = "0x1000"]
  note undef = all [where start = ?first and opcode = DW_CFA_undefined and bb = ?opa
      and bb' = ?second, THEN conjunct1, rule_format,
    OF conjI [OF opa conjI [OF disjI1 [OF refl] conjI [OF rega unmapped]]]]
  note def_cfa = all [where start = ?second and bb = ?opb and bb' = ?rega and bb'' = ?last
      and offset = 8, THEN conjunct2, THEN conjunct2, THEN conjunct2, THEN conjunct2,
    THEN conjunct2, THEN conjunct2, THEN conjunct2, THEN conjunct2, THEN conjunct2,
    THEN conjunct1, rule_format, OF conjI [OF opb conjI [OF regb conjI [OF offb unmapped]]]]
  have row: "drgn_cfi_row_set_cfa ?row DRGN_CFI_RULE_UNDEFINED = drgn_empty_cfi_row"
    by (simp add: drgn_cfi_row_set_cfa_def drgn_empty_cfi_row_def)
  show ?thesis
    unfolding undef def_cfa row by simp
qed

subsection \<open>DWARF expressions: division and modulo\<close>











subsection \<open>DWARF expressions: shifts\<close>









subsection \<open>Unknown opcodes and augmentations\<close>















lemma dwarf_expr_unsupported:
  "\<not> dwarf_expression_opcode_known DW_OP_xderef \<and>
   \<not> dwarf_expression_opcode_known DW_OP_xderef_size \<and>
   \<not> dwarf_expression_opcode_known DW_OP_push_object_address \<and>
   \<not> dwarf_expression_opcode_known DW_OP_call2 \<and>
   \<not> dwarf_expression_opcode_known DW_OP_call4 \<and>
   \<not> dwarf_expression_opcode_known DW_OP_call_ref \<and>
   \<not> dwarf_expression_opcode_known DW_OP_form_tls_address \<and>
   \<not> dwarf_expression_opcode_known DW_OP_implicit_pointer \<and>
   \<not> dwarf_expression_opcode_known DW_OP_entry_value \<and>
   \<not> dwarf_expression_opcode_known DW_OP_const_type \<and>
   \<not> dwarf_expression_opcode_known DW_OP_regval_type \<and>
   \<not> dwarf_expression_opcode_known DW_OP_deref_type \<and>
   \<not> dwarf_expression_opcode_known DW_OP_xderef_type \<and>
   \<not> dwarf_expression_opcode_known DW_OP_convert \<and>
   \<not> dwarf_expression_opcode_known DW_OP_reinterpret"
  by (simp add: dwarf_expression_opcode_known_def)



end
